theory Spec2Isabelle
  imports Complex_Main "HOL-Library.Word" "HOL-Library.Signed_Division"
begin

section \<open>Floating-point values\<close>

text \<open>
  The C++ code computes with \<^verbatim>\<open>float\<close> and \<^verbatim>\<open>double\<close> (\<^verbatim>\<open>qreal\<close>).  A value is
  modelled as an exact real number or one of the three special IEEE-754 values.  Rounding
  and overflow of finite values are not modelled, and zero carries no sign: a zero divisor
  is read as \<^verbatim>\<open>+0.0\<close> (the sums of \<^verbatim>\<open>matvecmul3\<close> start at \<^verbatim>\<open>+0.0\<close> and can never be
  \<^verbatim>\<open>-0.0\<close>).  Comparisons follow IEEE-754: every ordered comparison with NaN is false.
\<close>

datatype cfloat = Fin real | PInf | NInf | NaN

fun flt :: "cfloat \<Rightarrow> cfloat \<Rightarrow> bool" where
  "flt (Fin a) (Fin b) = (a < b)"
| "flt (Fin a) PInf = True"
| "flt NInf (Fin b) = True"
| "flt NInf PInf = True"
| "flt _ _ = False"

definition fgt :: "cfloat \<Rightarrow> cfloat \<Rightarrow> bool" where
  "fgt a b = flt b a"

fun feq :: "cfloat \<Rightarrow> cfloat \<Rightarrow> bool" where
  "feq (Fin a) (Fin b) = (a = b)"
| "feq PInf PInf = True"
| "feq NInf NInf = True"
| "feq _ _ = False"

definition fle :: "cfloat \<Rightarrow> cfloat \<Rightarrow> bool" where
  "fle a b = (flt a b \<or> feq a b)"

fun fneg :: "cfloat \<Rightarrow> cfloat" where
  "fneg (Fin a) = Fin (- a)"
| "fneg PInf = NInf"
| "fneg NInf = PInf"
| "fneg NaN = NaN"

fun fadd :: "cfloat \<Rightarrow> cfloat \<Rightarrow> cfloat" where
  "fadd (Fin a) (Fin b) = Fin (a + b)"
| "fadd NaN _ = NaN"
| "fadd _ NaN = NaN"
| "fadd PInf NInf = NaN"
| "fadd NInf PInf = NaN"
| "fadd PInf _ = PInf"
| "fadd _ PInf = PInf"
| "fadd NInf _ = NInf"
| "fadd _ NInf = NInf"

definition fsub :: "cfloat \<Rightarrow> cfloat \<Rightarrow> cfloat" where
  "fsub a b = fadd a (fneg b)"

fun fmul :: "cfloat \<Rightarrow> cfloat \<Rightarrow> cfloat" where
  "fmul (Fin a) (Fin b) = Fin (a * b)"
| "fmul NaN _ = NaN"
| "fmul _ NaN = NaN"
| "fmul (Fin a) PInf = (if a = 0 then NaN else if 0 < a then PInf else NInf)"
| "fmul (Fin a) NInf = (if a = 0 then NaN else if 0 < a then NInf else PInf)"
| "fmul PInf (Fin b) = (if b = 0 then NaN else if 0 < b then PInf else NInf)"
| "fmul NInf (Fin b) = (if b = 0 then NaN else if 0 < b then NInf else PInf)"
| "fmul PInf PInf = PInf"
| "fmul PInf NInf = NInf"
| "fmul NInf PInf = NInf"
| "fmul NInf NInf = PInf"

fun fdiv :: "cfloat \<Rightarrow> cfloat \<Rightarrow> cfloat" where
  "fdiv (Fin a) (Fin b) =
     (if b \<noteq> 0 then Fin (a / b)
      else if a = 0 then NaN
      else if 0 < a then PInf else NInf)"
| "fdiv NaN _ = NaN"
| "fdiv _ NaN = NaN"
| "fdiv (Fin a) PInf = Fin 0"
| "fdiv (Fin a) NInf = Fin 0"
| "fdiv PInf (Fin b) = (if 0 \<le> b then PInf else NInf)"
| "fdiv NInf (Fin b) = (if 0 \<le> b then NInf else PInf)"
| "fdiv PInf PInf = NaN"
| "fdiv PInf NInf = NaN"
| "fdiv NInf PInf = NaN"
| "fdiv NInf NInf = NaN"

text \<open>\<^verbatim>\<open>std::clamp(v, lo, hi)\<close>: \<^verbatim>\<open>(v < lo) ? lo : (hi < v) ? hi : v\<close>.\<close>

definition fclamp :: "cfloat \<Rightarrow> cfloat \<Rightarrow> cfloat \<Rightarrow> cfloat" where
  "fclamp v lo hi = (if flt v lo then lo else if flt hi v then hi else v)"

text \<open>C's \<^verbatim>\<open>fmin\<close>: the smaller argument; a NaN argument is ignored in favour of the other.\<close>

fun ffmin :: "cfloat \<Rightarrow> cfloat \<Rightarrow> cfloat" where
  "ffmin NaN b = b"
| "ffmin a NaN = a"
| "ffmin a b = (if flt b a then b else a)"

section \<open>Geometry types\<close>

text \<open>
  \<^verbatim>\<open>vec3\<close> is \<^verbatim>\<open>float v[3]\<close>, \<^verbatim>\<open>mat3\<close> is \<^verbatim>\<open>float v[9]\<close> in row-major order: entry
  \<^verbatim>\<open>v[r*3+c]\<close> is component \<open>c\<close> of row \<open>r\<close>.  \<^verbatim>\<open>vertex_data\<close> is the pair \<^verbatim>\<open>(x, y)\<close>, as is
  Qt's \<^verbatim>\<open>QPointF\<close>.
\<close>

type_synonym vec3 = "cfloat \<times> cfloat \<times> cfloat"
type_synonym mat3 = "vec3 \<times> vec3 \<times> vec3"
type_synonym vertex_data = "cfloat \<times> cfloat"
type_synonym QPointF = "cfloat \<times> cfloat"

datatype QRectF = QRectF cfloat cfloat cfloat cfloat

datatype error = OutOfRange | WritePastEnd | AssertionFailed | DivisionByZero

record line_vertices_data =
  v_arr :: "vertex_data list"
  cnt :: int

section \<open>Messages\<close>

record XYZTData =
  getX :: "cfloat list"
  getY :: "cfloat list"
  getZ :: "cfloat list"

record ModelDataV2 =
  getPosition :: XYZTData
  getLaneLines :: "XYZTData list"
  getLaneLineProbs :: "cfloat list"
  getRoadEdges :: "XYZTData list"
  getRoadEdgeStds :: "cfloat list"

record LeadData =
  getStatus :: bool
  getDRel :: cfloat
  getYRel :: cfloat

record RadarState =
  getLeadOne :: LeadData
  getLeadTwo :: LeadData

datatype AlertStatus = NORMAL | USER_PROMPT | CRITICAL

record ControlsState =
  getEngageable :: bool
  getEnabled :: bool
  getAlertStatus :: AlertStatus
  getAlertTextMsg1 :: string
  getAlertTextMsg2 :: string
  getAlertTextMsg3 :: string

datatype PandaType =
  UNKNOWN | WHITE_PANDA | GREY_PANDA | BLACK_PANDA | PEDAL | UNO | DOS | RED_PANDA

record PandaState =
  getPandaType :: PandaType
  getIgnitionLine :: bool
  getIgnitionCan :: bool

text \<open>A sensor event is a union; \<^verbatim>\<open>which()\<close> selects the member.\<close>

datatype SensorEventData =
  ACCELERATION "cfloat list" | GYRO_UNCALIBRATED "cfloat list" | OTHER_SENSOR

record FrameData =
  getGain :: cfloat
  getIntegLines :: "32 word"

record DeviceState =
  getStarted :: bool
  getStartedMonoTime :: "64 word"

record CarState =
  getCruiseSwState :: int
  getVEgo :: cfloat

record LiveNaviData =
  getMapEnable :: int

text \<open>
  Payloads that the code only copies into the scene, without reading them; the number
  stands for the content.
\<close>

datatype GpsLocationData = GpsLocationData nat
datatype LiveParametersData = LiveParametersData nat
datatype LateralPlan = LateralPlan nat

text \<open>
  \<^verbatim>\<open>SubMaster\<close>: the tick counter, per topic the freshness flag and the tick of the last
  received sample, and the latest payload of each subscribed topic.
\<close>

record SubMaster =
  frame :: "64 word"
  updated :: "string \<Rightarrow> bool"
  rcv_frame :: "string \<Rightarrow> 64 word"
  msg_modelV2 :: ModelDataV2
  msg_radarState :: RadarState
  msg_controlsState :: ControlsState
  msg_driverMonitoringState_isActiveMode :: bool
  msg_liveCalibration_rpyCalib :: "cfloat list"
  msg_pandaStates :: "PandaState list"
  msg_carParams_openpilotLongitudinalControl :: bool
  msg_sensorEvents :: "SensorEventData list"
  msg_roadCameraState :: FrameData
  msg_deviceState :: DeviceState
  msg_carState :: CarState
  msg_liveNaviData :: LiveNaviData
  msg_gpsLocationExternal :: GpsLocationData
  msg_liveParameters :: LiveParametersData
  msg_lateralPlan :: LateralPlan

section \<open>Scene and UI state\<close>

datatype UIStatus = STATUS_DISENGAGED | STATUS_ENGAGED | STATUS_WARNING | STATUS_ALERT

record scr_t =
  scr_autoScreenOff :: int
  scr_brightness_off :: int
  scr_nTime :: int
  scr_awake :: int
  scr_map_is_running :: int

record UIScene =
  view_from_calib :: mat3
  world_objects_visible :: bool
  is_metric :: bool
  IsOpenpilotViewEnabled :: bool
  engageable :: bool
  dm_active :: bool
  lane_line_probs :: "cfloat list"
  road_edge_stds :: "cfloat list"
  track_vertices :: line_vertices_data
  lane_line_vertices :: "line_vertices_data list"
  road_edge_vertices :: "line_vertices_data list"
  lead_vertices :: "vertex_data list"
  pandaType :: PandaType
  ignition :: bool
  longitudinal_control :: bool
  accel_sensor :: cfloat
  gyro_sensor :: cfloat
  light_sensor :: cfloat
  started :: bool
  started_frame :: "64 word"
  end_to_end :: bool
  gpsLocationExternal :: GpsLocationData
  deviceState :: DeviceState
  controls_state :: ControlsState
  alertTextMsg1 :: string
  alertTextMsg2 :: string
  alertTextMsg3 :: string
  car_state :: CarState
  liveNaviData :: LiveNaviData
  liveParameters :: LiveParametersData
  lateralPlan :: LateralPlan
  scr :: scr_t

text \<open>
  \<^verbatim>\<open>car_space_transform\<close> is a \<^verbatim>\<open>QTransform\<close>; only its \<^verbatim>\<open>map\<close> on points is used, so the
  field holds that function.  \<^verbatim>\<open>vg\<close> is a pointer that the code only tests for null.
\<close>

record UIState =
  fb_w :: int
  fb_h :: int
  sm :: SubMaster
  status :: UIStatus
  scene :: UIScene
  wide_camera :: bool
  car_space_transform :: "QPointF \<Rightarrow> QPointF"
  vg :: bool
  running_time :: cfloat
  awake :: bool

text \<open>
  What \<^verbatim>\<open>ui.cc\<close> takes from headers and collaborators outside this file: the constants of
  \<^verbatim>\<open>ui.h\<close>, the camera intrinsics, the platform queries of \<^verbatim>\<open>Hardware\<close>, \<^verbatim>\<open>euler2rot\<close>
  and the settings store read by \<^verbatim>\<open>Params().getBool\<close>.
\<close>

record env =
  TRAJECTORY_SIZE :: nat
  UI_FREQ :: int
  MIN_DRAW_DISTANCE :: cfloat
  MAX_DRAW_DISTANCE :: cfloat
  fcam_intrinsic_matrix :: mat3
  ecam_intrinsic_matrix :: mat3
  Hardware_TICI :: bool
  Hardware_EON :: bool
  euler2rot :: "vec3 \<Rightarrow> mat3"
  Params_getBool :: "string \<Rightarrow> bool"

section \<open>Geometry Projector\<close>

text \<open>
  Modelled from the spec: \<^verbatim>\<open>matvecmul3\<close> (selfdrive/common/mat.h, not under src/), the
  product of a 3x3 matrix and a vector, each component accumulated from \<^verbatim>\<open>0.0\<close>.
\<close>

definition dot3 :: "vec3 \<Rightarrow> vec3 \<Rightarrow> cfloat" where
  "dot3 a b =
     (case (a, b) of ((a0, a1, a2), (b0, b1, b2)) \<Rightarrow>
        fadd (fadd (fadd (Fin 0) (fmul a0 b0)) (fmul a1 b1)) (fmul a2 b2))"

definition matvecmul3 :: "mat3 \<Rightarrow> vec3 \<Rightarrow> vec3" where
  "matvecmul3 a b = (case a of (r0, r1, r2) \<Rightarrow> (dot3 r0 b, dot3 r1 b, dot3 r2 b))"

text \<open>
  Qt's \<^verbatim>\<open>QRectF::contains(const QPointF &)\<close>: the rectangle is normalised, a rectangle of
  zero width or height contains nothing, and a point is rejected when a coordinate is
  less than the lower or greater than the upper edge, so the edges belong to the rectangle.
\<close>

definition QRectF_contains :: "QRectF \<Rightarrow> QPointF \<Rightarrow> bool" where
  "QRectF_contains rc p =
     (case rc of QRectF xp yp w h \<Rightarrow>
        (let l = (if flt w (Fin 0) then fadd xp w else xp);
             r = (if flt w (Fin 0) then xp else fadd xp w)
         in if feq l r then False
            else if flt (fst p) l \<or> fgt (fst p) r then False
            else
              (let t = (if flt h (Fin 0) then fadd yp h else yp);
                   b = (if flt h (Fin 0) then yp else fadd yp h)
               in if feq t b then False
                  else if flt (snd p) t \<or> fgt (snd p) b then False
                  else True)))"

definition clip_region :: "UIState \<Rightarrow> QRectF" where
  "clip_region s =
     (let margin = Fin 500
      in QRectF (fneg margin) (fneg margin)
           (fadd (Fin (real_of_int (fb_w s))) (fmul (Fin 2) margin))
           (fadd (Fin (real_of_int (fb_h s))) (fmul (Fin 2) margin)))"

definition project_point :: "env \<Rightarrow> UIState \<Rightarrow> cfloat \<Rightarrow> cfloat \<Rightarrow> cfloat \<Rightarrow> QPointF" where
  "project_point e s in_x in_y in_z =
     (let pt = (in_x, in_y, in_z);
          Ep = matvecmul3 (view_from_calib (scene s)) pt;
          KEp = matvecmul3 (if wide_camera s then ecam_intrinsic_matrix e
                            else fcam_intrinsic_matrix e) Ep
      in case KEp of (k0, k1, k2) \<Rightarrow> car_space_transform s (fdiv k0 k2, fdiv k1 k2))"

text \<open>
  \<^verbatim>\<open>calib_frame_to_full_frame\<close>.  The output pointer \<^verbatim>\<open>out\<close> is the element \<open>k\<close> of the
  vertex array \<open>vs\<close>; a write through a pointer at or past the end of the array is the
  error \<open>WritePastEnd\<close>.  The result is the validity flag and the array after the call.
\<close>

definition calib_frame_to_full_frame ::
  "env \<Rightarrow> UIState \<Rightarrow> cfloat \<Rightarrow> cfloat \<Rightarrow> cfloat \<Rightarrow> vertex_data list \<Rightarrow> nat
     \<Rightarrow> error + (bool \<times> vertex_data list)" where
  "calib_frame_to_full_frame e s in_x in_y in_z vs k =
     (let point = project_point e s in_x in_y in_z
      in if QRectF_contains (clip_region s) point
         then (if k < length vs then Inr (True, vs[k := point]) else Inl WritePastEnd)
         else Inr (False, vs))"

section \<open>Polyline Builder\<close>

text \<open>Reading a message list at an index outside the list is the error \<open>OutOfRange\<close>.\<close>

definition rd :: "'a list \<Rightarrow> int \<Rightarrow> error + 'a" where
  "rd xs i = (if 0 \<le> i \<and> nat i < length xs then Inr (xs ! nat i) else Inl OutOfRange)"

text \<open>
  \<^verbatim>\<open>get_path_length_idx\<close>: the loop runs while \<^verbatim>\<open>i < TRAJECTORY_SIZE && line_x[i] < path_height\<close>
  and stores \<open>i\<close> in \<^verbatim>\<open>max_idx\<close>.
\<close>

function path_length_loop :: "nat \<Rightarrow> cfloat list \<Rightarrow> cfloat \<Rightarrow> nat \<Rightarrow> int \<Rightarrow> error + int" where
  "path_length_loop tsz line_x path_height i max_idx =
     (if i < tsz then
        (case rd line_x (int i) of
           Inl err \<Rightarrow> Inl err
         | Inr xi \<Rightarrow>
             if flt xi path_height
             then path_length_loop tsz line_x path_height (Suc i) (int i)
             else Inr max_idx)
      else Inr max_idx)"
  by pat_completeness auto
termination
  by (relation "measure (\<lambda>(tsz, line_x, path_height, i, max_idx). tsz - i)") auto

declare path_length_loop.simps [simp del]

definition get_path_length_idx :: "env \<Rightarrow> XYZTData \<Rightarrow> cfloat \<Rightarrow> error + int" where
  "get_path_length_idx e line path_height =
     path_length_loop (TRAJECTORY_SIZE e) (getX line) path_height 0 0"

text \<open>
  One pass of \<^verbatim>\<open>update_line_data\<close> over the indices \<open>idxs\<close>, in their order: each point is
  projected through the output pointer \<^verbatim>\<open>v\<close> (offset \<open>k\<close> into the array), and \<^verbatim>\<open>v\<close> advances
  by one when the point is valid.  \<open>side\<close> is the lateral offset of the pass:
  \<^verbatim>\<open>line_y[i] - y_off\<close> forward, \<^verbatim>\<open>line_y[i] + y_off\<close> backward.
\<close>

fun line_pass ::
  "env \<Rightarrow> UIState \<Rightarrow> XYZTData \<Rightarrow> (cfloat \<Rightarrow> cfloat) \<Rightarrow> cfloat \<Rightarrow> int list
     \<Rightarrow> vertex_data list \<times> nat \<Rightarrow> error + (vertex_data list \<times> nat)" where
  "line_pass e s line side z_off [] st = Inr st"
| "line_pass e s line side z_off (i # idxs) st =
     (case rd (getX line) i of Inl err \<Rightarrow> Inl err | Inr lx \<Rightarrow>
     (case rd (getY line) i of Inl err \<Rightarrow> Inl err | Inr ly \<Rightarrow>
     (case rd (getZ line) i of Inl err \<Rightarrow> Inl err | Inr lz \<Rightarrow>
     (case calib_frame_to_full_frame e s lx (side ly) (fadd lz z_off) (fst st) (snd st) of
        Inl err \<Rightarrow> Inl err
      | Inr (valid, vs') \<Rightarrow>
          line_pass e s line side z_off idxs (vs', snd st + (if valid then 1 else 0))))))"

text \<open>
  \<^verbatim>\<open>update_line_data\<close>: the forward pass \<^verbatim>\<open>for (i = 0; i <= max_idx; i++)\<close>, the backward
  pass \<^verbatim>\<open>for (i = max_idx; i >= 0; i--)\<close>, then the count and the assertion on it.
\<close>

definition update_line_data ::
  "env \<Rightarrow> UIState \<Rightarrow> XYZTData \<Rightarrow> cfloat \<Rightarrow> cfloat \<Rightarrow> line_vertices_data \<Rightarrow> int
     \<Rightarrow> error + line_vertices_data" where
  "update_line_data e s line y_off z_off pvd max_idx =
     (case line_pass e s line (\<lambda>ly. fsub ly y_off) z_off [0..max_idx] (v_arr pvd, 0) of
        Inl err \<Rightarrow> Inl err
      | Inr st1 \<Rightarrow>
     (case line_pass e s line (\<lambda>ly. fadd ly y_off) z_off (rev [0..max_idx]) st1 of
        Inl err \<Rightarrow> Inl err
      | Inr (vs, k) \<Rightarrow>
          if int k \<le> int (length vs)
          then Inr (pvd\<lparr>v_arr := vs, cnt := int k\<rparr>)
          else Inl AssertionFailed))"

section \<open>Scene Aggregator\<close>

subsection \<open>Model update\<close>

text \<open>
  A \<^verbatim>\<open>for\<close> loop whose body may fail: the body runs on each index in turn and the first
  error ends the loop.
\<close>

fun forE :: "('i \<Rightarrow> 's \<Rightarrow> error + 's) \<Rightarrow> 'i list \<Rightarrow> 's \<Rightarrow> error + 's" where
  "forE body [] s = Inr s"
| "forE body (i # idxs) s =
     (case body i s of Inl err \<Rightarrow> Inl err | Inr s' \<Rightarrow> forE body idxs s')"

text \<open>
  The body of the lane-line loop of \<^verbatim>\<open>update_model\<close>: the probability is stored, then the
  polyline is rebuilt in place.
\<close>

definition lane_line_step :: "env \<Rightarrow> ModelDataV2 \<Rightarrow> int \<Rightarrow> nat \<Rightarrow> UIState \<Rightarrow> error + UIState" where
  "lane_line_step e model max_idx i s =
     (case rd (getLaneLineProbs model) (int i) of Inl err \<Rightarrow> Inl err | Inr prob \<Rightarrow>
        if i < length (lane_line_probs (scene s)) then
          (let s1 = s\<lparr>scene := (scene s)\<lparr>lane_line_probs := (lane_line_probs (scene s))[i := prob]\<rparr>\<rparr>
           in case rd (getLaneLines model) (int i) of Inl err \<Rightarrow> Inl err | Inr line \<Rightarrow>
             (case update_line_data e s1 line
                     (fmul (Fin 0.025) (lane_line_probs (scene s1) ! i)) (Fin 0)
                     (lane_line_vertices (scene s1) ! i) max_idx of
                Inl err \<Rightarrow> Inl err
              | Inr pvd \<Rightarrow>
                  Inr (s1\<lparr>scene := (scene s1)\<lparr>lane_line_vertices :=
                         (lane_line_vertices (scene s1))[i := pvd]\<rparr>\<rparr>)))
        else Inl WritePastEnd)"

text \<open>The body of the road-edge loop.\<close>

definition road_edge_step :: "env \<Rightarrow> ModelDataV2 \<Rightarrow> int \<Rightarrow> nat \<Rightarrow> UIState \<Rightarrow> error + UIState" where
  "road_edge_step e model max_idx i s =
     (case rd (getRoadEdgeStds model) (int i) of Inl err \<Rightarrow> Inl err | Inr std \<Rightarrow>
        if i < length (road_edge_stds (scene s)) then
          (let s1 = s\<lparr>scene := (scene s)\<lparr>road_edge_stds := (road_edge_stds (scene s))[i := std]\<rparr>\<rparr>
           in case rd (getRoadEdges model) (int i) of Inl err \<Rightarrow> Inl err | Inr line \<Rightarrow>
             (case update_line_data e s1 line (Fin 0.025) (Fin 0)
                     (road_edge_vertices (scene s1) ! i) max_idx of
                Inl err \<Rightarrow> Inl err
              | Inr pvd \<Rightarrow>
                  Inr (s1\<lparr>scene := (scene s1)\<lparr>road_edge_vertices :=
                         (road_edge_vertices (scene s1))[i := pvd]\<rparr>\<rparr>)))
        else Inl WritePastEnd)"

text \<open>
  The visibility distance of the driving path: with a confident lead,
  \<^verbatim>\<open>lead_d = dRel * 2\<close> and \<^verbatim>\<open>clamp(lead_d - fmin(lead_d * 0.35, 10.), 0.0f, max_distance)\<close>.
\<close>

definition path_max_distance :: "LeadData \<Rightarrow> cfloat \<Rightarrow> cfloat" where
  "path_max_distance lead_one max_distance =
     (if getStatus lead_one then
        (let lead_d = fmul (getDRel lead_one) (Fin 2)
         in fclamp (fsub lead_d (ffmin (fmul lead_d (Fin 0.35)) (Fin 10))) (Fin 0) max_distance)
      else max_distance)"

definition update_model :: "env \<Rightarrow> UIState \<Rightarrow> ModelDataV2 \<Rightarrow> error + UIState" where
  "update_model e s model =
     (let model_position = getPosition model
      in case rd (getX model_position) (int (TRAJECTORY_SIZE e) - 1) of
           Inl err \<Rightarrow> Inl err
         | Inr x_last \<Rightarrow>
     (let max_distance = fclamp x_last (MIN_DRAW_DISTANCE e) (MAX_DRAW_DISTANCE e)
      in case rd (getLaneLines model) 0 of Inl err \<Rightarrow> Inl err | Inr lane0 \<Rightarrow>
     (case get_path_length_idx e lane0 max_distance of Inl err \<Rightarrow> Inl err | Inr max_idx \<Rightarrow>
     (case forE (lane_line_step e model max_idx)
             [0..<length (lane_line_vertices (scene s))] s of
        Inl err \<Rightarrow> Inl err
      | Inr s1 \<Rightarrow>
     (case forE (road_edge_step e model max_idx)
             [0..<length (road_edge_vertices (scene s1))] s1 of
        Inl err \<Rightarrow> Inl err
      | Inr s2 \<Rightarrow>
     (let lead_one = getLeadOne (msg_radarState (sm s2));
          max_distance2 = path_max_distance lead_one max_distance
      in case get_path_length_idx e model_position max_distance2 of
           Inl err \<Rightarrow> Inl err
         | Inr max_idx2 \<Rightarrow>
     (case update_line_data e s2 model_position (Fin 0.5) (Fin 1.22)
             (track_vertices (scene s2)) max_idx2 of
        Inl err \<Rightarrow> Inl err
      | Inr pvd \<Rightarrow> Inr (s2\<lparr>scene := (scene s2)\<lparr>track_vertices := pvd\<rparr>\<rparr>))))))))"

subsection \<open>Lead markers\<close>

text \<open>
  The vertical coordinate of a lead marker:
  \<^verbatim>\<open>line ? (*line).getZ()[get_path_length_idx(*line, lead_data.getDRel())] : 0.0\<close>.
\<close>

definition lead_z :: "env \<Rightarrow> XYZTData option \<Rightarrow> LeadData \<Rightarrow> error + cfloat" where
  "lead_z e line lead_data =
     (case line of
        None \<Rightarrow> Inr (Fin 0)
      | Some l \<Rightarrow>
          (case get_path_length_idx e l (getDRel lead_data) of
             Inl err \<Rightarrow> Inl err
           | Inr idx \<Rightarrow> rd (getZ l) idx))"

definition update_lead :: "env \<Rightarrow> UIState \<Rightarrow> LeadData \<Rightarrow> XYZTData option \<Rightarrow> nat \<Rightarrow> error + UIState" where
  "update_lead e s lead_data line i =
     (if getStatus lead_data then
        (case lead_z e line lead_data of
           Inl err \<Rightarrow> Inl err
         | Inr z \<Rightarrow>
             (case calib_frame_to_full_frame e s (getDRel lead_data) (fneg (getYRel lead_data))
                     (fadd z (Fin 1.22)) (lead_vertices (scene s)) i of
                Inl err \<Rightarrow> Inl err
              | Inr (valid, vs) \<Rightarrow> Inr (s\<lparr>scene := (scene s)\<lparr>lead_vertices := vs\<rparr>\<rparr>)))
      else Inr s)"

definition update_leads :: "env \<Rightarrow> UIState \<Rightarrow> RadarState \<Rightarrow> XYZTData option \<Rightarrow> error + UIState" where
  "update_leads e s radar_state line =
     (case update_lead e s (getLeadOne radar_state) line 0 of
        Inl err \<Rightarrow> Inl err
      | Inr s1 \<Rightarrow> update_lead e s1 (getLeadTwo radar_state) line 1)"

subsection \<open>The tick's update pass\<close>

text \<open>
  \<^verbatim>\<open>update_state\<close> is a sequence of independent statements, one per topic.  Each is a
  function here, in the order of the source; \<^verbatim>\<open>update_state\<close> below chains them.
  \<open>now\<close> is the value of \<^verbatim>\<open>nanos_since_boot()\<close>.
\<close>

definition state_running_time :: "64 word \<Rightarrow> UIState \<Rightarrow> UIState" where
  "state_running_time now s =
     s\<lparr>running_time :=
         fmul (Fin (1 / 1000000000))
           (Fin (real (unat (now - getStartedMonoTime (msg_deviceState (sm s))))))\<rparr>"

text \<open>
  \<^verbatim>\<open>sm.frame % (UI_FREQ / 2) == 0\<close>: the \<^verbatim>\<open>int\<close> quotient is converted to \<^verbatim>\<open>uint64_t\<close>;
  a zero divisor is the error \<open>DivisionByZero\<close>.
\<close>

definition state_engageable :: "env \<Rightarrow> UIState \<Rightarrow> error + UIState" where
  "state_engageable e s =
     (let d = (word_of_int (UI_FREQ e sdiv 2) :: 64 word)
      in if d = 0 then Inl DivisionByZero
         else if frame (sm s) mod d = 0 then
           (let cs = msg_controlsState (sm s)
            in Inr (s\<lparr>scene := (scene s)\<lparr>
                 engageable := (getEngageable cs \<or> getEnabled cs),
                 dm_active := msg_driverMonitoringState_isActiveMode (sm s)\<rparr>\<rparr>))
         else Inr s)"

definition state_model :: "env \<Rightarrow> UIState \<Rightarrow> error + UIState" where
  "state_model e s =
     (if updated (sm s) ''modelV2'' \<and> vg s then update_model e s (msg_modelV2 (sm s))
      else Inr s)"

definition state_leads :: "env \<Rightarrow> UIState \<Rightarrow> error + UIState" where
  "state_leads e s =
     (if updated (sm s) ''radarState'' \<and> vg s then
        (let line = (if 0 < rcv_frame (sm s) ''modelV2''
                     then Some (getPosition (msg_modelV2 (sm s))) else None)
         in update_leads e s (msg_radarState (sm s)) line)
      else Inr s)"

text \<open>The product of two 3x3 matrices, entry \<open>(i, j)\<close> being row \<open>i\<close> times column \<open>j\<close>.\<close>

definition matmul3 :: "mat3 \<Rightarrow> mat3 \<Rightarrow> mat3" where
  "matmul3 a b =
     (case (a, b) of
        ((r0, r1, r2), ((b00, b01, b02), (b10, b11, b12), (b20, b21, b22))) \<Rightarrow>
          (let c0 = (b00, b10, b20); c1 = (b01, b11, b21); c2 = (b02, b12, b22)
           in ((dot3 r0 c0, dot3 r0 c1, dot3 r0 c2),
               (dot3 r1 c0, dot3 r1 c1, dot3 r1 c2),
               (dot3 r2 c0, dot3 r2 c1, dot3 r2 c2))))"

definition view_from_device :: mat3 where
  "view_from_device =
     ((Fin 0, Fin 1, Fin 0),
      (Fin 0, Fin 0, Fin 1),
      (Fin 1, Fin 0, Fin 0))"

definition state_calibration :: "env \<Rightarrow> UIState \<Rightarrow> error + UIState" where
  "state_calibration e s =
     (if updated (sm s) ''liveCalibration'' then
        (let s1 = s\<lparr>scene := (scene s)\<lparr>world_objects_visible := True\<rparr>\<rparr>;
             rpy_list = msg_liveCalibration_rpyCalib (sm s)
         in case rd rpy_list 0 of Inl err \<Rightarrow> Inl err | Inr r0 \<Rightarrow>
           (case rd rpy_list 1 of Inl err \<Rightarrow> Inl err | Inr r1 \<Rightarrow>
           (case rd rpy_list 2 of Inl err \<Rightarrow> Inl err | Inr r2 \<Rightarrow>
              (let device_from_calib = euler2rot e (r0, r1, r2)
               in Inr (s1\<lparr>scene := (scene s1)\<lparr>view_from_calib :=
                          matmul3 view_from_device device_from_calib\<rparr>\<rparr>)))))
      else Inr s)"

definition state_pandaStates :: "env \<Rightarrow> UIState \<Rightarrow> UIState" where
  "state_pandaStates e s =
     (if updated (sm s) ''pandaStates'' then
        (let pandaStates = msg_pandaStates (sm s)
         in if 0 < length pandaStates then
              (let s1 = s\<lparr>scene := (scene s)\<lparr>pandaType := getPandaType (pandaStates ! 0)\<rparr>\<rparr>
               in if pandaType (scene s1) \<noteq> UNKNOWN then
                    s1\<lparr>scene := (scene s1)\<lparr>ignition :=
                         foldl (\<lambda>ign pandaState.
                                  ign \<or> (getIgnitionLine pandaState \<or> getIgnitionCan pandaState))
                               False pandaStates\<rparr>\<rparr>
                  else s1)
            else s)
      else if frame (sm s) - rcv_frame (sm s) ''pandaStates'' > word_of_int (5 * UI_FREQ e)
      then s\<lparr>scene := (scene s)\<lparr>pandaType := UNKNOWN\<rparr>\<rparr>
      else s)"

definition state_carParams :: "UIState \<Rightarrow> UIState" where
  "state_carParams s =
     (if updated (sm s) ''carParams'' then
        s\<lparr>scene := (scene s)\<lparr>longitudinal_control :=
             msg_carParams_openpilotLongitudinalControl (sm s)\<rparr>\<rparr>
      else s)"

text \<open>
  The body of the sensor loop.  \<^verbatim>\<open>totalSize().wordCount\<close> is zero exactly for an empty
  list, so a non-empty list shorter than the index read is read outside its range.
\<close>

fun sensor_event_step :: "SensorEventData \<Rightarrow> UIState \<Rightarrow> error + UIState" where
  "sensor_event_step (ACCELERATION accel) s =
     (if accel \<noteq> [] then
        (case rd accel 2 of
           Inl err \<Rightarrow> Inl err
         | Inr a \<Rightarrow> Inr (s\<lparr>scene := (scene s)\<lparr>accel_sensor := a\<rparr>\<rparr>))
      else Inr s)"
| "sensor_event_step (GYRO_UNCALIBRATED gyro) s =
     (if gyro \<noteq> [] then
        (case rd gyro 1 of
           Inl err \<Rightarrow> Inl err
         | Inr g \<Rightarrow> Inr (s\<lparr>scene := (scene s)\<lparr>gyro_sensor := g\<rparr>\<rparr>))
      else Inr s)"
| "sensor_event_step OTHER_SENSOR s = Inr s"

definition state_sensorEvents :: "UIState \<Rightarrow> error + UIState" where
  "state_sensorEvents s =
     (if \<not> started (scene s) \<and> updated (sm s) ''sensorEvents''
      then forE sensor_event_step (msg_sensorEvents (sm s)) s
      else Inr s)"

definition state_roadCameraState :: "env \<Rightarrow> UIState \<Rightarrow> UIState" where
  "state_roadCameraState e s =
     (if updated (sm s) ''roadCameraState'' then
        (let camera_state = msg_roadCameraState (sm s);
             max_lines = (if Hardware_EON e then Fin 5408 else Fin 1904);
             max_gain = (if Hardware_EON e then Fin 1 else Fin 10);
             max_ev0 = fmul max_lines max_gain;
             max_ev = (if Hardware_TICI e then fdiv max_ev0 (Fin 6) else max_ev0);
             ev = fmul (getGain camera_state) (Fin (real (unat (getIntegLines camera_state))))
         in s\<lparr>scene := (scene s)\<lparr>light_sensor :=
                fclamp (fsub (Fin 1) (fdiv ev max_ev)) (Fin 0) (Fin 1)\<rparr>\<rparr>)
      else s)"

definition state_started :: "UIState \<Rightarrow> UIState" where
  "state_started s =
     (if IsOpenpilotViewEnabled (scene s)
      then s\<lparr>scene := (scene s)\<lparr>started := getStarted (msg_deviceState (sm s))\<rparr>\<rparr>
      else s\<lparr>scene := (scene s)\<lparr>started :=
                (getStarted (msg_deviceState (sm s)) \<and> ignition (scene s))\<rparr>\<rparr>)"

definition state_gpsLocationExternal :: "UIState \<Rightarrow> UIState" where
  "state_gpsLocationExternal s =
     (if updated (sm s) ''gpsLocationExternal''
      then s\<lparr>scene := (scene s)\<lparr>gpsLocationExternal := msg_gpsLocationExternal (sm s)\<rparr>\<rparr>
      else s)"

definition state_deviceState :: "UIState \<Rightarrow> UIState" where
  "state_deviceState s =
     (if updated (sm s) ''deviceState''
      then s\<lparr>scene := (scene s)\<lparr>deviceState := msg_deviceState (sm s)\<rparr>\<rparr>
      else s)"

definition state_controlsState :: "UIState \<Rightarrow> UIState" where
  "state_controlsState s =
     (if started (scene s) \<and> updated (sm s) ''controlsState'' then
        (let cs = msg_controlsState (sm s)
         in s\<lparr>scene := (scene s)\<lparr>
              controls_state := cs,
              alertTextMsg1 := getAlertTextMsg1 cs,
              alertTextMsg2 := getAlertTextMsg2 cs,
              alertTextMsg3 := getAlertTextMsg3 cs\<rparr>\<rparr>)
      else s)"

definition state_carState :: "UIState \<Rightarrow> UIState" where
  "state_carState s =
     (if updated (sm s) ''carState'' then
        s\<lparr>scene := (scene s)\<lparr>
             car_state := msg_carState (sm s),
             scr := (scr (scene s))\<lparr>scr_awake := getCruiseSwState (msg_carState (sm s))\<rparr>\<rparr>\<rparr>
      else s)"

definition state_liveNaviData :: "UIState \<Rightarrow> UIState" where
  "state_liveNaviData s =
     (if updated (sm s) ''liveNaviData'' then
        s\<lparr>scene := (scene s)\<lparr>
             liveNaviData := msg_liveNaviData (sm s),
             scr := (scr (scene s))\<lparr>scr_map_is_running := getMapEnable (msg_liveNaviData (sm s))\<rparr>\<rparr>\<rparr>
      else s)"

definition state_liveParameters :: "UIState \<Rightarrow> UIState" where
  "state_liveParameters s =
     (if updated (sm s) ''liveParameters''
      then s\<lparr>scene := (scene s)\<lparr>liveParameters := msg_liveParameters (sm s)\<rparr>\<rparr>
      else s)"

definition state_lateralPlan :: "UIState \<Rightarrow> UIState" where
  "state_lateralPlan s =
     (if updated (sm s) ''lateralPlan''
      then s\<lparr>scene := (scene s)\<lparr>lateralPlan := msg_lateralPlan (sm s)\<rparr>\<rparr>
      else s)"

text \<open>The statements after the sensor loop, none of which can fail.\<close>

definition state_tail :: "env \<Rightarrow> UIState \<Rightarrow> UIState" where
  "state_tail e s =
     state_lateralPlan (state_liveParameters (state_liveNaviData (state_carState
       (state_controlsState (state_deviceState (state_gpsLocationExternal
         (state_started (state_roadCameraState e s))))))))"

definition update_state :: "env \<Rightarrow> 64 word \<Rightarrow> UIState \<Rightarrow> error + UIState" where
  "update_state e now s =
     (case state_engageable e (state_running_time now s) of Inl err \<Rightarrow> Inl err | Inr s1 \<Rightarrow>
     (case state_model e s1 of Inl err \<Rightarrow> Inl err | Inr s2 \<Rightarrow>
     (case state_leads e s2 of Inl err \<Rightarrow> Inl err | Inr s3 \<Rightarrow>
     (case state_calibration e s3 of Inl err \<Rightarrow> Inl err | Inr s4 \<Rightarrow>
     (case state_sensorEvents (state_carParams (state_pandaStates e s4)) of
        Inl err \<Rightarrow> Inl err
      | Inr s5 \<Rightarrow> Inr (state_tail e s5))))))"

section \<open>Status Classifier\<close>

text \<open>
  \<^verbatim>\<open>update_status\<close>.  The function-local \<^verbatim>\<open>static bool started_prev\<close> (initially false) is
  passed in and returned beside the state.
\<close>

definition update_status :: "env \<Rightarrow> UIState \<times> bool \<Rightarrow> UIState \<times> bool" where
  "update_status e st =
     (case st of (s, started_prev) \<Rightarrow>
        (let s1 =
               (if started (scene s) \<and> updated (sm s) ''controlsState'' then
                  (let controls_state = msg_controlsState (sm s);
                       alert_status = getAlertStatus controls_state
                   in if alert_status = USER_PROMPT then s\<lparr>status := STATUS_WARNING\<rparr>
                      else if alert_status = CRITICAL then s\<lparr>status := STATUS_ALERT\<rparr>
                      else s\<lparr>status := (if getEnabled controls_state then STATUS_ENGAGED
                                         else STATUS_DISENGAGED)\<rparr>)
                else s);
             s3 =
               (if started (scene s1) \<noteq> started_prev then
                  (let s2 =
                         (if started (scene s1) then
                            s1\<lparr>status := STATUS_DISENGAGED,
                               scene := (scene s1)\<lparr>
                                 started_frame := frame (sm s1),
                                 end_to_end := Params_getBool e ''EndToEndToggle''\<rparr>,
                               wide_camera := (if Hardware_TICI e
                                               then Params_getBool e ''EnableWideCamera''
                                               else False)\<rparr>
                          else s1)
                   in s2\<lparr>scene := (scene s2)\<lparr>world_objects_visible := False\<rparr>\<rparr>)
                else s1)
         in (s3, started (scene s3))))"

section \<open>One tick\<close>

text \<open>
  \<^verbatim>\<open>QUIState::update\<close>.  \<^verbatim>\<open>update_sockets\<close> polls the transport, which is outside this file:
  the \<^verbatim>\<open>SubMaster\<close> it leaves behind is the argument \<open>polled\<close>.  The signals emitted and the
  watchdog ping are returned as a list, in the order of emission.
\<close>

datatype signal = offroadTransition bool | watchdog_kick | uiUpdate | displayPowerChanged bool
  | set_display_power bool

record QUIState =
  ui_state :: UIState
  update_status_started_prev :: bool
  started_prev :: bool

definition QUIState_update :: "env \<Rightarrow> 64 word \<Rightarrow> SubMaster \<Rightarrow> QUIState \<Rightarrow> error + (QUIState \<times> signal list)" where
  "QUIState_update e now polled q =
     (case update_state e now ((ui_state q)\<lparr>sm := polled\<rparr>) of
        Inl err \<Rightarrow> Inl err
      | Inr s1 \<Rightarrow>
          (case update_status e (s1, update_status_started_prev q) of (s2, sp) \<Rightarrow>
             (let transition = (started (scene s2) \<noteq> started_prev q \<or> frame (sm s2) = 1);
                  q1 = q\<lparr>ui_state := s2, update_status_started_prev := sp,
                         started_prev := (if transition then started (scene s2) else started_prev q)\<rparr>;
                  d = (word_of_int (UI_FREQ e) :: 64 word)
              in if d = 0 then Inl DivisionByZero
                 else Inr (q1,
                           (if transition then [offroadTransition (\<not> started (scene s2))] else []) @
                           (if frame (sm s2) mod d = 0 then [watchdog_kick] else []) @
                           [uiUpdate]))))"

text \<open>A sequence of ticks, each with its environment, clock value and poll.\<close>

fun QUIState_run :: "(env \<times> 64 word \<times> SubMaster) list \<Rightarrow> QUIState \<Rightarrow> error + QUIState" where
  "QUIState_run [] q = Inr q"
| "QUIState_run ((e, now, polled) # ticks) q =
     (case QUIState_update e now polled q of
        Inl err \<Rightarrow> Inl err
      | Inr (q', sigs) \<Rightarrow> QUIState_run ticks q')"

section \<open>Wakefulness Controller\<close>

text \<open>
  \<^verbatim>\<open>Device::setAwake\<close>, on the members \<^verbatim>\<open>awake\<close> and \<^verbatim>\<open>awake_timeout\<close> of \<^verbatim>\<open>Device\<close> and the
  global scene.  The call of \<^verbatim>\<open>Hardware::set_display_power\<close> and the emitted signal are
  returned as a list.
\<close>

record Device =
  dev_awake :: bool
  awake_timeout :: int

definition setAwake :: "env \<Rightarrow> Device \<times> UIScene \<Rightarrow> bool \<Rightarrow> bool \<Rightarrow> (Device \<times> UIScene) \<times> signal list" where
  "setAwake e st on reset =
     (case st of (dev, scn) \<Rightarrow>
        (let (dev1, sigs) =
               (if on \<noteq> dev_awake dev then
                  (dev\<lparr>dev_awake := on\<rparr>,
                   if ignition scn \<or> scr_autoScreenOff (scr scn) = 0
                   then [set_display_power on, displayPowerChanged on]
                   else [])
                else (dev, []))
         in if reset then
              ((dev1\<lparr>awake_timeout := 30 * UI_FREQ e\<rparr>,
                scn\<lparr>scr := (scr scn)\<lparr>scr_nTime := scr_autoScreenOff (scr scn) * 60 * UI_FREQ e\<rparr>\<rparr>),
               sigs)
            else ((dev1, scn), sigs)))"

section \<open>Notions used in the statements\<close>

text \<open>
  The clip rectangle in the words of the specification: a coordinate lies inside when both
  components are numbers within \<open>[-500, fb_w + 500]\<close> and \<open>[-500, fb_h + 500]\<close>.
\<close>

definition spec_inside_clip :: "UIState \<Rightarrow> QPointF \<Rightarrow> bool" where
  "spec_inside_clip s p =
     (case p of
        (Fin px, Fin py) \<Rightarrow>
          - 500 \<le> px \<and> px \<le> real_of_int (fb_w s) + 500 \<and>
          - 500 \<le> py \<and> py \<le> real_of_int (fb_h s) + 500
      | _ \<Rightarrow> False)"

text \<open>The Projector's clip test on a 3-D point.\<close>

definition passes_clip :: "env \<Rightarrow> UIState \<Rightarrow> cfloat \<Rightarrow> cfloat \<Rightarrow> cfloat \<Rightarrow> bool" where
  "passes_clip e s in_x in_y in_z =
     QRectF_contains (clip_region s) (project_point e s in_x in_y in_z)"

text \<open>Index \<open>i\<close> is a sample of all three coordinate lists of a line.\<close>

definition in_range :: "XYZTData \<Rightarrow> int \<Rightarrow> bool" where
  "in_range line i =
     (0 \<le> i \<and> nat i < length (getX line) \<and> nat i < length (getY line) \<and>
      nat i < length (getZ line))"

text \<open>A line carries at least \<^verbatim>\<open>TRAJECTORY_SIZE\<close> samples of each coordinate.\<close>

definition full_line :: "env \<Rightarrow> XYZTData \<Rightarrow> bool" where
  "full_line e line =
     (TRAJECTORY_SIZE e \<le> length (getX line) \<and> TRAJECTORY_SIZE e \<le> length (getY line) \<and>
      TRAJECTORY_SIZE e \<le> length (getZ line))"

text \<open>The count of a built polyline, or the error of the build.\<close>

definition built_cnt :: "error + line_vertices_data \<Rightarrow> error + int" where
  "built_cnt r = (case r of Inl err \<Rightarrow> Inl err | Inr pvd \<Rightarrow> Inr (cnt pvd))"

text \<open>
  The vertex of a lead marker after \<^verbatim>\<open>update_leads\<close> has projected the lead with vertical
  coordinate \<open>z\<close>: the projected point when it passes the clip test, the old vertex otherwise.
\<close>

definition lead_marker :: "env \<Rightarrow> UIState \<Rightarrow> LeadData \<Rightarrow> cfloat \<Rightarrow> vertex_data \<Rightarrow> vertex_data" where
  "lead_marker e s lead z old =
     (if passes_clip e s (getDRel lead) (fneg (getYRel lead)) (fadd z (Fin 1.22))
      then project_point e s (getDRel lead) (fneg (getYRel lead)) (fadd z (Fin 1.22))
      else old)"

text \<open>
  A model message whose lines all carry at least \<^verbatim>\<open>TRAJECTORY_SIZE\<close> samples, and a scene
  whose polyline arrays fit it: no more lane lines and road edges than the message has,
  with a probability and a deviation each, and every polyline of capacity
  \<open>2 * TRAJECTORY_SIZE\<close>.
\<close>

definition wf_model :: "env \<Rightarrow> ModelDataV2 \<Rightarrow> bool" where
  "wf_model e model =
     (0 < TRAJECTORY_SIZE e \<and> full_line e (getPosition model) \<and>
      getLaneLines model \<noteq> [] \<and>
      (\<forall>l \<in> set (getLaneLines model). full_line e l) \<and>
      (\<forall>l \<in> set (getRoadEdges model). full_line e l))"

definition wf_scene :: "env \<Rightarrow> ModelDataV2 \<Rightarrow> UIScene \<Rightarrow> bool" where
  "wf_scene e model scn =
     (length (lane_line_vertices scn) \<le> length (getLaneLines model) \<and>
      length (lane_line_vertices scn) \<le> length (getLaneLineProbs model) \<and>
      length (lane_line_vertices scn) \<le> length (lane_line_probs scn) \<and>
      length (road_edge_vertices scn) \<le> length (getRoadEdges model) \<and>
      length (road_edge_vertices scn) \<le> length (getRoadEdgeStds model) \<and>
      length (road_edge_vertices scn) \<le> length (road_edge_stds scn) \<and>
      (\<forall>p \<in> set (lane_line_vertices scn). length (v_arr p) = 2 * TRAJECTORY_SIZE e) \<and>
      (\<forall>p \<in> set (road_edge_vertices scn). length (v_arr p) = 2 * TRAJECTORY_SIZE e) \<and>
      length (v_arr (track_vertices scn)) = 2 * TRAJECTORY_SIZE e)"

text \<open>The count of lane-line polyline \<open>i\<close> after a model update, or the error of the update.\<close>

definition lane_line_cnt_of :: "error + UIState \<Rightarrow> nat \<Rightarrow> error + int" where
  "lane_line_cnt_of r i =
     (case r of Inl err \<Rightarrow> Inl err | Inr s \<Rightarrow> Inr (cnt (lane_line_vertices (scene s) ! i)))"

section \<open>Example values\<close>

definition ex_env :: env where
  "ex_env =
     \<lparr>TRAJECTORY_SIZE = 33, UI_FREQ = 20,
      MIN_DRAW_DISTANCE = Fin 10, MAX_DRAW_DISTANCE = Fin 100,
      fcam_intrinsic_matrix =
        ((Fin 910, Fin 0, Fin 582), (Fin 0, Fin 910, Fin 437), (Fin 0, Fin 0, Fin 1)),
      ecam_intrinsic_matrix =
        ((Fin 620, Fin 0, Fin 964), (Fin 0, Fin 620, Fin 604), (Fin 0, Fin 0, Fin 1)),
      Hardware_TICI = False, Hardware_EON = True,
      euler2rot = (\<lambda>rpy. ((Fin 1, Fin 0, Fin 0), (Fin 0, Fin 1, Fin 0), (Fin 0, Fin 0, Fin 1))),
      Params_getBool = (\<lambda>key. key = ''EndToEndToggle'')\<rparr>"

text \<open>A line along the camera axis: 33 samples at \<open>x = 1, 2, ..., 33\<close>.\<close>

definition ex_line :: XYZTData where
  "ex_line =
     \<lparr>getX = map (\<lambda>i. Fin (real i + 1)) [0..<33],
      getY = replicate 33 (Fin 0),
      getZ = replicate 33 (Fin 0)\<rparr>"

definition ex_pvd :: line_vertices_data where
  "ex_pvd = \<lparr>v_arr = replicate 66 (Fin 0, Fin 0), cnt = 0\<rparr>"

definition ex_model :: ModelDataV2 where
  "ex_model =
     \<lparr>getPosition = ex_line,
      getLaneLines = replicate 4 ex_line,
      getLaneLineProbs = replicate 4 (Fin 0),
      getRoadEdges = replicate 2 ex_line,
      getRoadEdgeStds = replicate 2 (Fin 0)\<rparr>"

definition ex_lead :: LeadData where
  "ex_lead = \<lparr>getStatus = True, getDRel = Fin 5, getYRel = Fin 0\<rparr>"

definition ex_no_lead :: LeadData where
  "ex_no_lead = \<lparr>getStatus = False, getDRel = Fin 0, getYRel = Fin 0\<rparr>"

definition ex_controls :: ControlsState where
  "ex_controls =
     \<lparr>getEngageable = False, getEnabled = False, getAlertStatus = NORMAL,
      getAlertTextMsg1 = [], getAlertTextMsg2 = [], getAlertTextMsg3 = []\<rparr>"

definition ex_device_state :: DeviceState where
  "ex_device_state = \<lparr>getStarted = False, getStartedMonoTime = 0\<rparr>"

definition ex_car_state :: CarState where
  "ex_car_state = \<lparr>getCruiseSwState = 0, getVEgo = Fin 0\<rparr>"

text \<open>A poll at tick 7 on which no topic is fresh; the model was last received at tick 3.\<close>

definition ex_sm :: SubMaster where
  "ex_sm =
     \<lparr>frame = 7,
      updated = (\<lambda>topic. False),
      rcv_frame = (\<lambda>topic. 3),
      msg_modelV2 = ex_model,
      msg_radarState = \<lparr>getLeadOne = ex_lead, getLeadTwo = ex_no_lead\<rparr>,
      msg_controlsState = ex_controls,
      msg_driverMonitoringState_isActiveMode = False,
      msg_liveCalibration_rpyCalib = [Fin 0, Fin 0, Fin 0],
      msg_pandaStates = [],
      msg_carParams_openpilotLongitudinalControl = False,
      msg_sensorEvents = [],
      msg_roadCameraState = \<lparr>getGain = Fin 1, getIntegLines = 0\<rparr>,
      msg_deviceState = ex_device_state,
      msg_carState = ex_car_state,
      msg_liveNaviData = \<lparr>getMapEnable = 0\<rparr>,
      msg_gpsLocationExternal = GpsLocationData 0,
      msg_liveParameters = LiveParametersData 0,
      msg_lateralPlan = LateralPlan 0\<rparr>"

definition ex_scene :: UIScene where
  "ex_scene =
     \<lparr>view_from_calib = view_from_device,
      world_objects_visible = True,
      is_metric = True,
      IsOpenpilotViewEnabled = False,
      engageable = False,
      dm_active = False,
      lane_line_probs = replicate 4 (Fin 0),
      road_edge_stds = replicate 2 (Fin 0),
      track_vertices = ex_pvd,
      lane_line_vertices = replicate 4 ex_pvd,
      road_edge_vertices = replicate 2 ex_pvd,
      lead_vertices = replicate 2 (Fin 0, Fin 0),
      pandaType = UNO,
      ignition = False,
      longitudinal_control = False,
      accel_sensor = Fin 0,
      gyro_sensor = Fin 0,
      light_sensor = Fin 0,
      started = False,
      started_frame = 0,
      end_to_end = False,
      gpsLocationExternal = GpsLocationData 0,
      deviceState = ex_device_state,
      controls_state = ex_controls,
      alertTextMsg1 = [],
      alertTextMsg2 = [],
      alertTextMsg3 = [],
      car_state = ex_car_state,
      liveNaviData = \<lparr>getMapEnable = 0\<rparr>,
      liveParameters = LiveParametersData 0,
      lateralPlan = LateralPlan 0,
      scr = \<lparr>scr_autoScreenOff = 1, scr_brightness_off = 0, scr_nTime = 0, scr_awake = 0,
             scr_map_is_running = 0\<rparr>\<rparr>"

definition ex_state :: UIState where
  "ex_state =
     \<lparr>fb_w = 1920, fb_h = 1080,
      sm = ex_sm,
      status = STATUS_ENGAGED,
      scene = ex_scene,
      wide_camera = False,
      car_space_transform = (\<lambda>p. p),
      vg = True,
      running_time = Fin 0,
      awake = True\<rparr>"

text \<open>
  A poll at tick 200 on which no topic is fresh and the hardware link was last received at
  tick 50.
\<close>

definition ex_stale_state :: UIState where
  "ex_stale_state = ex_state\<lparr>sm := ex_sm\<lparr>frame := 200, rcv_frame := (\<lambda>topic. 50)\<rparr>\<rparr>"

text \<open>
  A poll on which only the radar is fresh, while the last model message (received at
  tick 3) describes a path one metre below the camera axis.
\<close>

definition ex_radar_state :: UIState where
  "ex_radar_state =
     ex_state\<lparr>sm := ex_sm\<lparr>
       updated := (\<lambda>topic. topic = ''radarState''),
       msg_modelV2 := ex_model\<lparr>getPosition := ex_line\<lparr>getZ := replicate 33 (Fin 1)\<rparr>\<rparr>\<rparr>\<rparr>"

text \<open>
  A first tick on which the hardware link reports ignition and the device reports
  started, and a later poll on which only the calibration is fresh.
\<close>

definition ex_start_poll :: SubMaster where
  "ex_start_poll =
     ex_sm\<lparr>frame := 8,
           updated := (\<lambda>topic. topic = ''pandaStates'' \<or> topic = ''deviceState''),
           msg_pandaStates :=
             [\<lparr>getPandaType = UNO, getIgnitionLine = True, getIgnitionCan = False\<rparr>],
           msg_deviceState := \<lparr>getStarted = True, getStartedMonoTime = 0\<rparr>\<rparr>"

definition ex_idle_poll :: SubMaster where
  "ex_idle_poll = ex_start_poll\<lparr>frame := 9, updated := (\<lambda>topic. False)\<rparr>"

definition ex_calibration_poll :: SubMaster where
  "ex_calibration_poll =
     ex_start_poll\<lparr>frame := 11, updated := (\<lambda>topic. topic = ''liveCalibration'')\<rparr>"

definition ex_qui :: QUIState where
  "ex_qui = \<lparr>ui_state = ex_state, update_status_started_prev = False, started_prev = False\<rparr>"

text \<open>The states after the first tick, after the idle tick and after the calibration tick.\<close>

definition ex_started_state :: UIState where
  "ex_started_state =
     ex_state
       \<lparr>sm := ex_start_poll, running_time := Fin (1 / 1000000),
        status := STATUS_DISENGAGED, wide_camera := False,
        scene := ex_scene
          \<lparr>pandaType := UNO, ignition := True, started := True,
           deviceState := \<lparr>getStarted = True, getStartedMonoTime = 0\<rparr>,
           started_frame := 8, end_to_end := True,
           world_objects_visible := False\<rparr>\<rparr>"

definition ex_q1 :: QUIState where
  "ex_q1 =
     \<lparr>ui_state = ex_started_state, update_status_started_prev = True, started_prev = True\<rparr>"

definition ex_q2 :: QUIState where
  "ex_q2 =
     ex_q1\<lparr>ui_state := ex_started_state
       \<lparr>sm := ex_idle_poll, running_time := Fin (1 / 500000)\<rparr>\<rparr>"

definition ex_q3 :: QUIState where
  "ex_q3 =
     ex_q1\<lparr>ui_state := ex_started_state
       \<lparr>sm := ex_calibration_poll, running_time := Fin (3 / 1000000),
        scene := (scene ex_started_state)
          \<lparr>world_objects_visible := True,
           view_from_calib := matmul3 view_from_device
             ((Fin 1, Fin 0, Fin 0), (Fin 0, Fin 1, Fin 0), (Fin 0, Fin 0, Fin 1))\<rparr>\<rparr>\<rparr>"

section \<open>Frame conditions\<close>

text \<open>The fields that \<^verbatim>\<open>update_state\<close> never writes.\<close>

definition base_eq :: "UIState \<Rightarrow> UIState \<Rightarrow> bool" where
  "base_eq s s' =
     (sm s' = sm s \<and> status s' = status s \<and> wide_camera s' = wide_camera s \<and>
      vg s' = vg s \<and> fb_w s' = fb_w s \<and> fb_h s' = fb_h s \<and>
      car_space_transform s' = car_space_transform s \<and>
      started_frame (scene s') = started_frame (scene s) \<and>
      end_to_end (scene s') = end_to_end (scene s) \<and>
      IsOpenpilotViewEnabled (scene s') = IsOpenpilotViewEnabled (scene s))"

text \<open>The fields that only one statement of \<^verbatim>\<open>update_state\<close> writes.\<close>

definition keeps_view :: "UIState \<Rightarrow> UIState \<Rightarrow> bool" where
  "keeps_view s s' =
     (view_from_calib (scene s') = view_from_calib (scene s) \<and>
      world_objects_visible (scene s') = world_objects_visible (scene s))"

definition keeps_panda :: "UIState \<Rightarrow> UIState \<Rightarrow> bool" where
  "keeps_panda s s' = (pandaType (scene s') = pandaType (scene s))"

definition keeps_leads :: "UIState \<Rightarrow> UIState \<Rightarrow> bool" where
  "keeps_leads s s' = (lead_vertices (scene s') = lead_vertices (scene s))"

text \<open>
  The state without the fields that one fallible statement writes: the polylines of
  \<^verbatim>\<open>update_model\<close>, the lead markers of \<^verbatim>\<open>update_leads\<close>, the samples of the sensor loop.
\<close>

definition drop_lines :: "UIState \<Rightarrow> UIState" where
  "drop_lines s =
     s\<lparr>scene := (scene s)\<lparr>lane_line_probs := [], lane_line_vertices := [],
          road_edge_stds := [], road_edge_vertices := [],
          track_vertices := \<lparr>v_arr = [], cnt = 0\<rparr>\<rparr>\<rparr>"

definition drop_leads :: "UIState \<Rightarrow> UIState" where
  "drop_leads s = s\<lparr>scene := (scene s)\<lparr>lead_vertices := []\<rparr>\<rparr>"

definition drop_sensors :: "UIState \<Rightarrow> UIState" where
  "drop_sensors s = s\<lparr>scene := (scene s)\<lparr>accel_sensor := Fin 0, gyro_sensor := Fin 0\<rparr>\<rparr>"

text \<open>What the lane-line loop and the road-edge loop leave alone.\<close>

definition lanes_frame :: "UIState \<Rightarrow> UIState \<Rightarrow> bool" where
  "lanes_frame s s' =
     (drop_lines s' = drop_lines s \<and>
      road_edge_stds (scene s') = road_edge_stds (scene s) \<and>
      road_edge_vertices (scene s') = road_edge_vertices (scene s) \<and>
      track_vertices (scene s') = track_vertices (scene s) \<and>
      length (lane_line_probs (scene s')) = length (lane_line_probs (scene s)) \<and>
      length (lane_line_vertices (scene s')) = length (lane_line_vertices (scene s)))"

definition edges_frame :: "UIState \<Rightarrow> UIState \<Rightarrow> bool" where
  "edges_frame s s' =
     (drop_lines s' = drop_lines s \<and>
      lane_line_probs (scene s') = lane_line_probs (scene s) \<and>
      lane_line_vertices (scene s') = lane_line_vertices (scene s) \<and>
      track_vertices (scene s') = track_vertices (scene s) \<and>
      length (road_edge_stds (scene s')) = length (road_edge_stds (scene s)) \<and>
      length (road_edge_vertices (scene s')) = length (road_edge_vertices (scene s)))"

text \<open>The fields of the state that the Projector reads.\<close>

definition same_view :: "UIState \<Rightarrow> UIState \<Rightarrow> bool" where
  "same_view s s' =
     (fb_w s' = fb_w s \<and> fb_h s' = fb_h s \<and> wide_camera s' = wide_camera s \<and>
      car_space_transform s' = car_space_transform s \<and>
      view_from_calib (scene s') = view_from_calib (scene s))"

text \<open>The vertex of lead marker \<open>i\<close> after an update pass, or the error of the pass.\<close>

definition lead_vertex_of :: "error + UIState \<Rightarrow> nat \<Rightarrow> error + vertex_data" where
  "lead_vertex_of r i =
     (case r of Inl err \<Rightarrow> Inl err | Inr s \<Rightarrow> Inr (lead_vertices (scene s) ! i))"

text \<open>The hardware-link type after an update pass, or the error of the pass.\<close>

definition pandaType_of :: "error + UIState \<Rightarrow> error + PandaType" where
  "pandaType_of r = (case r of Inl err \<Rightarrow> Inl err | Inr s \<Rightarrow> Inr (pandaType (scene s)))"

section \<open>Facts about the example values\<close>

lemma ex_project: "0 < r \<Longrightarrow> project_point ex_env ex_state (Fin r) (Fin 0) (Fin 0) = (Fin 582, Fin 437)"
  by (simp add: project_point_def ex_env_def ex_state_def ex_scene_def view_from_device_def
      matvecmul3_def dot3_def)

lemma ex_passes: "0 < r \<Longrightarrow> passes_clip ex_env ex_state (Fin r) (Fin 0) (Fin 0)"
  unfolding passes_clip_def
  by (simp add: ex_project) (simp add: QRectF_contains_def clip_region_def ex_state_def fgt_def)

lemma ex_env_size: "TRAJECTORY_SIZE ex_env = 33"
  by (simp add: ex_env_def)

lemma ex_line_nth:
  "i < 33 \<Longrightarrow> getX ex_line ! i = Fin (real i + 1)"
  "i < 33 \<Longrightarrow> getY ex_line ! i = Fin 0"
  "i < 33 \<Longrightarrow> getZ ex_line ! i = Fin 0"
  by (simp_all add: ex_line_def)

lemma ex_line_full: "full_line ex_env ex_line"
  by (simp add: full_line_def ex_env_def ex_line_def)

lemma ex_line_mono:
  "\<forall>i j. i \<le> j \<and> j < length (getX ex_line) \<longrightarrow> fle (getX ex_line ! i) (getX ex_line ! j)"
  by (auto simp: ex_line_def fle_def)

lemma ex_line_all_pass:
  "\<forall>i<TRAJECTORY_SIZE ex_env.
     passes_clip ex_env ex_state (getX ex_line ! i) (fsub (getY ex_line ! i) (Fin 0)) (fadd (getZ ex_line ! i) (Fin 0)) \<and>
     passes_clip ex_env ex_state (getX ex_line ! i) (fadd (getY ex_line ! i) (Fin 0)) (fadd (getZ ex_line ! i) (Fin 0))"
  by (auto simp: ex_env_size ex_line_nth fsub_def intro!: ex_passes)

section \<open>Auxiliary lemmas\<close>

subsection \<open>Comparisons\<close>

lemma fle_flt_trans: "fle a b \<Longrightarrow> flt b c \<Longrightarrow> flt a c"
  by (cases a; cases b; cases c) (auto simp: fle_def)

lemma flt_fle_trans: "flt a b \<Longrightarrow> fle b c \<Longrightarrow> flt a c"
  by (cases a; cases b; cases c) (auto simp: fle_def)

subsection \<open>The path-length scan\<close>

lemma path_length_loop_scan:
  assumes "i \<le> p" "p \<le> tsz"
    and "\<forall>j. i \<le> j \<and> j < p \<longrightarrow> j < length xs \<and> flt (xs ! j) h"
    and "p = tsz \<or> (p < length xs \<and> \<not> flt (xs ! p) h)"
  shows "path_length_loop tsz xs h i m = Inr (if p = i then m else int p - 1)"
  using assms
proof (induction "p - i" arbitrary: i m)
  case 0
  then have "p = i" by simp
  with 0 show ?case
    by (auto simp: path_length_loop.simps [of tsz xs h i m] rd_def)
next
  case (Suc d)
  then have lt: "i < p" by simp
  with Suc.prems have a: "i < tsz" "i < length xs" "flt (xs ! i) h" by auto
  have "path_length_loop tsz xs h (Suc i) (int i) = Inr (if p = Suc i then int i else int p - 1)"
    using Suc.hyps(1) [of "Suc i" "int i"] Suc.hyps(2) Suc.prems lt by auto
  with a lt show ?case
    by (auto simp: path_length_loop.simps [of tsz xs h i m] rd_def)
qed

lemma scan_stop_ex:
  "\<exists>p. p \<le> tsz \<and> (\<forall>j<p. flt (xs ! j) h) \<and> (p = tsz \<or> \<not> flt (xs ! p) h)"
proof -
  define P where "P j \<longleftrightarrow> j = tsz \<or> \<not> flt (xs ! j) h" for j
  have "P tsz" by (simp add: P_def)
  then have a: "P (Least P)" and b: "Least P \<le> tsz"
    by (rule LeastI, rule Least_le)
  have "\<forall>j<Least P. \<not> P j" using not_less_Least by blast
  with a b show ?thesis unfolding P_def by blast
qed

lemma get_path_length_idx_stop:
  assumes "TRAJECTORY_SIZE e \<le> length (getX line)"
    and "p \<le> TRAJECTORY_SIZE e" "\<forall>j<p. flt (getX line ! j) h"
    and "p = TRAJECTORY_SIZE e \<or> \<not> flt (getX line ! p) h"
  shows "get_path_length_idx e line h = Inr (if p = 0 then 0 else int p - 1)"
  unfolding get_path_length_idx_def
  using assms by (intro path_length_loop_scan) auto

lemma get_path_length_idx_range:
  assumes "TRAJECTORY_SIZE e \<le> length (getX line)" "0 < TRAJECTORY_SIZE e"
  shows "\<exists>r. get_path_length_idx e line h = Inr r \<and> 0 \<le> r \<and> r \<le> int (TRAJECTORY_SIZE e) - 1"
proof -
  obtain p where p: "p \<le> TRAJECTORY_SIZE e" "\<forall>j<p. flt (getX line ! j) h"
    "p = TRAJECTORY_SIZE e \<or> \<not> flt (getX line ! p) h"
    using scan_stop_ex by blast
  from get_path_length_idx_stop [OF assms(1) p] p(1) assms(2) show ?thesis by auto
qed

lemma get_path_length_idx_mono:
  assumes len: "TRAJECTORY_SIZE e \<le> length (getX line)" and le: "fle d1 d2"
  shows "\<exists>i1 i2. get_path_length_idx e line d1 = Inr i1 \<and>
           get_path_length_idx e line d2 = Inr i2 \<and> i1 \<le> i2"
proof -
  obtain p1 where p1: "p1 \<le> TRAJECTORY_SIZE e" "\<forall>j<p1. flt (getX line ! j) d1"
    "p1 = TRAJECTORY_SIZE e \<or> \<not> flt (getX line ! p1) d1"
    using scan_stop_ex by blast
  obtain p2 where p2: "p2 \<le> TRAJECTORY_SIZE e" "\<forall>j<p2. flt (getX line ! j) d2"
    "p2 = TRAJECTORY_SIZE e \<or> \<not> flt (getX line ! p2) d2"
    using scan_stop_ex by blast
  have "p1 \<le> p2"
  proof (rule ccontr)
    assume "\<not> p1 \<le> p2"
    then have lt: "p2 < p1" by simp
    with p1(2) have "flt (getX line ! p2) d1" by simp
    then have "flt (getX line ! p2) d2" using le by (rule flt_fle_trans)
    with p2(3) lt p1(1) show False by simp
  qed
  with get_path_length_idx_stop [OF len p1] get_path_length_idx_stop [OF len p2]
  show ?thesis by auto
qed

subsection \<open>The clip test\<close>

lemma contains_clip_iff:
  assumes "0 \<le> fb_w s" "0 \<le> fb_h s" "fst p \<noteq> NaN" "snd p \<noteq> NaN"
  shows "QRectF_contains (clip_region s) p = spec_inside_clip s p"
  using assms
  by (cases p; cases "fst p"; cases "snd p")
     (auto simp: QRectF_contains_def clip_region_def spec_inside_clip_def fgt_def Let_def)

lemma calib_cases:
  "k < length vs \<Longrightarrow>
   calib_frame_to_full_frame e s x y z vs k =
     (if passes_clip e s x y z then Inr (True, vs[k := project_point e s x y z])
      else Inr (False, vs))"
  by (simp add: calib_frame_to_full_frame_def passes_clip_def Let_def)

subsection \<open>Passes of the polyline builder\<close>

lemma line_pass_bound:
  assumes "\<forall>i \<in> set idxs. in_range line i"
    and "snd st + length idxs \<le> length (fst st)"
  shows "\<exists>vs' k'. line_pass e s line side z_off idxs st = Inr (vs', k') \<and>
           length vs' = length (fst st) \<and> snd st \<le> k' \<and> k' \<le> snd st + length idxs"
  using assms
proof (induction idxs arbitrary: st)
  case Nil
  then show ?case by (cases st) simp
next
  case (Cons i idxs)
  obtain vs k where st: "st = (vs, k)" by (cases st)
  from Cons.prems st have k: "k < length vs" and r: "in_range line i" by auto
  define x where "x = getX line ! nat i"
  define y where "y = side (getY line ! nat i)"
  define z where "z = fadd (getZ line ! nat i) z_off"
  show ?case
  proof (cases "passes_clip e s x y z")
    case True
    have "\<exists>vs' k'. line_pass e s line side z_off idxs (vs[k := project_point e s x y z], Suc k) = Inr (vs', k') \<and>
           length vs' = length (fst (vs[k := project_point e s x y z], Suc k)) \<and>
           snd (vs[k := project_point e s x y z], Suc k) \<le> k' \<and>
           k' \<le> snd (vs[k := project_point e s x y z], Suc k) + length idxs"
      using Cons.prems st by (intro Cons.IH) auto
    with True r k st show ?thesis
      by (auto simp: rd_def in_range_def calib_cases x_def y_def z_def)
  next
    case False
    have "\<exists>vs' k'. line_pass e s line side z_off idxs (vs, k) = Inr (vs', k') \<and>
           length vs' = length (fst (vs, k)) \<and> snd (vs, k) \<le> k' \<and> k' \<le> snd (vs, k) + length idxs"
      using Cons.prems st by (intro Cons.IH) auto
    with False r k st show ?thesis
      by (auto simp: rd_def in_range_def calib_cases x_def y_def z_def)
  qed
qed

lemma line_pass_all_valid:
  assumes "\<forall>i \<in> set idxs. in_range line i \<and>
             passes_clip e s (getX line ! nat i) (side (getY line ! nat i)) (fadd (getZ line ! nat i) z_off)"
    and "snd st + length idxs \<le> length (fst st)"
  shows "\<exists>vs'. line_pass e s line side z_off idxs st = Inr (vs', snd st + length idxs) \<and>
           length vs' = length (fst st)"
  using assms
proof (induction idxs arbitrary: st)
  case Nil
  then show ?case by (cases st) simp
next
  case (Cons i idxs)
  obtain vs k where st: "st = (vs, k)" by (cases st)
  from Cons.prems st have k: "k < length vs" and r: "in_range line i" by auto
  define p where "p = project_point e s (getX line ! nat i) (side (getY line ! nat i)) (fadd (getZ line ! nat i) z_off)"
  have "\<exists>vs'. line_pass e s line side z_off idxs (vs[k := p], Suc k) = Inr (vs', snd (vs[k := p], Suc k) + length idxs) \<and>
           length vs' = length (fst (vs[k := p], Suc k))"
    using Cons.prems st by (intro Cons.IH) auto
  with Cons.prems r k st show ?case
    by (auto simp: rd_def in_range_def calib_cases p_def)
qed

lemma full_line_in_range:
  "full_line e line \<Longrightarrow> 0 \<le> i \<Longrightarrow> i \<le> int (TRAJECTORY_SIZE e) - 1 \<Longrightarrow> in_range line i"
  by (auto simp: full_line_def in_range_def)

lemma update_line_data_bound:
  assumes m: "0 \<le> max_idx" "max_idx \<le> int (TRAJECTORY_SIZE e) - 1"
    and cap: "length (v_arr pvd) = 2 * TRAJECTORY_SIZE e"
    and full: "full_line e line"
  shows "\<exists>vs k. update_line_data e s line y_off z_off pvd max_idx = Inr (pvd\<lparr>v_arr := vs, cnt := int k\<rparr>) \<and>
           length vs = length (v_arr pvd) \<and> int k \<le> 2 * (max_idx + 1) \<and> k \<le> length vs"
proof -
  have rng: "\<forall>i \<in> set [0..max_idx]. in_range line i"
    using m full by (auto intro: full_line_in_range)
  have len: "length [0..max_idx] = nat (max_idx + 1)" by simp
  have n: "2 * nat (max_idx + 1) \<le> length (v_arr pvd)" using m cap by auto
  obtain vs1 k1 where 1: "line_pass e s line (\<lambda>ly. fsub ly y_off) z_off [0..max_idx] (v_arr pvd, 0) = Inr (vs1, k1)"
    "length vs1 = length (v_arr pvd)" "k1 \<le> nat (max_idx + 1)"
    using line_pass_bound [of "[0..max_idx]" line "(v_arr pvd, 0)" e s "\<lambda>ly. fsub ly y_off" z_off] rng n len
    by auto
  obtain vs2 k2 where 2: "line_pass e s line (\<lambda>ly. fadd ly y_off) z_off (rev [0..max_idx]) (vs1, k1) = Inr (vs2, k2)"
    "length vs2 = length vs1" "k2 \<le> k1 + nat (max_idx + 1)"
    using line_pass_bound [of "rev [0..max_idx]" line "(vs1, k1)" e s "\<lambda>ly. fadd ly y_off" z_off] rng n len 1(2,3)
    by auto
  have k2: "k2 \<le> length vs2" "int k2 \<le> 2 * (max_idx + 1)"
    using 1(2,3) 2(2,3) n m by auto
  then have "update_line_data e s line y_off z_off pvd max_idx = Inr (pvd\<lparr>v_arr := vs2, cnt := int k2\<rparr>)"
    using 1(1) 2(1) by (simp add: update_line_data_def)
  with k2 1(2) 2(2) show ?thesis
    by - (rule exI [of _ vs2], rule exI [of _ k2], simp)
qed

lemma update_line_data_all_valid:
  assumes m: "0 \<le> max_idx" "max_idx \<le> int (TRAJECTORY_SIZE e) - 1"
    and cap: "length (v_arr pvd) = 2 * TRAJECTORY_SIZE e"
    and full: "full_line e line"
    and ok: "\<forall>i<TRAJECTORY_SIZE e.
               passes_clip e s (getX line ! i) (fsub (getY line ! i) y_off) (fadd (getZ line ! i) z_off) \<and>
               passes_clip e s (getX line ! i) (fadd (getY line ! i) y_off) (fadd (getZ line ! i) z_off)"
  shows "built_cnt (update_line_data e s line y_off z_off pvd max_idx) = Inr (2 * (max_idx + 1))"
proof -
  have rng: "\<forall>i \<in> set [0..max_idx]. in_range line i \<and> nat i < TRAJECTORY_SIZE e"
    using m full by (auto intro: full_line_in_range)
  have len: "length [0..max_idx] = nat (max_idx + 1)" by simp
  have n: "2 * nat (max_idx + 1) \<le> length (v_arr pvd)" using m cap by auto
  obtain vs1 where 1: "line_pass e s line (\<lambda>ly. fsub ly y_off) z_off [0..max_idx] (v_arr pvd, 0) = Inr (vs1, nat (max_idx + 1))"
    "length vs1 = length (v_arr pvd)"
    using line_pass_all_valid [of "[0..max_idx]" line e s "\<lambda>ly. fsub ly y_off" z_off "(v_arr pvd, 0)"] rng n len ok
    by auto
  obtain vs2 where 2: "line_pass e s line (\<lambda>ly. fadd ly y_off) z_off (rev [0..max_idx]) (vs1, nat (max_idx + 1)) = Inr (vs2, nat (max_idx + 1) + nat (max_idx + 1))"
    "length vs2 = length vs1"
    using line_pass_all_valid [of "rev [0..max_idx]" line e s "\<lambda>ly. fadd ly y_off" z_off "(vs1, nat (max_idx + 1))"] rng n len ok 1(2)
    by auto
  from 1 2 n m show ?thesis
    by (auto simp: update_line_data_def built_cnt_def)
qed

subsection \<open>What the statements of the update pass leave alone\<close>

lemma forE_invariant:
  assumes "forE body idxs s = Inr s'"
    and step: "\<And>i t t'. i \<in> set idxs \<Longrightarrow> body i t = Inr t' \<Longrightarrow> R t t'"
    and refl: "\<And>t. R t t"
    and trans: "\<And>a b c. R a b \<Longrightarrow> R b c \<Longrightarrow> R a c"
  shows "R s s'"
  using assms(1,2)
proof (induction idxs arbitrary: s)
  case Nil
  then show ?case by (simp add: refl)
next
  case (Cons i idxs)
  from Cons.prems(1) obtain t where t: "body i s = Inr t" "forE body idxs t = Inr s'"
    by (cases "body i s") auto
  have "R s t" using Cons.prems(2) [of i s t] t(1) by simp
  moreover have "R t s'"
  proof (rule Cons.IH [OF t(2)])
    fix j u u' assume "j \<in> set idxs" "body j u = Inr u'"
    then show "R u u'" using Cons.prems(2) [of j u u'] by simp
  qed
  ultimately show ?case by (rule trans)
qed

lemma lane_line_step_result:
  assumes "lane_line_step e model m i s = Inr s'"
  shows "\<exists>prob line pvd.
           rd (getLaneLineProbs model) (int i) = Inr prob \<and>
           i < length (lane_line_probs (scene s)) \<and>
           rd (getLaneLines model) (int i) = Inr line \<and>
           update_line_data e
             (s\<lparr>scene := (scene s)\<lparr>lane_line_probs := (lane_line_probs (scene s))[i := prob]\<rparr>\<rparr>)
             line (fmul (Fin 0.025) prob) (Fin 0) (lane_line_vertices (scene s) ! i) m = Inr pvd \<and>
           s' = s\<lparr>scene := (scene s)\<lparr>lane_line_probs := (lane_line_probs (scene s))[i := prob],
                     lane_line_vertices := (lane_line_vertices (scene s))[i := pvd]\<rparr>\<rparr>"
proof (cases "rd (getLaneLineProbs model) (int i)")
  case (Inl err)
  with assms show ?thesis by (simp add: lane_line_step_def)
next
  case prob: (Inr prob)
  show ?thesis
  proof (cases "i < length (lane_line_probs (scene s))")
    case False
    with assms prob show ?thesis by (simp add: lane_line_step_def)
  next
    case len: True
    show ?thesis
    proof (cases "rd (getLaneLines model) (int i)")
      case (Inl err)
      with assms prob len show ?thesis by (simp add: lane_line_step_def)
    next
      case line: (Inr line)
      show ?thesis
      proof (cases "update_line_data e
             (s\<lparr>scene := (scene s)\<lparr>lane_line_probs := (lane_line_probs (scene s))[i := prob]\<rparr>\<rparr>)
             line (fmul (Fin 0.025) prob) (Fin 0) (lane_line_vertices (scene s) ! i) m")
        case (Inl err)
        with assms prob len line show ?thesis by (simp add: lane_line_step_def)
      next
        case (Inr pvd)
        with assms prob len line show ?thesis by (simp add: lane_line_step_def)
      qed
    qed
  qed
qed

lemma road_edge_step_result:
  assumes "road_edge_step e model m i s = Inr s'"
  shows "\<exists>std line pvd.
           rd (getRoadEdgeStds model) (int i) = Inr std \<and>
           i < length (road_edge_stds (scene s)) \<and>
           rd (getRoadEdges model) (int i) = Inr line \<and>
           update_line_data e
             (s\<lparr>scene := (scene s)\<lparr>road_edge_stds := (road_edge_stds (scene s))[i := std]\<rparr>\<rparr>)
             line (Fin 0.025) (Fin 0) (road_edge_vertices (scene s) ! i) m = Inr pvd \<and>
           s' = s\<lparr>scene := (scene s)\<lparr>road_edge_stds := (road_edge_stds (scene s))[i := std],
                     road_edge_vertices := (road_edge_vertices (scene s))[i := pvd]\<rparr>\<rparr>"
proof (cases "rd (getRoadEdgeStds model) (int i)")
  case (Inl err)
  with assms show ?thesis by (simp add: road_edge_step_def)
next
  case std: (Inr std)
  show ?thesis
  proof (cases "i < length (road_edge_stds (scene s))")
    case False
    with assms std show ?thesis by (simp add: road_edge_step_def)
  next
    case len: True
    show ?thesis
    proof (cases "rd (getRoadEdges model) (int i)")
      case (Inl err)
      with assms std len show ?thesis by (simp add: road_edge_step_def)
    next
      case line: (Inr line)
      show ?thesis
      proof (cases "update_line_data e
             (s\<lparr>scene := (scene s)\<lparr>road_edge_stds := (road_edge_stds (scene s))[i := std]\<rparr>\<rparr>)
             line (Fin 0.025) (Fin 0) (road_edge_vertices (scene s) ! i) m")
        case (Inl err)
        with assms std len line show ?thesis by (simp add: road_edge_step_def)
      next
        case (Inr pvd)
        with assms std len line show ?thesis by (simp add: road_edge_step_def)
      qed
    qed
  qed
qed

lemma lane_line_step_frame:
  assumes "lane_line_step e model m i s = Inr s'"
  shows "lanes_frame s s'"
proof -
  from lane_line_step_result [OF assms] obtain prob pvd where
    "s' = s\<lparr>scene := (scene s)\<lparr>lane_line_probs := (lane_line_probs (scene s))[i := prob],
              lane_line_vertices := (lane_line_vertices (scene s))[i := pvd]\<rparr>\<rparr>"
    by blast
  then show ?thesis by (simp add: lanes_frame_def drop_lines_def)
qed

lemma road_edge_step_frame:
  assumes "road_edge_step e model m i s = Inr s'"
  shows "edges_frame s s'"
proof -
  from road_edge_step_result [OF assms] obtain std pvd where
    "s' = s\<lparr>scene := (scene s)\<lparr>road_edge_stds := (road_edge_stds (scene s))[i := std],
              road_edge_vertices := (road_edge_vertices (scene s))[i := pvd]\<rparr>\<rparr>"
    by blast
  then show ?thesis by (simp add: edges_frame_def drop_lines_def)
qed

lemma lane_lines_loop_frame:
  assumes "forE (lane_line_step e model m) idxs s = Inr s'"
  shows "lanes_frame s s'"
  using assms
  by (rule forE_invariant) (auto simp: lanes_frame_def dest: lane_line_step_frame)

lemma road_edges_loop_frame:
  assumes "forE (road_edge_step e model m) idxs s = Inr s'"
  shows "edges_frame s s'"
  using assms
  by (rule forE_invariant) (auto simp: edges_frame_def dest: road_edge_step_frame)

lemma update_model_steps:
  assumes "update_model e s model = Inr s'"
  obtains x_last lane0 max_idx s1 s2 max_idx2 pvd where
    "rd (getX (getPosition model)) (int (TRAJECTORY_SIZE e) - 1) = Inr x_last"
    "rd (getLaneLines model) 0 = Inr lane0"
    "get_path_length_idx e lane0
       (fclamp x_last (MIN_DRAW_DISTANCE e) (MAX_DRAW_DISTANCE e)) = Inr max_idx"
    "forE (lane_line_step e model max_idx) [0..<length (lane_line_vertices (scene s))] s = Inr s1"
    "forE (road_edge_step e model max_idx) [0..<length (road_edge_vertices (scene s1))] s1 = Inr s2"
    "get_path_length_idx e (getPosition model)
       (path_max_distance (getLeadOne (msg_radarState (sm s2)))
          (fclamp x_last (MIN_DRAW_DISTANCE e) (MAX_DRAW_DISTANCE e))) = Inr max_idx2"
    "update_line_data e s2 (getPosition model) (Fin 0.5) (Fin 1.22)
       (track_vertices (scene s2)) max_idx2 = Inr pvd"
    "s' = s2\<lparr>scene := (scene s2)\<lparr>track_vertices := pvd\<rparr>\<rparr>"
proof -
  obtain x_last where 1: "rd (getX (getPosition model)) (int (TRAJECTORY_SIZE e) - 1) = Inr x_last"
    using assms by (cases "rd (getX (getPosition model)) (int (TRAJECTORY_SIZE e) - 1)")
      (simp_all add: update_model_def Let_def)
  define d where "d = fclamp x_last (MIN_DRAW_DISTANCE e) (MAX_DRAW_DISTANCE e)"
  obtain lane0 where 2: "rd (getLaneLines model) 0 = Inr lane0"
    using assms 1 by (cases "rd (getLaneLines model) 0") (simp_all add: update_model_def Let_def)
  obtain max_idx where 3: "get_path_length_idx e lane0 d = Inr max_idx"
    using assms 1 2 by (cases "get_path_length_idx e lane0 d")
      (simp_all add: update_model_def Let_def d_def)
  obtain s1 where 4: "forE (lane_line_step e model max_idx)
      [0..<length (lane_line_vertices (scene s))] s = Inr s1"
    using assms 1 2 3
    by (cases "forE (lane_line_step e model max_idx) [0..<length (lane_line_vertices (scene s))] s")
      (simp_all add: update_model_def Let_def d_def)
  obtain s2 where 5: "forE (road_edge_step e model max_idx)
      [0..<length (road_edge_vertices (scene s1))] s1 = Inr s2"
    using assms 1 2 3 4
    by (cases "forE (road_edge_step e model max_idx) [0..<length (road_edge_vertices (scene s1))] s1")
      (simp_all add: update_model_def Let_def d_def)
  define d2 where "d2 = path_max_distance (getLeadOne (msg_radarState (sm s2))) d"
  obtain max_idx2 where 6: "get_path_length_idx e (getPosition model) d2 = Inr max_idx2"
    using assms 1 2 3 4 5 by (cases "get_path_length_idx e (getPosition model) d2")
      (simp_all add: update_model_def Let_def d_def d2_def)
  obtain pvd where 7: "update_line_data e s2 (getPosition model) (Fin 0.5) (Fin 1.22)
       (track_vertices (scene s2)) max_idx2 = Inr pvd"
    using assms 1 2 3 4 5 6
    by (cases "update_line_data e s2 (getPosition model) (Fin 0.5) (Fin 1.22)
       (track_vertices (scene s2)) max_idx2")
      (simp_all add: update_model_def Let_def d_def d2_def)
  have 8: "s' = s2\<lparr>scene := (scene s2)\<lparr>track_vertices := pvd\<rparr>\<rparr>"
    using assms 1 2 3 4 5 6 7 by (simp add: update_model_def Let_def d_def d2_def)
  from 1 2 3 4 5 6 7 8 show ?thesis
    by (intro that [of x_last lane0 max_idx s1 s2 max_idx2 pvd]) (simp_all add: d_def d2_def)
qed

lemma update_model_frame:
  assumes "update_model e s model = Inr s'"
  shows "drop_lines s' = drop_lines s"
proof -
  from assms obtain m s1 s2 tv where
    1: "forE (lane_line_step e model m) [0..<length (lane_line_vertices (scene s))] s = Inr s1"
    and 2: "forE (road_edge_step e model m) [0..<length (road_edge_vertices (scene s1))] s1 = Inr s2"
    and 3: "s' = s2\<lparr>scene := (scene s2)\<lparr>track_vertices := tv\<rparr>\<rparr>"
    by (rule update_model_steps)
  from 3 have "drop_lines s' = drop_lines s2" by (simp add: drop_lines_def)
  with lane_lines_loop_frame [OF 1] road_edges_loop_frame [OF 2] show ?thesis
    by (simp add: lanes_frame_def edges_frame_def)
qed

lemma update_lead_result:
  assumes "update_lead e s lead line i = Inr s'"
  shows "if getStatus lead then
           (\<exists>z. lead_z e line lead = Inr z \<and>
              (if passes_clip e s (getDRel lead) (fneg (getYRel lead)) (fadd z (Fin 1.22))
               then i < length (lead_vertices (scene s)) \<and>
                    s' = s\<lparr>scene := (scene s)\<lparr>lead_vertices := (lead_vertices (scene s))
                           [i := project_point e s (getDRel lead) (fneg (getYRel lead))
                                   (fadd z (Fin 1.22))]\<rparr>\<rparr>
               else s' = s))
         else s' = s"
proof (cases "getStatus lead")
  case False
  with assms show ?thesis by (simp add: update_lead_def)
next
  case st: True
  show ?thesis
  proof (cases "lead_z e line lead")
    case (Inl err)
    with assms st show ?thesis by (simp add: update_lead_def)
  next
    case (Inr z)
    with assms st show ?thesis
      by (auto simp: update_lead_def calib_frame_to_full_frame_def passes_clip_def Let_def
          split: if_splits)
  qed
qed

lemma update_lead_frame:
  assumes "update_lead e s lead line i = Inr s'"
  shows "drop_leads s' = drop_leads s"
  using update_lead_result [OF assms]
  by (auto simp: drop_leads_def split: if_splits)

lemma update_leads_steps:
  assumes "update_leads e s radar line = Inr s'"
  obtains s1 where "update_lead e s (getLeadOne radar) line 0 = Inr s1"
    "update_lead e s1 (getLeadTwo radar) line 1 = Inr s'"
  using assms
  by (cases "update_lead e s (getLeadOne radar) line 0") (simp_all add: update_leads_def)

lemma update_leads_frame:
  assumes "update_leads e s radar line = Inr s'"
  shows "drop_leads s' = drop_leads s"
proof -
  from assms obtain s1 where 1: "update_lead e s (getLeadOne radar) line 0 = Inr s1"
    and 2: "update_lead e s1 (getLeadTwo radar) line 1 = Inr s'"
    by (rule update_leads_steps)
  from update_lead_frame [OF 1] update_lead_frame [OF 2] show ?thesis by simp
qed

lemma sensor_event_step_frame:
  assumes "sensor_event_step ev s = Inr s'"
  shows "drop_sensors s' = drop_sensors s"
proof (cases ev)
  case (ACCELERATION accel)
  show ?thesis
  proof (cases "accel = []")
    case True
    with assms ACCELERATION show ?thesis by simp
  next
    case False
    with assms ACCELERATION show ?thesis
      by (cases "rd accel 2") (auto simp: drop_sensors_def)
  qed
next
  case (GYRO_UNCALIBRATED gyro)
  show ?thesis
  proof (cases "gyro = []")
    case True
    with assms GYRO_UNCALIBRATED show ?thesis by simp
  next
    case False
    with assms GYRO_UNCALIBRATED show ?thesis
      by (cases "rd gyro 1") (auto simp: drop_sensors_def)
  qed
next
  case OTHER_SENSOR
  with assms show ?thesis by simp
qed

lemma sensor_events_loop_frame:
  assumes "forE sensor_event_step sensors s = Inr s'"
  shows "drop_sensors s' = drop_sensors s"
  using assms
  by (rule forE_invariant) (auto dest: sensor_event_step_frame)

lemma drop_lines_keeps:
  assumes "drop_lines s' = drop_lines s"
  shows "base_eq s s'" "keeps_view s s'" "keeps_panda s s'" "keeps_leads s s'"
proof -
  have "base_eq (drop_lines s) (drop_lines s')" "keeps_view (drop_lines s) (drop_lines s')"
    "keeps_panda (drop_lines s) (drop_lines s')" "keeps_leads (drop_lines s) (drop_lines s')"
    using assms by (simp_all add: base_eq_def keeps_view_def keeps_panda_def keeps_leads_def)
  then show "base_eq s s'" "keeps_view s s'" "keeps_panda s s'" "keeps_leads s s'"
    by (simp_all add: base_eq_def keeps_view_def keeps_panda_def keeps_leads_def drop_lines_def)
qed

lemma drop_leads_keeps:
  assumes "drop_leads s' = drop_leads s"
  shows "base_eq s s'" "keeps_view s s'" "keeps_panda s s'"
proof -
  have "base_eq (drop_leads s) (drop_leads s')" "keeps_view (drop_leads s) (drop_leads s')"
    "keeps_panda (drop_leads s) (drop_leads s')"
    using assms by (simp_all add: base_eq_def keeps_view_def keeps_panda_def)
  then show "base_eq s s'" "keeps_view s s'" "keeps_panda s s'"
    by (simp_all add: base_eq_def keeps_view_def keeps_panda_def drop_leads_def)
qed

lemma drop_sensors_keeps:
  assumes "drop_sensors s' = drop_sensors s"
  shows "base_eq s s'" "keeps_view s s'" "keeps_panda s s'" "keeps_leads s s'"
proof -
  have "base_eq (drop_sensors s) (drop_sensors s')" "keeps_view (drop_sensors s) (drop_sensors s')"
    "keeps_panda (drop_sensors s) (drop_sensors s')" "keeps_leads (drop_sensors s) (drop_sensors s')"
    using assms by (simp_all add: base_eq_def keeps_view_def keeps_panda_def keeps_leads_def)
  then show "base_eq s s'" "keeps_view s s'" "keeps_panda s s'" "keeps_leads s s'"
    by (simp_all add: base_eq_def keeps_view_def keeps_panda_def keeps_leads_def drop_sensors_def)
qed

lemma state_running_time_keeps:
  "base_eq s (state_running_time now s)" "keeps_view s (state_running_time now s)"
  "keeps_panda s (state_running_time now s)" "keeps_leads s (state_running_time now s)"
  by (simp_all add: state_running_time_def base_eq_def keeps_view_def keeps_panda_def keeps_leads_def)

lemma state_engageable_keeps:
  assumes "state_engageable e s = Inr s'"
  shows "base_eq s s'" "keeps_view s s'" "keeps_panda s s'" "keeps_leads s s'"
proof -
  have "s' = s \<or> s' = s\<lparr>scene := (scene s)\<lparr>
                 engageable := (getEngageable (msg_controlsState (sm s)) \<or>
                                getEnabled (msg_controlsState (sm s))),
                 dm_active := msg_driverMonitoringState_isActiveMode (sm s)\<rparr>\<rparr>"
    using assms by (auto simp: state_engageable_def Let_def split: if_splits)
  then show "base_eq s s'" "keeps_view s s'" "keeps_panda s s'" "keeps_leads s s'"
    by (auto simp: base_eq_def keeps_view_def keeps_panda_def keeps_leads_def)
qed

lemma state_model_keeps:
  assumes "state_model e s = Inr s'"
  shows "base_eq s s'" "keeps_view s s'" "keeps_panda s s'" "keeps_leads s s'"
proof -
  have "drop_lines s' = drop_lines s"
    using assms update_model_frame [of e s "msg_modelV2 (sm s)" s']
    by (auto simp: state_model_def split: if_splits)
  then show "base_eq s s'" "keeps_view s s'" "keeps_panda s s'" "keeps_leads s s'"
    by (rule drop_lines_keeps)+
qed

lemma state_leads_keeps:
  assumes "state_leads e s = Inr s'"
  shows "base_eq s s'" "keeps_view s s'" "keeps_panda s s'"
proof -
  have "drop_leads s' = drop_leads s"
    using assms update_leads_frame [of e s "msg_radarState (sm s)" _ s']
    by (auto simp: state_leads_def Let_def split: if_splits)
  then show "base_eq s s'" "keeps_view s s'" "keeps_panda s s'"
    by (rule drop_leads_keeps)+
qed

lemma state_calibration_result:
  assumes "state_calibration e s = Inr s'"
  shows "if updated (sm s) ''liveCalibration''
         then \<exists>m. s' = s\<lparr>scene := (scene s)\<lparr>world_objects_visible := True, view_from_calib := m\<rparr>\<rparr>
         else s' = s"
proof (cases "updated (sm s) ''liveCalibration''")
  case False
  with assms show ?thesis by (simp add: state_calibration_def)
next
  case u: True
  obtain r0 where 0: "rd (msg_liveCalibration_rpyCalib (sm s)) 0 = Inr r0"
    using assms u by (cases "rd (msg_liveCalibration_rpyCalib (sm s)) 0")
      (simp_all add: state_calibration_def Let_def)
  obtain r1 where 1: "rd (msg_liveCalibration_rpyCalib (sm s)) 1 = Inr r1"
    using assms u 0 by (cases "rd (msg_liveCalibration_rpyCalib (sm s)) 1")
      (simp_all add: state_calibration_def Let_def)
  obtain r2 where 2: "rd (msg_liveCalibration_rpyCalib (sm s)) 2 = Inr r2"
    using assms u 0 1 by (cases "rd (msg_liveCalibration_rpyCalib (sm s)) 2")
      (simp_all add: state_calibration_def Let_def)
  from assms u 0 1 2 have "s' = s\<lparr>scene := (scene s)\<lparr>world_objects_visible := True,
      view_from_calib := matmul3 view_from_device (euler2rot e (r0, r1, r2))\<rparr>\<rparr>"
    by (simp add: state_calibration_def Let_def)
  then have "\<exists>m. s' = s\<lparr>scene := (scene s)\<lparr>world_objects_visible := True, view_from_calib := m\<rparr>\<rparr>"
    by (rule exI)
  with u show ?thesis by (simp only: if_True)
qed

lemma state_calibration_keeps:
  assumes "state_calibration e s = Inr s'"
  shows "base_eq s s'" "keeps_panda s s'" "keeps_leads s s'"
    "world_objects_visible (scene s') =
       (updated (sm s) ''liveCalibration'' \<or> world_objects_visible (scene s))"
  using state_calibration_result [OF assms]
  by (auto simp: base_eq_def keeps_panda_def keeps_leads_def split: if_splits)

lemma state_pandaStates_result:
  "\<exists>pt ign. state_pandaStates e s = s\<lparr>scene := (scene s)\<lparr>pandaType := pt, ignition := ign\<rparr>\<rparr>"
proof -
  define stale where
    "stale \<longleftrightarrow> frame (sm s) - rcv_frame (sm s) ''pandaStates'' > word_of_int (5 * UI_FREQ e)"
  define ign where "ign = foldl (\<lambda>ign pandaState.
      ign \<or> (getIgnitionLine pandaState \<or> getIgnitionCan pandaState)) False (msg_pandaStates (sm s))"
  define pt where "pt = getPandaType (msg_pandaStates (sm s) ! 0)"
  have same: "s = s\<lparr>scene := (scene s)\<lparr>pandaType := pandaType (scene s), ignition := ignition (scene s)\<rparr>\<rparr>"
    by simp
  have "state_pandaStates e s =
      (if updated (sm s) ''pandaStates'' then
         (if 0 < length (msg_pandaStates (sm s)) then
            (if pt \<noteq> UNKNOWN
             then s\<lparr>scene := (scene s)\<lparr>pandaType := pt, ignition := ign\<rparr>\<rparr>
             else s\<lparr>scene := (scene s)\<lparr>pandaType := pt, ignition := ignition (scene s)\<rparr>\<rparr>)
          else s)
       else if stale
       then s\<lparr>scene := (scene s)\<lparr>pandaType := UNKNOWN, ignition := ignition (scene s)\<rparr>\<rparr>
       else s)"
    unfolding state_pandaStates_def stale_def [symmetric] ign_def [symmetric] Let_def
      pt_def [symmetric]
    by simp
  then show ?thesis using same by (metis (full_types))
qed

lemma state_pandaStates_keeps:
  "base_eq s (state_pandaStates e s)" "keeps_view s (state_pandaStates e s)"
  "keeps_leads s (state_pandaStates e s)"
proof -
  obtain pt ign where
    "state_pandaStates e s = s\<lparr>scene := (scene s)\<lparr>pandaType := pt, ignition := ign\<rparr>\<rparr>"
    using state_pandaStates_result by blast
  then show "base_eq s (state_pandaStates e s)" "keeps_view s (state_pandaStates e s)"
    "keeps_leads s (state_pandaStates e s)"
    by (simp_all add: base_eq_def keeps_view_def keeps_leads_def)
qed

lemma state_pandaStates_pandaType:
  "pandaType (scene (state_pandaStates e s)) =
     (if updated (sm s) ''pandaStates'' then
        (if 0 < length (msg_pandaStates (sm s))
         then getPandaType (msg_pandaStates (sm s) ! 0) else pandaType (scene s))
      else if frame (sm s) - rcv_frame (sm s) ''pandaStates'' > word_of_int (5 * UI_FREQ e)
      then UNKNOWN else pandaType (scene s))"
proof (cases "updated (sm s) ''pandaStates''")
  case u: True
  show ?thesis
  proof (cases "0 < length (msg_pandaStates (sm s))")
    case True
    with u show ?thesis
      by (cases "getPandaType (msg_pandaStates (sm s) ! 0) = UNKNOWN")
        (simp_all add: state_pandaStates_def Let_def)
  next
    case False
    with u show ?thesis by (simp add: state_pandaStates_def Let_def)
  qed
next
  case u: False
  define stale where
    "stale \<longleftrightarrow> frame (sm s) - rcv_frame (sm s) ''pandaStates'' > word_of_int (5 * UI_FREQ e)"
  have "state_pandaStates e s =
      (if stale then s\<lparr>scene := (scene s)\<lparr>pandaType := UNKNOWN\<rparr>\<rparr> else s)"
    unfolding state_pandaStates_def stale_def using u by (simp only: if_False)
  then show ?thesis unfolding stale_def [symmetric] using u by (cases stale) simp_all
qed

lemma state_carParams_keeps:
  "base_eq s (state_carParams s)" "keeps_view s (state_carParams s)"
  "keeps_panda s (state_carParams s)" "keeps_leads s (state_carParams s)"
  by (simp_all add: state_carParams_def base_eq_def keeps_view_def keeps_panda_def keeps_leads_def)

lemma state_sensorEvents_keeps:
  assumes "state_sensorEvents s = Inr s'"
  shows "base_eq s s'" "keeps_view s s'" "keeps_panda s s'" "keeps_leads s s'"
proof -
  have "drop_sensors s' = drop_sensors s"
    using assms sensor_events_loop_frame [of "msg_sensorEvents (sm s)" s s']
    by (auto simp: state_sensorEvents_def split: if_splits)
  then show "base_eq s s'" "keeps_view s s'" "keeps_panda s s'" "keeps_leads s s'"
    by (rule drop_sensors_keeps)+
qed

lemma keeps_all_trans:
  assumes "base_eq a b \<and> keeps_view a b \<and> keeps_panda a b \<and> keeps_leads a b"
    and "base_eq b c \<and> keeps_view b c \<and> keeps_panda b c \<and> keeps_leads b c"
  shows "base_eq a c \<and> keeps_view a c \<and> keeps_panda a c \<and> keeps_leads a c"
  using assms by (simp add: base_eq_def keeps_view_def keeps_panda_def keeps_leads_def)

lemma state_tail_steps_keep:
  "base_eq s (state_roadCameraState e s) \<and> keeps_view s (state_roadCameraState e s) \<and>
   keeps_panda s (state_roadCameraState e s) \<and> keeps_leads s (state_roadCameraState e s)"
  "base_eq s (state_started s) \<and> keeps_view s (state_started s) \<and>
   keeps_panda s (state_started s) \<and> keeps_leads s (state_started s)"
  "base_eq s (state_gpsLocationExternal s) \<and> keeps_view s (state_gpsLocationExternal s) \<and>
   keeps_panda s (state_gpsLocationExternal s) \<and> keeps_leads s (state_gpsLocationExternal s)"
  "base_eq s (state_deviceState s) \<and> keeps_view s (state_deviceState s) \<and>
   keeps_panda s (state_deviceState s) \<and> keeps_leads s (state_deviceState s)"
  "base_eq s (state_controlsState s) \<and> keeps_view s (state_controlsState s) \<and>
   keeps_panda s (state_controlsState s) \<and> keeps_leads s (state_controlsState s)"
  "base_eq s (state_carState s) \<and> keeps_view s (state_carState s) \<and>
   keeps_panda s (state_carState s) \<and> keeps_leads s (state_carState s)"
  "base_eq s (state_liveNaviData s) \<and> keeps_view s (state_liveNaviData s) \<and>
   keeps_panda s (state_liveNaviData s) \<and> keeps_leads s (state_liveNaviData s)"
  "base_eq s (state_liveParameters s) \<and> keeps_view s (state_liveParameters s) \<and>
   keeps_panda s (state_liveParameters s) \<and> keeps_leads s (state_liveParameters s)"
  "base_eq s (state_lateralPlan s) \<and> keeps_view s (state_lateralPlan s) \<and>
   keeps_panda s (state_lateralPlan s) \<and> keeps_leads s (state_lateralPlan s)"
  by (simp_all add: state_roadCameraState_def state_started_def
      state_gpsLocationExternal_def state_deviceState_def state_controlsState_def
      state_carState_def state_liveNaviData_def state_liveParameters_def state_lateralPlan_def
      Let_def base_eq_def keeps_view_def keeps_panda_def keeps_leads_def)

lemma state_tail_keeps_all:
  "base_eq s (state_tail e s) \<and> keeps_view s (state_tail e s) \<and>
   keeps_panda s (state_tail e s) \<and> keeps_leads s (state_tail e s)"
proof -
  define s1 where "s1 = state_roadCameraState e s"
  define s2 where "s2 = state_started s1"
  define s3 where "s3 = state_gpsLocationExternal s2"
  define s4 where "s4 = state_deviceState s3"
  define s5 where "s5 = state_controlsState s4"
  define s6 where "s6 = state_carState s5"
  define s7 where "s7 = state_liveNaviData s6"
  define s8 where "s8 = state_liveParameters s7"
  have t: "state_tail e s = state_lateralPlan s8"
    by (simp add: state_tail_def s1_def s2_def s3_def s4_def s5_def s6_def s7_def s8_def)
  have "base_eq s s1 \<and> keeps_view s s1 \<and> keeps_panda s s1 \<and> keeps_leads s s1"
    unfolding s1_def by (rule state_tail_steps_keep)
  then have "base_eq s s2 \<and> keeps_view s s2 \<and> keeps_panda s s2 \<and> keeps_leads s s2"
    unfolding s2_def by (rule keeps_all_trans) (rule state_tail_steps_keep)
  then have "base_eq s s3 \<and> keeps_view s s3 \<and> keeps_panda s s3 \<and> keeps_leads s s3"
    unfolding s3_def by (rule keeps_all_trans) (rule state_tail_steps_keep)
  then have "base_eq s s4 \<and> keeps_view s s4 \<and> keeps_panda s s4 \<and> keeps_leads s s4"
    unfolding s4_def by (rule keeps_all_trans) (rule state_tail_steps_keep)
  then have "base_eq s s5 \<and> keeps_view s s5 \<and> keeps_panda s s5 \<and> keeps_leads s s5"
    unfolding s5_def by (rule keeps_all_trans) (rule state_tail_steps_keep)
  then have "base_eq s s6 \<and> keeps_view s s6 \<and> keeps_panda s s6 \<and> keeps_leads s s6"
    unfolding s6_def by (rule keeps_all_trans) (rule state_tail_steps_keep)
  then have "base_eq s s7 \<and> keeps_view s s7 \<and> keeps_panda s s7 \<and> keeps_leads s s7"
    unfolding s7_def by (rule keeps_all_trans) (rule state_tail_steps_keep)
  then have "base_eq s s8 \<and> keeps_view s s8 \<and> keeps_panda s s8 \<and> keeps_leads s s8"
    unfolding s8_def by (rule keeps_all_trans) (rule state_tail_steps_keep)
  then show ?thesis
    unfolding t by (rule keeps_all_trans) (rule state_tail_steps_keep)
qed

lemma state_tail_keeps:
  "base_eq s (state_tail e s)" "keeps_view s (state_tail e s)"
  "keeps_panda s (state_tail e s)" "keeps_leads s (state_tail e s)"
  using state_tail_keeps_all [of s e] by simp_all

subsection \<open>The update pass as a whole\<close>

lemma update_state_steps:
  assumes "update_state e now s = Inr s'"
  obtains s1 s2 s3 s4 s5 where
    "state_engageable e (state_running_time now s) = Inr s1"
    "state_model e s1 = Inr s2"
    "state_leads e s2 = Inr s3"
    "state_calibration e s3 = Inr s4"
    "state_sensorEvents (state_carParams (state_pandaStates e s4)) = Inr s5"
    "s' = state_tail e s5"
proof -
  obtain s1 where 1: "state_engageable e (state_running_time now s) = Inr s1"
    using assms by (cases "state_engageable e (state_running_time now s)")
      (simp_all add: update_state_def)
  obtain s2 where 2: "state_model e s1 = Inr s2"
    using assms 1 by (cases "state_model e s1") (simp_all add: update_state_def)
  obtain s3 where 3: "state_leads e s2 = Inr s3"
    using assms 1 2 by (cases "state_leads e s2") (simp_all add: update_state_def)
  obtain s4 where 4: "state_calibration e s3 = Inr s4"
    using assms 1 2 3 by (cases "state_calibration e s3") (simp_all add: update_state_def)
  obtain s5 where 5: "state_sensorEvents (state_carParams (state_pandaStates e s4)) = Inr s5"
    using assms 1 2 3 4
    by (cases "state_sensorEvents (state_carParams (state_pandaStates e s4))")
      (simp_all add: update_state_def)
  have "s' = state_tail e s5" using assms 1 2 3 4 5 by (simp add: update_state_def)
  with 1 2 3 4 5 show ?thesis by (rule that)
qed

lemma base_eq_trans: "base_eq a b \<Longrightarrow> base_eq b c \<Longrightarrow> base_eq a c"
  by (simp add: base_eq_def)

lemma keeps_view_trans: "keeps_view a b \<Longrightarrow> keeps_view b c \<Longrightarrow> keeps_view a c"
  by (simp add: keeps_view_def)

lemma keeps_panda_trans: "keeps_panda a b \<Longrightarrow> keeps_panda b c \<Longrightarrow> keeps_panda a c"
  by (simp add: keeps_panda_def)

lemma keeps_leads_trans: "keeps_leads a b \<Longrightarrow> keeps_leads b c \<Longrightarrow> keeps_leads a c"
  by (simp add: keeps_leads_def)

lemma update_state_base:
  assumes "update_state e now s = Inr s'"
  shows "base_eq s s'"
proof -
  from assms obtain s1 s2 s3 s4 s5 where
    1: "state_engageable e (state_running_time now s) = Inr s1"
    and 2: "state_model e s1 = Inr s2"
    and 3: "state_leads e s2 = Inr s3"
    and 4: "state_calibration e s3 = Inr s4"
    and 5: "state_sensorEvents (state_carParams (state_pandaStates e s4)) = Inr s5"
    and 6: "s' = state_tail e s5"
    by (rule update_state_steps)
  have "base_eq s s1"
    using state_running_time_keeps(1) state_engageable_keeps(1) [OF 1] by (rule base_eq_trans)
  then have "base_eq s s2" using state_model_keeps(1) [OF 2] by (rule base_eq_trans)
  then have "base_eq s s3" using state_leads_keeps(1) [OF 3] by (rule base_eq_trans)
  then have "base_eq s s4" using state_calibration_keeps(1) [OF 4] by (rule base_eq_trans)
  then have "base_eq s (state_pandaStates e s4)"
    using state_pandaStates_keeps(1) by (rule base_eq_trans)
  then have "base_eq s (state_carParams (state_pandaStates e s4))"
    using state_carParams_keeps(1) by (rule base_eq_trans)
  then have "base_eq s s5" using state_sensorEvents_keeps(1) [OF 5] by (rule base_eq_trans)
  then show ?thesis unfolding 6 using state_tail_keeps(1) by (rule base_eq_trans)
qed

lemma update_state_pandaType:
  assumes "update_state e now s = Inr s'"
  shows "pandaType (scene s') =
     (if updated (sm s) ''pandaStates'' then
        (if 0 < length (msg_pandaStates (sm s))
         then getPandaType (msg_pandaStates (sm s) ! 0) else pandaType (scene s))
      else if frame (sm s) - rcv_frame (sm s) ''pandaStates'' > word_of_int (5 * UI_FREQ e)
      then UNKNOWN else pandaType (scene s))"
proof -
  from assms obtain s1 s2 s3 s4 s5 where
    1: "state_engageable e (state_running_time now s) = Inr s1"
    and 2: "state_model e s1 = Inr s2"
    and 3: "state_leads e s2 = Inr s3"
    and 4: "state_calibration e s3 = Inr s4"
    and 5: "state_sensorEvents (state_carParams (state_pandaStates e s4)) = Inr s5"
    and 6: "s' = state_tail e s5"
    by (rule update_state_steps)
  have "base_eq s s1"
    using state_running_time_keeps(1) state_engageable_keeps(1) [OF 1] by (rule base_eq_trans)
  then have "base_eq s s2" using state_model_keeps(1) [OF 2] by (rule base_eq_trans)
  then have "base_eq s s3" using state_leads_keeps(1) [OF 3] by (rule base_eq_trans)
  then have b: "base_eq s s4" using state_calibration_keeps(1) [OF 4] by (rule base_eq_trans)
  have "keeps_panda s s1"
    using state_running_time_keeps(3) state_engageable_keeps(3) [OF 1] by (rule keeps_panda_trans)
  then have "keeps_panda s s2" using state_model_keeps(3) [OF 2] by (rule keeps_panda_trans)
  then have "keeps_panda s s3" using state_leads_keeps(3) [OF 3] by (rule keeps_panda_trans)
  then have p: "keeps_panda s s4" using state_calibration_keeps(2) [OF 4] by (rule keeps_panda_trans)
  have "keeps_panda (state_pandaStates e s4) (state_carParams (state_pandaStates e s4))"
    by (rule state_carParams_keeps)
  then have "keeps_panda (state_pandaStates e s4) s5"
    using state_sensorEvents_keeps(3) [OF 5] by (rule keeps_panda_trans)
  then have "keeps_panda (state_pandaStates e s4) s'"
    unfolding 6 using state_tail_keeps(3) by (rule keeps_panda_trans)
  then have "pandaType (scene s') = pandaType (scene (state_pandaStates e s4))"
    by (simp add: keeps_panda_def)
  also have "\<dots> =
     (if updated (sm s4) ''pandaStates'' then
        (if 0 < length (msg_pandaStates (sm s4))
         then getPandaType (msg_pandaStates (sm s4) ! 0) else pandaType (scene s4))
      else if frame (sm s4) - rcv_frame (sm s4) ''pandaStates'' > word_of_int (5 * UI_FREQ e)
      then UNKNOWN else pandaType (scene s4))"
    by (rule state_pandaStates_pandaType)
  also have "sm s4 = sm s" using b by (simp add: base_eq_def)
  also have "pandaType (scene s4) = pandaType (scene s)" using p by (simp add: keeps_panda_def)
  finally show ?thesis .
qed

lemma update_state_world_objects_visible:
  assumes "update_state e now s = Inr s'"
  shows "world_objects_visible (scene s') =
           (updated (sm s) ''liveCalibration'' \<or> world_objects_visible (scene s))"
proof -
  from assms obtain s1 s2 s3 s4 s5 where
    1: "state_engageable e (state_running_time now s) = Inr s1"
    and 2: "state_model e s1 = Inr s2"
    and 3: "state_leads e s2 = Inr s3"
    and 4: "state_calibration e s3 = Inr s4"
    and 5: "state_sensorEvents (state_carParams (state_pandaStates e s4)) = Inr s5"
    and 6: "s' = state_tail e s5"
    by (rule update_state_steps)
  have "base_eq s s1"
    using state_running_time_keeps(1) state_engageable_keeps(1) [OF 1] by (rule base_eq_trans)
  then have "base_eq s s2" using state_model_keeps(1) [OF 2] by (rule base_eq_trans)
  then have b: "base_eq s s3" using state_leads_keeps(1) [OF 3] by (rule base_eq_trans)
  have "keeps_view s s1"
    using state_running_time_keeps(2) state_engageable_keeps(2) [OF 1] by (rule keeps_view_trans)
  then have "keeps_view s s2" using state_model_keeps(2) [OF 2] by (rule keeps_view_trans)
  then have v: "keeps_view s s3" using state_leads_keeps(2) [OF 3] by (rule keeps_view_trans)
  have "keeps_view s4 (state_pandaStates e s4)" by (rule state_pandaStates_keeps)
  then have "keeps_view s4 (state_carParams (state_pandaStates e s4))"
    using state_carParams_keeps(2) by (rule keeps_view_trans)
  then have "keeps_view s4 s5" using state_sensorEvents_keeps(2) [OF 5] by (rule keeps_view_trans)
  then have "keeps_view s4 s'" unfolding 6 using state_tail_keeps(2) by (rule keeps_view_trans)
  then have "world_objects_visible (scene s') = world_objects_visible (scene s4)"
    by (simp add: keeps_view_def)
  also have "\<dots> = (updated (sm s3) ''liveCalibration'' \<or> world_objects_visible (scene s3))"
    by (rule state_calibration_keeps(4) [OF 4])
  also have "sm s3 = sm s" using b by (simp add: base_eq_def)
  also have "world_objects_visible (scene s3) = world_objects_visible (scene s)"
    using v by (simp add: keeps_view_def)
  finally show ?thesis .
qed

lemmas state_defs = state_running_time_def state_engageable_def state_model_def state_leads_def
  state_calibration_def state_pandaStates_def state_carParams_def state_sensorEvents_def
  state_tail_def state_roadCameraState_def state_started_def
  state_gpsLocationExternal_def state_deviceState_def state_controlsState_def
  state_carState_def state_liveNaviData_def state_liveParameters_def state_lateralPlan_def

lemma Inr_ex_iff: "(\<exists>x. r = Inr x) = (case r of Inl err \<Rightarrow> False | Inr x \<Rightarrow> True)"
  by (cases r) auto

lemma stale_ticks_iff:
  fixes fr rcv :: "64 word"
  assumes "rcv \<le> fr" and "0 \<le> k" and "k < 2 ^ 64"
  shows "(fr - rcv > word_of_int k) = (int (unat fr) - int (unat rcv) > k)"
proof -
  have "uint (fr - rcv) = uint fr - uint rcv"
    using assms(1) by (simp add: uint_minus_simple_alt)
  moreover have "uint (word_of_int k :: 64 word) = k"
    using assms(2,3) by (simp add: uint_word_of_int take_bit_int_eq_self)
  ultimately show ?thesis by (simp add: word_less_def)
qed

lemma ex_stale_fields:
  "sm ex_stale_state = ex_sm\<lparr>frame := 200, rcv_frame := (\<lambda>topic. 50)\<rparr>"
  "vg ex_stale_state" "scene ex_stale_state = ex_scene"
  by (simp_all add: ex_stale_state_def ex_state_def)

lemma ex_sm_fields:
  "updated ex_sm = (\<lambda>t. False)" "frame ex_sm = 7" "rcv_frame ex_sm = (\<lambda>t. 3)"
  "msg_deviceState ex_sm = ex_device_state" "msg_pandaStates ex_sm = []"
  by (simp_all add: ex_sm_def)

lemma ex_scene_fields:
  "started ex_scene = False" "IsOpenpilotViewEnabled ex_scene = False"
  "ignition ex_scene = False" "pandaType ex_scene = UNO" "world_objects_visible ex_scene"
  by (simp_all add: ex_scene_def)

lemma ex_env_fields:
  "UI_FREQ ex_env = 20" "Hardware_TICI ex_env = False" "Hardware_EON ex_env = True"
  "Params_getBool ex_env = (\<lambda>key. key = ''EndToEndToggle'')"
  by (simp_all add: ex_env_def)

lemma ex_device_fields:
  "getStarted ex_device_state = False" "getStartedMonoTime ex_device_state = 0"
  by (simp_all add: ex_device_state_def)

subsection \<open>One tick\<close>

lemma update_status_keeps:
  "started (scene (fst (update_status e (s, sp)))) = started (scene s)"
  "sm (fst (update_status e (s, sp))) = sm s"
  "snd (update_status e (s, sp)) = started (scene s)"
  "world_objects_visible (scene (fst (update_status e (s, sp)))) =
     (started (scene s) = sp \<and> world_objects_visible (scene s))"
  by (auto simp: update_status_def Let_def)

lemma update_status_rising:
  assumes "started (scene s)" and "\<not> sp"
  shows "status (fst (update_status e (s, sp))) = STATUS_DISENGAGED"
    "started_frame (scene (fst (update_status e (s, sp)))) = frame (sm s)"
    "end_to_end (scene (fst (update_status e (s, sp)))) = Params_getBool e ''EndToEndToggle''"
    "wide_camera (fst (update_status e (s, sp))) =
       (Hardware_TICI e \<and> Params_getBool e ''EnableWideCamera'')"
  using assms by (auto simp: update_status_def Let_def)

lemma QUIState_update_steps:
  assumes "QUIState_update e now polled q = Inr (q', sigs)"
  obtains s1 where "update_state e now ((ui_state q)\<lparr>sm := polled\<rparr>) = Inr s1"
    "ui_state q' = fst (update_status e (s1, update_status_started_prev q))"
    "update_status_started_prev q' = snd (update_status e (s1, update_status_started_prev q))"
proof -
  obtain s1 where 1: "update_state e now ((ui_state q)\<lparr>sm := polled\<rparr>) = Inr s1"
    using assms by (cases "update_state e now ((ui_state q)\<lparr>sm := polled\<rparr>)")
      (simp_all add: QUIState_update_def)
  obtain s2 sp where 2: "update_status e (s1, update_status_started_prev q) = (s2, sp)"
    by (cases "update_status e (s1, update_status_started_prev q)")
  from assms 1 2 have "ui_state q' = s2 \<and> update_status_started_prev q' = sp"
    by (auto simp: QUIState_update_def Let_def split: if_splits)
  with 1 2 show ?thesis by (intro that [of s1]) simp_all
qed

lemma QUIState_update_effect:
  assumes "QUIState_update e now polled q = Inr (q', sigs)"
  shows "update_status_started_prev q' = started (scene (ui_state q'))"
    "sm (ui_state q') = polled"
    "world_objects_visible (scene (ui_state q')) =
       (started (scene (ui_state q')) = update_status_started_prev q \<and>
        (updated polled ''liveCalibration'' \<or> world_objects_visible (scene (ui_state q))))"
proof -
  from assms obtain s1 where 1: "update_state e now ((ui_state q)\<lparr>sm := polled\<rparr>) = Inr s1"
    and 2: "ui_state q' = fst (update_status e (s1, update_status_started_prev q))"
    and 3: "update_status_started_prev q' = snd (update_status e (s1, update_status_started_prev q))"
    by (rule QUIState_update_steps)
  have sm1: "sm s1 = polled" using update_state_base [OF 1] by (simp add: base_eq_def)
  have w1: "world_objects_visible (scene s1) =
      (updated polled ''liveCalibration'' \<or> world_objects_visible (scene (ui_state q)))"
    using update_state_world_objects_visible [OF 1] by simp
  show "update_status_started_prev q' = started (scene (ui_state q'))"
    unfolding 2 3 by (simp add: update_status_keeps)
  show "sm (ui_state q') = polled" unfolding 2 by (simp add: update_status_keeps sm1)
  show "world_objects_visible (scene (ui_state q')) =
       (started (scene (ui_state q')) = update_status_started_prev q \<and>
        (updated polled ''liveCalibration'' \<or> world_objects_visible (scene (ui_state q))))"
    unfolding 2 by (simp add: update_status_keeps w1)
qed

lemma QUIState_update_rising:
  assumes "QUIState_update e now polled q = Inr (q', sigs)"
    and "\<not> update_status_started_prev q" and "started (scene (ui_state q'))"
  shows "status (ui_state q') = STATUS_DISENGAGED"
    "started_frame (scene (ui_state q')) = frame polled"
    "end_to_end (scene (ui_state q')) = Params_getBool e ''EndToEndToggle''"
    "wide_camera (ui_state q') = (Hardware_TICI e \<and> Params_getBool e ''EnableWideCamera'')"
proof -
  from assms(1) obtain s1 where 1: "update_state e now ((ui_state q)\<lparr>sm := polled\<rparr>) = Inr s1"
    and 2: "ui_state q' = fst (update_status e (s1, update_status_started_prev q))"
    by (rule QUIState_update_steps)
  have sm1: "sm s1 = polled" using update_state_base [OF 1] by (simp add: base_eq_def)
  have st: "started (scene s1)" using assms(3) unfolding 2 by (simp add: update_status_keeps)
  show "status (ui_state q') = STATUS_DISENGAGED"
    "started_frame (scene (ui_state q')) = frame polled"
    "end_to_end (scene (ui_state q')) = Params_getBool e ''EndToEndToggle''"
    "wide_camera (ui_state q') = (Hardware_TICI e \<and> Params_getBool e ''EnableWideCamera'')"
    unfolding 2 using update_status_rising [OF st assms(2), of e] by (simp_all add: sm1)
qed

lemma QUIState_run_stays_hidden:
  assumes "QUIState_run ticks q = Inr q'"
    and "\<forall>t \<in> set ticks. \<not> updated (snd (snd t)) ''liveCalibration''"
    and "\<not> world_objects_visible (scene (ui_state q))"
  shows "\<not> world_objects_visible (scene (ui_state q'))"
  using assms
proof (induction ticks arbitrary: q)
  case Nil
  then show ?case by simp
next
  case (Cons t ticks)
  obtain e now polled where t: "t = (e, now, polled)" by (cases t)
  from Cons.prems(1) t obtain q1 sigs where
    1: "QUIState_update e now polled q = Inr (q1, sigs)" and 2: "QUIState_run ticks q1 = Inr q'"
    by (cases "QUIState_update e now polled q") auto
  have "\<not> world_objects_visible (scene (ui_state q1))"
    using QUIState_update_effect(3) [OF 1] Cons.prems(2,3) t by simp
  with Cons.IH [OF 2] Cons.prems(2) show ?case by simp
qed

lemma ex_poll_fields:
  "frame ex_start_poll = 8"
  "updated ex_start_poll = (\<lambda>topic. topic = ''pandaStates'' \<or> topic = ''deviceState'')"
  "rcv_frame ex_start_poll = (\<lambda>t. 3)"
  "msg_deviceState ex_start_poll = \<lparr>getStarted = True, getStartedMonoTime = 0\<rparr>"
  "msg_pandaStates ex_start_poll =
     [\<lparr>getPandaType = UNO, getIgnitionLine = True, getIgnitionCan = False\<rparr>]"
  "frame ex_idle_poll = 9" "updated ex_idle_poll = (\<lambda>topic. False)"
  "rcv_frame ex_idle_poll = (\<lambda>t. 3)"
  "msg_deviceState ex_idle_poll = \<lparr>getStarted = True, getStartedMonoTime = 0\<rparr>"
  "frame ex_calibration_poll = 11"
  "updated ex_calibration_poll = (\<lambda>topic. topic = ''liveCalibration'')"
  "rcv_frame ex_calibration_poll = (\<lambda>t. 3)"
  "msg_deviceState ex_calibration_poll = \<lparr>getStarted = True, getStartedMonoTime = 0\<rparr>"
  "msg_liveCalibration_rpyCalib ex_calibration_poll = [Fin 0, Fin 0, Fin 0]"
  by (simp_all add: ex_start_poll_def ex_sm_def ex_idle_poll_def ex_calibration_poll_def)

lemma ex_state_fields:
  "scene ex_state = ex_scene" "status ex_state = STATUS_ENGAGED" "vg ex_state"
  "wide_camera ex_state = False"
  by (simp_all add: ex_state_def)

lemma ex_started_fields:
  "scene ex_started_state = ex_scene
          \<lparr>pandaType := UNO, ignition := True, started := True,
           deviceState := \<lparr>getStarted = True, getStartedMonoTime = 0\<rparr>,
           started_frame := 8, end_to_end := True,
           world_objects_visible := False\<rparr>"
  "vg ex_started_state" "status ex_started_state = STATUS_DISENGAGED"
  "wide_camera ex_started_state = False"
  by (simp_all add: ex_started_state_def ex_state_def)

lemmas tick_defs = QUIState_update_def update_state_def state_defs update_status_def
  ex_poll_fields ex_scene_fields ex_env_fields ex_state_fields ex_started_fields Let_def rd_def

lemma ex_tick1:
  "QUIState_update ex_env 1000 ex_start_poll ex_qui = Inr (ex_q1, [offroadTransition False, uiUpdate])"
  by (simp add: tick_defs ex_qui_def ex_q1_def) (simp add: ex_started_state_def)

lemma ex_tick2: "QUIState_run [(ex_env, 2000, ex_idle_poll)] ex_q1 = Inr ex_q2"
  by (simp add: tick_defs ex_q1_def ex_q2_def)

lemma ex_tick3: "QUIState_update ex_env 3000 ex_calibration_poll ex_q2 = Inr (ex_q3, [uiUpdate])"
  by (simp add: tick_defs ex_q1_def ex_q2_def ex_q3_def ex_env_def)

subsection \<open>Lead markers\<close>

lemma same_view_refl: "same_view s s"
  by (simp add: same_view_def)

lemma same_viewI: "base_eq s s' \<Longrightarrow> keeps_view s s' \<Longrightarrow> same_view s s'"
  by (simp add: same_view_def base_eq_def keeps_view_def)

lemma project_point_same_view:
  "same_view s s' \<Longrightarrow> project_point e s' x y z = project_point e s x y z"
  by (simp add: same_view_def project_point_def)

lemma passes_clip_same_view:
  "same_view s s' \<Longrightarrow> passes_clip e s' x y z = passes_clip e s x y z"
  by (simp add: passes_clip_def project_point_same_view) (simp add: same_view_def clip_region_def)

lemma lead_marker_same_view:
  "same_view s s' \<Longrightarrow> lead_marker e s' lead z old = lead_marker e s lead z old"
  by (simp add: lead_marker_def project_point_same_view passes_clip_same_view)

lemma update_lead_vertices:
  assumes "update_lead e s lead line i = Inr s'"
  shows "same_view s s'"
    and "length (lead_vertices (scene s')) = length (lead_vertices (scene s))"
    and "j \<noteq> i \<Longrightarrow> lead_vertices (scene s') ! j = lead_vertices (scene s) ! j"
    and "getStatus lead \<Longrightarrow>
           \<exists>z. lead_z e line lead = Inr z \<and>
             lead_vertices (scene s') ! i = lead_marker e s lead z (lead_vertices (scene s) ! i)"
    and "\<not> getStatus lead \<Longrightarrow> s' = s"
proof -
  note r = update_lead_result [OF assms]
  have cases: "s' = s \<or>
      (\<exists>z. getStatus lead \<and> lead_z e line lead = Inr z \<and>
         passes_clip e s (getDRel lead) (fneg (getYRel lead)) (fadd z (Fin 1.22)) \<and>
         i < length (lead_vertices (scene s)) \<and>
         s' = s\<lparr>scene := (scene s)\<lparr>lead_vertices := (lead_vertices (scene s))
                  [i := project_point e s (getDRel lead) (fneg (getYRel lead))
                          (fadd z (Fin 1.22))]\<rparr>\<rparr>)"
  proof (cases "getStatus lead")
    case False
    with r show ?thesis by simp
  next
    case True
    with r obtain z where z: "lead_z e line lead = Inr z"
      "if passes_clip e s (getDRel lead) (fneg (getYRel lead)) (fadd z (Fin 1.22))
       then i < length (lead_vertices (scene s)) \<and>
            s' = s\<lparr>scene := (scene s)\<lparr>lead_vertices := (lead_vertices (scene s))
                   [i := project_point e s (getDRel lead) (fneg (getYRel lead))
                           (fadd z (Fin 1.22))]\<rparr>\<rparr>
       else s' = s"
      by auto
    show ?thesis
    proof (cases "passes_clip e s (getDRel lead) (fneg (getYRel lead)) (fadd z (Fin 1.22))")
      case False
      with z show ?thesis by simp
    next
      case p: True
      with z True show ?thesis by (intro disjI2 exI [of _ z]) simp
    qed
  qed
  show "same_view s s'" using cases by (auto simp: same_view_def)
  show "length (lead_vertices (scene s')) = length (lead_vertices (scene s))"
    using cases by auto
  show "lead_vertices (scene s') ! j = lead_vertices (scene s) ! j" if "j \<noteq> i"
    using cases that by auto
  show "s' = s" if "\<not> getStatus lead" using r that by simp
  show "\<exists>z. lead_z e line lead = Inr z \<and>
             lead_vertices (scene s') ! i = lead_marker e s lead z (lead_vertices (scene s) ! i)"
    if st: "getStatus lead"
  proof -
    from r st obtain z where z: "lead_z e line lead = Inr z"
      "if passes_clip e s (getDRel lead) (fneg (getYRel lead)) (fadd z (Fin 1.22))
       then i < length (lead_vertices (scene s)) \<and>
            s' = s\<lparr>scene := (scene s)\<lparr>lead_vertices := (lead_vertices (scene s))
                   [i := project_point e s (getDRel lead) (fneg (getYRel lead))
                           (fadd z (Fin 1.22))]\<rparr>\<rparr>
       else s' = s"
      by auto
    have "lead_vertices (scene s') ! i = lead_marker e s lead z (lead_vertices (scene s) ! i)"
    proof (cases "passes_clip e s (getDRel lead) (fneg (getYRel lead)) (fadd z (Fin 1.22))")
      case False
      with z show ?thesis by (simp add: lead_marker_def)
    next
      case True
      with z show ?thesis by (simp add: lead_marker_def)
    qed
    with z(1) show ?thesis by blast
  qed
qed

lemma update_leads_vertices:
  assumes "update_leads e s radar line = Inr s'"
  shows "getStatus (getLeadOne radar) \<Longrightarrow>
           \<exists>z. lead_z e line (getLeadOne radar) = Inr z \<and>
             lead_vertices (scene s') ! 0 =
               lead_marker e s (getLeadOne radar) z (lead_vertices (scene s) ! 0)"
    and "getStatus (getLeadTwo radar) \<Longrightarrow>
           \<exists>z. lead_z e line (getLeadTwo radar) = Inr z \<and>
             lead_vertices (scene s') ! 1 =
               lead_marker e s (getLeadTwo radar) z (lead_vertices (scene s) ! 1)"
proof -
  from assms obtain s1 where 1: "update_lead e s (getLeadOne radar) line 0 = Inr s1"
    and 2: "update_lead e s1 (getLeadTwo radar) line 1 = Inr s'"
    by (rule update_leads_steps)
  have keep0: "lead_vertices (scene s') ! 0 = lead_vertices (scene s1) ! 0"
    using update_lead_vertices(3) [OF 2, of 0] by simp
  have keep1: "lead_vertices (scene s1) ! 1 = lead_vertices (scene s) ! 1"
    using update_lead_vertices(3) [OF 1, of 1] by simp
  show "\<exists>z. lead_z e line (getLeadOne radar) = Inr z \<and>
             lead_vertices (scene s') ! 0 =
               lead_marker e s (getLeadOne radar) z (lead_vertices (scene s) ! 0)"
    if "getStatus (getLeadOne radar)"
    using update_lead_vertices(4) [OF 1 that] keep0 by simp
  show "\<exists>z. lead_z e line (getLeadTwo radar) = Inr z \<and>
             lead_vertices (scene s') ! 1 =
               lead_marker e s (getLeadTwo radar) z (lead_vertices (scene s) ! 1)"
    if "getStatus (getLeadTwo radar)"
    using update_lead_vertices(4) [OF 2 that] keep1
      lead_marker_same_view [OF update_lead_vertices(1) [OF 1]]
    by simp
qed

lemma lead_z_lookup:
  assumes "lead_z e (if c then Some l else None) lead = Inr z"
  shows "if c then \<exists>idx. get_path_length_idx e l (getDRel lead) = Inr idx \<and> rd (getZ l) idx = Inr z
         else z = Fin 0"
proof (cases c)
  case False
  with assms show ?thesis by (simp add: lead_z_def)
next
  case True
  with assms show ?thesis
    by (cases "get_path_length_idx e l (getDRel lead)") (simp_all add: lead_z_def)
qed

lemma update_state_lead_vertices:
  assumes "update_state e now s = Inr s'" and "updated (sm s) ''radarState''" and "vg s"
    and "i = 0 \<and> lead = getLeadOne (msg_radarState (sm s)) \<or>
         i = 1 \<and> lead = getLeadTwo (msg_radarState (sm s))"
    and "getStatus lead"
  shows "\<exists>z. (if 0 < rcv_frame (sm s) ''modelV2''
               then \<exists>idx. get_path_length_idx e (getPosition (msg_modelV2 (sm s))) (getDRel lead) = Inr idx \<and>
                          rd (getZ (getPosition (msg_modelV2 (sm s)))) idx = Inr z
               else z = Fin 0) \<and>
             lead_vertices (scene s') ! i = lead_marker e s lead z (lead_vertices (scene s) ! i)"
proof -
  from assms(1) obtain s1 s2 s3 s4 s5 where
    1: "state_engageable e (state_running_time now s) = Inr s1"
    and 2: "state_model e s1 = Inr s2"
    and 3: "state_leads e s2 = Inr s3"
    and 4: "state_calibration e s3 = Inr s4"
    and 5: "state_sensorEvents (state_carParams (state_pandaStates e s4)) = Inr s5"
    and 6: "s' = state_tail e s5"
    by (rule update_state_steps)
  have "base_eq s s1"
    using state_running_time_keeps(1) state_engageable_keeps(1) [OF 1] by (rule base_eq_trans)
  then have b: "base_eq s s2" using state_model_keeps(1) [OF 2] by (rule base_eq_trans)
  have "keeps_view s s1"
    using state_running_time_keeps(2) state_engageable_keeps(2) [OF 1] by (rule keeps_view_trans)
  then have v: "keeps_view s s2" using state_model_keeps(2) [OF 2] by (rule keeps_view_trans)
  have "keeps_leads s s1"
    using state_running_time_keeps(4) state_engageable_keeps(4) [OF 1] by (rule keeps_leads_trans)
  then have l: "keeps_leads s s2" using state_model_keeps(4) [OF 2] by (rule keeps_leads_trans)
  have "keeps_leads s3 s4" by (rule state_calibration_keeps(3) [OF 4])
  then have "keeps_leads s3 (state_pandaStates e s4)"
    using state_pandaStates_keeps(3) by (rule keeps_leads_trans)
  then have "keeps_leads s3 (state_carParams (state_pandaStates e s4))"
    using state_carParams_keeps(4) by (rule keeps_leads_trans)
  then have "keeps_leads s3 s5" using state_sensorEvents_keeps(4) [OF 5] by (rule keeps_leads_trans)
  then have "keeps_leads s3 s'" unfolding 6 using state_tail_keeps(4) by (rule keeps_leads_trans)
  then have after: "lead_vertices (scene s') = lead_vertices (scene s3)"
    by (simp add: keeps_leads_def)
  have before: "lead_vertices (scene s2) = lead_vertices (scene s)"
    using l by (simp add: keeps_leads_def)
  have sm2: "sm s2 = sm s" and vg2: "vg s2 = vg s" using b by (simp_all add: base_eq_def)
  have view: "same_view s s2" using b v by (rule same_viewI)
  define line where "line = (if 0 < rcv_frame (sm s) ''modelV2''
      then Some (getPosition (msg_modelV2 (sm s))) else None)"
  have "state_leads e s2 = update_leads e s2 (msg_radarState (sm s)) line"
    unfolding state_leads_def Let_def sm2 vg2 line_def using assms(2,3) by simp
  with 3 have run: "update_leads e s2 (msg_radarState (sm s)) line = Inr s3" by simp
  have "\<exists>z. lead_z e line lead = Inr z \<and>
          lead_vertices (scene s3) ! i = lead_marker e s2 lead z (lead_vertices (scene s2) ! i)"
    using assms(4,5) update_leads_vertices [OF run] by auto
  then obtain z where z: "lead_z e line lead = Inr z"
    and m: "lead_vertices (scene s3) ! i = lead_marker e s2 lead z (lead_vertices (scene s2) ! i)"
    by blast
  have "lead_vertices (scene s') ! i = lead_marker e s lead z (lead_vertices (scene s) ! i)"
    using m after before lead_marker_same_view [OF view] by simp
  with lead_z_lookup [OF z [unfolded line_def]] show ?thesis by blast
qed

lemma ex_radar_fields:
  "sm ex_radar_state = ex_sm\<lparr>
       updated := (\<lambda>topic. topic = ''radarState''),
       msg_modelV2 := ex_model\<lparr>getPosition := ex_line\<lparr>getZ := replicate 33 (Fin 1)\<rparr>\<rparr>\<rparr>"
  "vg ex_radar_state" "scene ex_radar_state = ex_scene"
  "fb_w ex_radar_state = 1920" "fb_h ex_radar_state = 1080"
  "wide_camera ex_radar_state = False" "car_space_transform ex_radar_state = (\<lambda>p. p)"
  by (simp_all add: ex_radar_state_def ex_state_def)

lemma ex_sm_more:
  "msg_radarState ex_sm = \<lparr>getLeadOne = ex_lead, getLeadTwo = ex_no_lead\<rparr>"
  "msg_modelV2 ex_sm = ex_model"
  by (simp_all add: ex_sm_def)

lemma ex_lead_fields:
  "getStatus ex_lead" "getDRel ex_lead = Fin 5" "getYRel ex_lead = Fin 0"
  "\<not> getStatus ex_no_lead"
  by (simp_all add: ex_lead_def ex_no_lead_def)

lemma ex_line_X: "getX ex_line = map (\<lambda>i. Fin (real i + 1)) [0..<33]"
  by (simp add: ex_line_def)

lemma ex_radar_idx: "get_path_length_idx ex_env (ex_line\<lparr>getZ := replicate 33 (Fin 1)\<rparr>) (Fin 5) = Inr 3"
  by (simp add: get_path_length_idx_def ex_env_size ex_line_X path_length_loop.simps rd_def)


lemma ex_env_cam:
  "fcam_intrinsic_matrix ex_env =
     ((Fin 910, Fin 0, Fin 582), (Fin 0, Fin 910, Fin 437), (Fin 0, Fin 0, Fin 1))"
  by (simp add: ex_env_def)

lemma ex_scene_view:
  "view_from_calib ex_scene = view_from_device"
  "lead_vertices ex_scene = [(Fin 0, Fin 0), (Fin 0, Fin 0)]"
  by (simp_all add: ex_scene_def numeral_2_eq_2)

lemma ex_radar_tick:
  "update_state ex_env 1000 ex_radar_state =
     Inr (ex_radar_state\<lparr>running_time := Fin (1 / 1000000),
            scene := ex_scene\<lparr>lead_vertices := [(Fin 582, Fin (21026 / 25)), (Fin 0, Fin 0)]\<rparr>\<rparr>)"
  by (simp add: update_state_def state_defs ex_radar_fields ex_sm_fields ex_sm_more
     ex_scene_fields ex_env_fields ex_device_fields Let_def update_leads_def update_lead_def
     ex_lead_fields lead_z_def ex_radar_idx rd_def calib_frame_to_full_frame_def
     QRectF_contains_def clip_region_def fgt_def project_point_def matvecmul3_def dot3_def
     ex_env_cam ex_scene_view view_from_device_def)

lemma ex_radar_projections:
  "project_point ex_env ex_radar_state (Fin 5) (Fin 0) (Fin (111 / 50)) = (Fin 582, Fin (21026 / 25))"
  "project_point ex_env ex_radar_state (Fin 5) (Fin 0) (Fin (61 / 50)) = (Fin 582, Fin (16476 / 25))"
  by (simp_all add: project_point_def ex_radar_fields ex_env_cam ex_scene_view
      view_from_device_def matvecmul3_def dot3_def)

subsection \<open>The model update\<close>

lemma calib_same_view:
  "same_view s s' \<Longrightarrow>
   calib_frame_to_full_frame e s' x y z vs k = calib_frame_to_full_frame e s x y z vs k"
  by (simp add: calib_frame_to_full_frame_def project_point_same_view)
    (simp add: same_view_def clip_region_def)

lemma line_pass_same_view:
  "same_view s s' \<Longrightarrow>
   line_pass e s' line side z_off idxs st = line_pass e s line side z_off idxs st"
  by (induction idxs arbitrary: st) (simp_all add: calib_same_view split: sum.split prod.split)

lemma update_line_data_same_view:
  "same_view s s' \<Longrightarrow>
   update_line_data e s' line y_off z_off pvd m = update_line_data e s line y_off z_off pvd m"
  by (simp add: update_line_data_def line_pass_same_view split: sum.split)

lemma same_view_trans: "same_view a b \<Longrightarrow> same_view b c \<Longrightarrow> same_view a c"
  by (simp add: same_view_def)

lemma lanes_frame_same_view: "lanes_frame s s' \<Longrightarrow> same_view s s'"
  by (auto simp: lanes_frame_def intro: same_viewI drop_lines_keeps)

lemma edges_frame_same_view: "edges_frame s s' \<Longrightarrow> same_view s s'"
  by (auto simp: edges_frame_def intro: same_viewI drop_lines_keeps)

lemma lane_lines_loop_nth:
  assumes "forE (lane_line_step e model m) idxs s = Inr s'"
  shows "i \<notin> set idxs \<Longrightarrow>
           lane_line_vertices (scene s') ! i = lane_line_vertices (scene s) ! i"
    and "i \<in> set idxs \<Longrightarrow> distinct idxs \<Longrightarrow> i < length (lane_line_vertices (scene s)) \<Longrightarrow>
           \<exists>prob line. rd (getLaneLineProbs model) (int i) = Inr prob \<and>
             rd (getLaneLines model) (int i) = Inr line \<and>
             update_line_data e s line (fmul (Fin 0.025) prob) (Fin 0)
               (lane_line_vertices (scene s) ! i) m = Inr (lane_line_vertices (scene s') ! i)"
  using assms
proof (induction idxs arbitrary: s)
  case Nil
  { case 1 then show ?case by simp }
  { case 2 then show ?case by simp }
next
  case (Cons j idxs)
  {
    case 1
    from "1.prems"(2) obtain t where t: "lane_line_step e model m j s = Inr t"
      "forE (lane_line_step e model m) idxs t = Inr s'"
      by (cases "lane_line_step e model m j s") auto
    from lane_line_step_result [OF t(1)] "1.prems"(1)
    have "lane_line_vertices (scene t) ! i = lane_line_vertices (scene s) ! i" by auto
    with Cons.IH(1) [OF _ t(2)] "1.prems"(1) show ?case by simp
  next
    case 2
    from "2.prems"(4) obtain t where t: "lane_line_step e model m j s = Inr t"
      "forE (lane_line_step e model m) idxs t = Inr s'"
      by (cases "lane_line_step e model m j s") auto
    from lane_line_step_result [OF t(1)] obtain prob line pvd where
      r: "rd (getLaneLineProbs model) (int j) = Inr prob"
      "j < length (lane_line_probs (scene s))"
      "rd (getLaneLines model) (int j) = Inr line"
      "update_line_data e
         (s\<lparr>scene := (scene s)\<lparr>lane_line_probs := (lane_line_probs (scene s))[j := prob]\<rparr>\<rparr>)
         line (fmul (Fin 0.025) prob) (Fin 0) (lane_line_vertices (scene s) ! j) m = Inr pvd"
      "t = s\<lparr>scene := (scene s)\<lparr>lane_line_probs := (lane_line_probs (scene s))[j := prob],
               lane_line_vertices := (lane_line_vertices (scene s))[j := pvd]\<rparr>\<rparr>"
      by blast
    have v1: "same_view s
        (s\<lparr>scene := (scene s)\<lparr>lane_line_probs := (lane_line_probs (scene s))[j := prob]\<rparr>\<rparr>)"
      by (simp add: same_view_def)
    have vt: "same_view s t" using r(5) by (simp add: same_view_def)
    show ?case
    proof (cases "i = j")
      case True
      with "2.prems"(2) have "i \<notin> set idxs" by simp
      from Cons.IH(1) [OF this t(2)] r(5) True "2.prems"(3)
      have "lane_line_vertices (scene s') ! i = pvd" by simp
      with r(1,3,4) True update_line_data_same_view [OF v1] show ?thesis by simp
    next
      case False
      with "2.prems"(1) have i: "i \<in> set idxs" by simp
      have d: "distinct idxs" using "2.prems"(2) by simp
      have len: "i < length (lane_line_vertices (scene t))" using "2.prems"(3) r(5) by simp
      have same: "lane_line_vertices (scene t) ! i = lane_line_vertices (scene s) ! i"
        using r(5) False by simp
      from Cons.IH(2) [OF i d len t(2)] same update_line_data_same_view [OF vt]
      show ?thesis by simp
    qed
  }
qed

lemma road_edges_loop_nth:
  assumes "forE (road_edge_step e model m) idxs s = Inr s'"
  shows "i \<notin> set idxs \<Longrightarrow>
           road_edge_vertices (scene s') ! i = road_edge_vertices (scene s) ! i"
    and "i \<in> set idxs \<Longrightarrow> distinct idxs \<Longrightarrow> i < length (road_edge_vertices (scene s)) \<Longrightarrow>
           \<exists>line. rd (getRoadEdges model) (int i) = Inr line \<and>
             update_line_data e s line (Fin 0.025) (Fin 0)
               (road_edge_vertices (scene s) ! i) m = Inr (road_edge_vertices (scene s') ! i)"
  using assms
proof (induction idxs arbitrary: s)
  case Nil
  { case 1 then show ?case by simp }
  { case 2 then show ?case by simp }
next
  case (Cons j idxs)
  {
    case 1
    from "1.prems"(2) obtain t where t: "road_edge_step e model m j s = Inr t"
      "forE (road_edge_step e model m) idxs t = Inr s'"
      by (cases "road_edge_step e model m j s") auto
    from road_edge_step_result [OF t(1)] "1.prems"(1)
    have "road_edge_vertices (scene t) ! i = road_edge_vertices (scene s) ! i" by auto
    with Cons.IH(1) [OF _ t(2)] "1.prems"(1) show ?case by simp
  next
    case 2
    from "2.prems"(4) obtain t where t: "road_edge_step e model m j s = Inr t"
      "forE (road_edge_step e model m) idxs t = Inr s'"
      by (cases "road_edge_step e model m j s") auto
    from road_edge_step_result [OF t(1)] obtain std line pvd where
      r: "rd (getRoadEdgeStds model) (int j) = Inr std"
      "j < length (road_edge_stds (scene s))"
      "rd (getRoadEdges model) (int j) = Inr line"
      "update_line_data e
         (s\<lparr>scene := (scene s)\<lparr>road_edge_stds := (road_edge_stds (scene s))[j := std]\<rparr>\<rparr>)
         line (Fin 0.025) (Fin 0) (road_edge_vertices (scene s) ! j) m = Inr pvd"
      "t = s\<lparr>scene := (scene s)\<lparr>road_edge_stds := (road_edge_stds (scene s))[j := std],
               road_edge_vertices := (road_edge_vertices (scene s))[j := pvd]\<rparr>\<rparr>"
      by blast
    have v1: "same_view s
        (s\<lparr>scene := (scene s)\<lparr>road_edge_stds := (road_edge_stds (scene s))[j := std]\<rparr>\<rparr>)"
      by (simp add: same_view_def)
    have vt: "same_view s t" using r(5) by (simp add: same_view_def)
    show ?case
    proof (cases "i = j")
      case True
      with "2.prems"(2) have "i \<notin> set idxs" by simp
      from Cons.IH(1) [OF this t(2)] r(5) True "2.prems"(3)
      have "road_edge_vertices (scene s') ! i = pvd" by simp
      with r(3,4) True update_line_data_same_view [OF v1] show ?thesis by simp
    next
      case False
      with "2.prems"(1) have i: "i \<in> set idxs" by simp
      have d: "distinct idxs" using "2.prems"(2) by simp
      have len: "i < length (road_edge_vertices (scene t))" using "2.prems"(3) r(5) by simp
      have same: "road_edge_vertices (scene t) ! i = road_edge_vertices (scene s) ! i"
        using r(5) False by simp
      from Cons.IH(2) [OF i d len t(2)] same update_line_data_same_view [OF vt]
      show ?thesis by simp
    qed
  }
qed

lemma forE_total:
  assumes "I s"
    and "\<And>i t. i \<in> set idxs \<Longrightarrow> I t \<Longrightarrow> \<exists>t'. body i t = Inr t' \<and> I t'"
  shows "\<exists>s'. forE body idxs s = Inr s' \<and> I s'"
  using assms
proof (induction idxs arbitrary: s)
  case Nil
  then show ?case by simp
next
  case (Cons i idxs)
  from Cons.prems(2) [of i s] Cons.prems(1) obtain t where t: "body i s = Inr t" "I t" by auto
  have "\<exists>s'. forE body idxs t = Inr s' \<and> I s'"
  proof (rule Cons.IH [OF t(2)])
    fix j u assume "j \<in> set idxs" "I u"
    then show "\<exists>t'. body j u = Inr t' \<and> I t'" using Cons.prems(2) [of j u] by simp
  qed
  with t(1) show ?case by simp
qed

lemma lanes_frame_trans: "lanes_frame a b \<Longrightarrow> lanes_frame b c \<Longrightarrow> lanes_frame a c"
  by (simp add: lanes_frame_def)

lemma edges_frame_trans: "edges_frame a b \<Longrightarrow> edges_frame b c \<Longrightarrow> edges_frame a c"
  by (simp add: edges_frame_def)

lemma lanes_frame_refl: "lanes_frame a a"
  by (simp add: lanes_frame_def)

lemma edges_frame_refl: "edges_frame a a"
  by (simp add: edges_frame_def)

lemma rd_nth: "i < length xs \<Longrightarrow> rd xs (int i) = Inr (xs ! i)"
  by (simp add: rd_def)

lemma lane_line_step_total:
  assumes m: "0 \<le> m" "m \<le> int (TRAJECTORY_SIZE e) - 1"
    and i: "i < length (lane_line_vertices (scene t))" "i < length (lane_line_probs (scene t))"
      "i < length (getLaneLineProbs model)" "i < length (getLaneLines model)"
    and full: "full_line e (getLaneLines model ! i)"
    and caps: "\<forall>p \<in> set (lane_line_vertices (scene t)). length (v_arr p) = 2 * TRAJECTORY_SIZE e"
  shows "\<exists>t'. lane_line_step e model m i t = Inr t' \<and>
           (\<forall>p \<in> set (lane_line_vertices (scene t')). length (v_arr p) = 2 * TRAJECTORY_SIZE e)"
proof -
  define prob where "prob = getLaneLineProbs model ! i"
  define t1 where
    "t1 = t\<lparr>scene := (scene t)\<lparr>lane_line_probs := (lane_line_probs (scene t))[i := prob]\<rparr>\<rparr>"
  define pvd where "pvd = lane_line_vertices (scene t) ! i"
  have cap: "length (v_arr pvd) = 2 * TRAJECTORY_SIZE e"
    using caps i(1) by (simp add: pvd_def)
  obtain vs k where r: "update_line_data e t1 (getLaneLines model ! i) (fmul (Fin 0.025) prob)
      (Fin 0) pvd m = Inr (pvd\<lparr>v_arr := vs, cnt := int k\<rparr>)" "length vs = length (v_arr pvd)"
    using update_line_data_bound [OF m cap full] by blast
  define t' where "t' = t1\<lparr>scene := (scene t1)\<lparr>lane_line_vertices :=
      (lane_line_vertices (scene t1))[i := pvd\<lparr>v_arr := vs, cnt := int k\<rparr>]\<rparr>\<rparr>"
  have p1: "lane_line_probs (scene t1) ! i = prob" using i(2) by (simp add: t1_def)
  have p2: "lane_line_vertices (scene t1) ! i = pvd" by (simp add: t1_def pvd_def)
  have "lane_line_step e model m i t = Inr t'"
    unfolding lane_line_step_def Let_def
    using i r(1) p1 p2
    by (simp add: rd_nth prob_def [symmetric] t1_def [symmetric] t'_def)
  moreover have "\<forall>p \<in> set (lane_line_vertices (scene t')). length (v_arr p) = 2 * TRAJECTORY_SIZE e"
  proof
    fix p assume "p \<in> set (lane_line_vertices (scene t'))"
    then have "p \<in> insert (pvd\<lparr>v_arr := vs, cnt := int k\<rparr>) (set (lane_line_vertices (scene t)))"
      using set_update_subset_insert by (fastforce simp: t'_def t1_def)
    then show "length (v_arr p) = 2 * TRAJECTORY_SIZE e" using caps r(2) cap by auto
  qed
  ultimately show ?thesis by blast
qed

lemma road_edge_step_total:
  assumes m: "0 \<le> m" "m \<le> int (TRAJECTORY_SIZE e) - 1"
    and i: "i < length (road_edge_vertices (scene t))" "i < length (road_edge_stds (scene t))"
      "i < length (getRoadEdgeStds model)" "i < length (getRoadEdges model)"
    and full: "full_line e (getRoadEdges model ! i)"
    and caps: "\<forall>p \<in> set (road_edge_vertices (scene t)). length (v_arr p) = 2 * TRAJECTORY_SIZE e"
  shows "\<exists>t'. road_edge_step e model m i t = Inr t' \<and>
           (\<forall>p \<in> set (road_edge_vertices (scene t')). length (v_arr p) = 2 * TRAJECTORY_SIZE e)"
proof -
  define std where "std = getRoadEdgeStds model ! i"
  define t1 where
    "t1 = t\<lparr>scene := (scene t)\<lparr>road_edge_stds := (road_edge_stds (scene t))[i := std]\<rparr>\<rparr>"
  define pvd where "pvd = road_edge_vertices (scene t) ! i"
  have cap: "length (v_arr pvd) = 2 * TRAJECTORY_SIZE e"
    using caps i(1) by (simp add: pvd_def)
  obtain vs k where r: "update_line_data e t1 (getRoadEdges model ! i) (Fin 0.025)
      (Fin 0) pvd m = Inr (pvd\<lparr>v_arr := vs, cnt := int k\<rparr>)" "length vs = length (v_arr pvd)"
    using update_line_data_bound [OF m cap full] by blast
  define t' where "t' = t1\<lparr>scene := (scene t1)\<lparr>road_edge_vertices :=
      (road_edge_vertices (scene t1))[i := pvd\<lparr>v_arr := vs, cnt := int k\<rparr>]\<rparr>\<rparr>"
  have p2: "road_edge_vertices (scene t1) ! i = pvd" by (simp add: t1_def pvd_def)
  have "road_edge_step e model m i t = Inr t'"
    unfolding road_edge_step_def Let_def
    using i r(1) p2
    by (simp add: rd_nth std_def [symmetric] t1_def [symmetric] t'_def)
  moreover have "\<forall>p \<in> set (road_edge_vertices (scene t')). length (v_arr p) = 2 * TRAJECTORY_SIZE e"
  proof
    fix p assume "p \<in> set (road_edge_vertices (scene t'))"
    then have "p \<in> insert (pvd\<lparr>v_arr := vs, cnt := int k\<rparr>) (set (road_edge_vertices (scene t)))"
      using set_update_subset_insert by (fastforce simp: t'_def t1_def)
    then show "length (v_arr p) = 2 * TRAJECTORY_SIZE e" using caps r(2) cap by auto
  qed
  ultimately show ?thesis by blast
qed

lemma lane_lines_loop_total:
  assumes m: "0 \<le> m" "m \<le> int (TRAJECTORY_SIZE e) - 1"
    and wm: "wf_model e model" and ws: "wf_scene e model (scene s)"
  shows "\<exists>s1. forE (lane_line_step e model m) [0..<length (lane_line_vertices (scene s))] s = Inr s1 \<and>
           lanes_frame s s1 \<and>
           (\<forall>p \<in> set (lane_line_vertices (scene s1)). length (v_arr p) = 2 * TRAJECTORY_SIZE e)"
proof -
  define I where "I t \<longleftrightarrow> lanes_frame s t \<and>
      (\<forall>p \<in> set (lane_line_vertices (scene t)). length (v_arr p) = 2 * TRAJECTORY_SIZE e)" for t
  have "\<exists>s1. forE (lane_line_step e model m) [0..<length (lane_line_vertices (scene s))] s = Inr s1 \<and> I s1"
  proof (rule forE_total)
    show "I s" using ws by (simp add: I_def lanes_frame_refl wf_scene_def)
  next
    fix i t
    assume i: "i \<in> set [0..<length (lane_line_vertices (scene s))]" and t: "I t"
    from t have fr: "lanes_frame s t"
      and caps: "\<forall>p \<in> set (lane_line_vertices (scene t)). length (v_arr p) = 2 * TRAJECTORY_SIZE e"
      by (simp_all add: I_def)
    have len: "length (lane_line_vertices (scene t)) = length (lane_line_vertices (scene s))"
      "length (lane_line_probs (scene t)) = length (lane_line_probs (scene s))"
      using fr by (simp_all add: lanes_frame_def)
    have b: "i < length (lane_line_vertices (scene t))" "i < length (lane_line_probs (scene t))"
      "i < length (getLaneLineProbs model)" "i < length (getLaneLines model)"
      using i ws len by (simp_all add: wf_scene_def)
    have full: "full_line e (getLaneLines model ! i)"
      using wm b(4) by (simp add: wf_model_def)
    from lane_line_step_total [OF m b full caps] obtain t' where
      t': "lane_line_step e model m i t = Inr t'"
      "\<forall>p \<in> set (lane_line_vertices (scene t')). length (v_arr p) = 2 * TRAJECTORY_SIZE e"
      by blast
    have "lanes_frame s t'" using fr lane_line_step_frame [OF t'(1)] by (rule lanes_frame_trans)
    with t' show "\<exists>t'. lane_line_step e model m i t = Inr t' \<and> I t'" by (simp add: I_def)
  qed
  then show ?thesis by (simp add: I_def)
qed

lemma road_edges_loop_total:
  assumes m: "0 \<le> m" "m \<le> int (TRAJECTORY_SIZE e) - 1"
    and wm: "wf_model e model" and ws: "wf_scene e model (scene s)"
  shows "\<exists>s1. forE (road_edge_step e model m) [0..<length (road_edge_vertices (scene s))] s = Inr s1 \<and>
           edges_frame s s1"
proof -
  define I where "I t \<longleftrightarrow> edges_frame s t \<and>
      (\<forall>p \<in> set (road_edge_vertices (scene t)). length (v_arr p) = 2 * TRAJECTORY_SIZE e)" for t
  have "\<exists>s1. forE (road_edge_step e model m) [0..<length (road_edge_vertices (scene s))] s = Inr s1 \<and> I s1"
  proof (rule forE_total)
    show "I s" using ws by (simp add: I_def edges_frame_refl wf_scene_def)
  next
    fix i t
    assume i: "i \<in> set [0..<length (road_edge_vertices (scene s))]" and t: "I t"
    from t have fr: "edges_frame s t"
      and caps: "\<forall>p \<in> set (road_edge_vertices (scene t)). length (v_arr p) = 2 * TRAJECTORY_SIZE e"
      by (simp_all add: I_def)
    have len: "length (road_edge_vertices (scene t)) = length (road_edge_vertices (scene s))"
      "length (road_edge_stds (scene t)) = length (road_edge_stds (scene s))"
      using fr by (simp_all add: edges_frame_def)
    have b: "i < length (road_edge_vertices (scene t))" "i < length (road_edge_stds (scene t))"
      "i < length (getRoadEdgeStds model)" "i < length (getRoadEdges model)"
      using i ws len by (simp_all add: wf_scene_def)
    have full: "full_line e (getRoadEdges model ! i)"
      using wm b(4) by (simp add: wf_model_def)
    from road_edge_step_total [OF m b full caps] obtain t' where
      t': "road_edge_step e model m i t = Inr t'"
      "\<forall>p \<in> set (road_edge_vertices (scene t')). length (v_arr p) = 2 * TRAJECTORY_SIZE e"
      by blast
    have "edges_frame s t'" using fr road_edge_step_frame [OF t'(1)] by (rule edges_frame_trans)
    with t' show "\<exists>t'. road_edge_step e model m i t = Inr t' \<and> I t'" by (simp add: I_def)
  qed
  then show ?thesis unfolding I_def by blast
qed

lemma update_model_total:
  assumes wm: "wf_model e model" and ws: "wf_scene e model (scene s)"
  shows "\<exists>s'. update_model e s model = Inr s'"
proof -
  have ts: "0 < TRAJECTORY_SIZE e" and fp: "full_line e (getPosition model)"
    and ne: "getLaneLines model \<noteq> []"
    using wm by (simp_all add: wf_model_def)
  have lenp: "TRAJECTORY_SIZE e \<le> length (getX (getPosition model))"
    using fp by (simp add: full_line_def)
  define x_last where "x_last = getX (getPosition model) ! (TRAJECTORY_SIZE e - 1)"
  have 1: "rd (getX (getPosition model)) (int (TRAJECTORY_SIZE e) - 1) = Inr x_last"
    using ts lenp rd_nth [of "TRAJECTORY_SIZE e - 1" "getX (getPosition model)"]
    by (simp add: x_last_def of_nat_diff)
  define d where "d = fclamp x_last (MIN_DRAW_DISTANCE e) (MAX_DRAW_DISTANCE e)"
  define lane0 where "lane0 = getLaneLines model ! 0"
  have 2: "rd (getLaneLines model) 0 = Inr lane0"
    using ne rd_nth [of 0 "getLaneLines model"] by (simp add: lane0_def)
  have "full_line e lane0" using wm ne by (simp add: wf_model_def lane0_def)
  then have len0: "TRAJECTORY_SIZE e \<le> length (getX lane0)" by (simp add: full_line_def)
  obtain m where 3: "get_path_length_idx e lane0 d = Inr m"
    and m: "0 \<le> m" "m \<le> int (TRAJECTORY_SIZE e) - 1"
    using get_path_length_idx_range [OF len0 ts] by blast
  obtain s1 where 4: "forE (lane_line_step e model m)
      [0..<length (lane_line_vertices (scene s))] s = Inr s1" and f1: "lanes_frame s s1"
    using lane_lines_loop_total [OF m wm ws] by blast
  have ws1: "wf_scene e model (scene s1)"
    using ws f1 4 lane_lines_loop_total [OF m wm ws] by (auto simp: wf_scene_def lanes_frame_def)
  obtain s2 where 5: "forE (road_edge_step e model m)
      [0..<length (road_edge_vertices (scene s1))] s1 = Inr s2" and f2: "edges_frame s1 s2"
    using road_edges_loop_total [OF m wm ws1] by blast
  define d2 where "d2 = path_max_distance (getLeadOne (msg_radarState (sm s2))) d"
  obtain m2 where 6: "get_path_length_idx e (getPosition model) d2 = Inr m2"
    and m2: "0 \<le> m2" "m2 \<le> int (TRAJECTORY_SIZE e) - 1"
    using get_path_length_idx_range [OF lenp ts] by blast
  have cap: "length (v_arr (track_vertices (scene s2))) = 2 * TRAJECTORY_SIZE e"
    using ws f1 f2 by (simp add: wf_scene_def lanes_frame_def edges_frame_def)
  obtain vs k where 7: "update_line_data e s2 (getPosition model) (Fin 0.5) (Fin 1.22)
      (track_vertices (scene s2)) m2 = Inr ((track_vertices (scene s2))\<lparr>v_arr := vs, cnt := int k\<rparr>)"
    using update_line_data_bound [OF m2 cap fp] by blast
  have "update_model e s model =
      Inr (s2\<lparr>scene := (scene s2)\<lparr>track_vertices :=
             (track_vertices (scene s2))\<lparr>v_arr := vs, cnt := int k\<rparr>\<rparr>\<rparr>)"
    unfolding update_model_def Let_def
    using 1 2 3 4 5 6 7 by (simp add: d_def [symmetric] d2_def [symmetric])
  then show ?thesis by blast
qed

lemma update_model_builds:
  assumes "update_model e s model = Inr s'"
  shows "\<exists>x_last lane0 max_idx.
           rd (getX (getPosition model)) (int (TRAJECTORY_SIZE e) - 1) = Inr x_last \<and>
           rd (getLaneLines model) 0 = Inr lane0 \<and>
           get_path_length_idx e lane0
             (fclamp x_last (MIN_DRAW_DISTANCE e) (MAX_DRAW_DISTANCE e)) = Inr max_idx \<and>
           (\<forall>i<length (lane_line_vertices (scene s)).
              \<exists>prob line. rd (getLaneLineProbs model) (int i) = Inr prob \<and>
                rd (getLaneLines model) (int i) = Inr line \<and>
                update_line_data e s line (fmul (Fin 0.025) prob) (Fin 0)
                  (lane_line_vertices (scene s) ! i) max_idx =
                  Inr (lane_line_vertices (scene s') ! i)) \<and>
           (\<forall>i<length (road_edge_vertices (scene s)).
              \<exists>line. rd (getRoadEdges model) (int i) = Inr line \<and>
                update_line_data e s line (Fin 0.025) (Fin 0)
                  (road_edge_vertices (scene s) ! i) max_idx =
                  Inr (road_edge_vertices (scene s') ! i)) \<and>
           (\<exists>max_idx2.
              get_path_length_idx e (getPosition model)
                (path_max_distance (getLeadOne (msg_radarState (sm s)))
                   (fclamp x_last (MIN_DRAW_DISTANCE e) (MAX_DRAW_DISTANCE e))) = Inr max_idx2 \<and>
              update_line_data e s (getPosition model) (Fin 0.5) (Fin 1.22)
                (track_vertices (scene s)) max_idx2 = Inr (track_vertices (scene s')))"
proof -
  from assms obtain x_last lane0 max_idx s1 s2 max_idx2 pvd where
    1: "rd (getX (getPosition model)) (int (TRAJECTORY_SIZE e) - 1) = Inr x_last"
    and 2: "rd (getLaneLines model) 0 = Inr lane0"
    and 3: "get_path_length_idx e lane0
       (fclamp x_last (MIN_DRAW_DISTANCE e) (MAX_DRAW_DISTANCE e)) = Inr max_idx"
    and 4: "forE (lane_line_step e model max_idx) [0..<length (lane_line_vertices (scene s))] s = Inr s1"
    and 5: "forE (road_edge_step e model max_idx) [0..<length (road_edge_vertices (scene s1))] s1 = Inr s2"
    and 6: "get_path_length_idx e (getPosition model)
       (path_max_distance (getLeadOne (msg_radarState (sm s2)))
          (fclamp x_last (MIN_DRAW_DISTANCE e) (MAX_DRAW_DISTANCE e))) = Inr max_idx2"
    and 7: "update_line_data e s2 (getPosition model) (Fin 0.5) (Fin 1.22)
       (track_vertices (scene s2)) max_idx2 = Inr pvd"
    and 8: "s' = s2\<lparr>scene := (scene s2)\<lparr>track_vertices := pvd\<rparr>\<rparr>"
    by (rule update_model_steps)
  have f1: "lanes_frame s s1" by (rule lane_lines_loop_frame [OF 4])
  have f2: "edges_frame s1 s2" by (rule road_edges_loop_frame [OF 5])
  have v1: "same_view s s1" using f1 by (rule lanes_frame_same_view)
  have v2: "same_view s s2" using v1 edges_frame_same_view [OF f2] by (rule same_view_trans)
  have sm2: "sm s2 = sm s"
    using drop_lines_keeps(1) [of s1 s] drop_lines_keeps(1) [of s2 s1] f1 f2
    by (simp add: lanes_frame_def edges_frame_def base_eq_def)
  have lanes: "lane_line_vertices (scene s') = lane_line_vertices (scene s1)"
    using 8 f2 by (simp add: edges_frame_def)
  have edges0: "road_edge_vertices (scene s1) = road_edge_vertices (scene s)"
    using f1 by (simp add: lanes_frame_def)
  have edges: "road_edge_vertices (scene s') = road_edge_vertices (scene s2)" using 8 by simp
  have track: "track_vertices (scene s2) = track_vertices (scene s)"
    using f1 f2 by (simp add: lanes_frame_def edges_frame_def)
  have a: "\<forall>i<length (lane_line_vertices (scene s)).
              \<exists>prob line. rd (getLaneLineProbs model) (int i) = Inr prob \<and>
                rd (getLaneLines model) (int i) = Inr line \<and>
                update_line_data e s line (fmul (Fin 0.025) prob) (Fin 0)
                  (lane_line_vertices (scene s) ! i) max_idx =
                  Inr (lane_line_vertices (scene s') ! i)"
    unfolding lanes using lane_lines_loop_nth(2) [OF 4] by simp
  have b: "\<forall>i<length (road_edge_vertices (scene s)).
              \<exists>line. rd (getRoadEdges model) (int i) = Inr line \<and>
                update_line_data e s line (Fin 0.025) (Fin 0)
                  (road_edge_vertices (scene s) ! i) max_idx =
                  Inr (road_edge_vertices (scene s') ! i)"
  proof (intro allI impI)
    fix i assume i: "i < length (road_edge_vertices (scene s))"
    then have "\<exists>line. rd (getRoadEdges model) (int i) = Inr line \<and>
        update_line_data e s1 line (Fin 0.025) (Fin 0)
          (road_edge_vertices (scene s1) ! i) max_idx = Inr (road_edge_vertices (scene s2) ! i)"
      using road_edges_loop_nth(2) [OF 5, of i] edges0 by simp
    then show "\<exists>line. rd (getRoadEdges model) (int i) = Inr line \<and>
        update_line_data e s line (Fin 0.025) (Fin 0)
          (road_edge_vertices (scene s) ! i) max_idx = Inr (road_edge_vertices (scene s') ! i)"
      using edges edges0 update_line_data_same_view [OF v1] by simp
  qed
  have c: "get_path_length_idx e (getPosition model)
                (path_max_distance (getLeadOne (msg_radarState (sm s)))
                   (fclamp x_last (MIN_DRAW_DISTANCE e) (MAX_DRAW_DISTANCE e))) = Inr max_idx2 \<and>
              update_line_data e s (getPosition model) (Fin 0.5) (Fin 1.22)
                (track_vertices (scene s)) max_idx2 = Inr (track_vertices (scene s'))"
    using 6 7 8 sm2 track update_line_data_same_view [OF v2] by simp
  from 1 2 3 a b c show ?thesis by blast
qed

subsection \<open>The example model update\<close>

lemma ex_model_wf: "wf_model ex_env ex_model"
  by (simp add: wf_model_def ex_env_size ex_model_def ex_line_full)

lemma ex_pvd_cap: "length (v_arr ex_pvd) = 2 * TRAJECTORY_SIZE ex_env"
  by (simp add: ex_pvd_def ex_env_size)

lemma ex_scene_wf: "wf_scene ex_env ex_model (scene ex_state)"
  by (simp add: wf_scene_def ex_state_def ex_scene_def ex_model_def ex_pvd_cap)

lemma ex_model_fields:
  "getPosition ex_model = ex_line" "getLaneLines ex_model ! 0 = ex_line"
  "getLaneLineProbs ex_model ! 0 = Fin 0"
  "rd (getLaneLines ex_model) 0 = Inr ex_line"
  "rd (getLaneLineProbs ex_model) 0 = Inr (Fin 0)"
  "rd (getX ex_line) (int (TRAJECTORY_SIZE ex_env) - 1) = Inr (Fin 33)"
  "MIN_DRAW_DISTANCE ex_env = Fin 10" "MAX_DRAW_DISTANCE ex_env = Fin 100"
  "lane_line_vertices (scene ex_state) ! 0 = ex_pvd"
  "0 < length (lane_line_vertices (scene ex_state))"
  "getLeadOne (msg_radarState (sm ex_state)) = ex_lead"
  by (simp_all add: ex_model_def rd_def ex_env_def ex_line_def ex_state_def ex_scene_def ex_sm_def)

lemma ex_lane_idx: "get_path_length_idx ex_env ex_line (Fin 33) = Inr 31"
proof -
  have len: "TRAJECTORY_SIZE ex_env \<le> length (getX ex_line)"
    using ex_line_full by (simp add: full_line_def)
  have p: "32 \<le> TRAJECTORY_SIZE ex_env" by (simp add: ex_env_size)
  have below: "\<forall>j<32. flt (getX ex_line ! j) (Fin 33)" by (simp add: ex_line_nth)
  have stop: "32 = TRAJECTORY_SIZE ex_env \<or> \<not> flt (getX ex_line ! 32) (Fin 33)"
    by (simp add: ex_line_nth)
  from get_path_length_idx_stop [OF len p below stop] show ?thesis by simp
qed

lemma ex_short_distance: "path_max_distance ex_lead (Fin 33) = Fin (13 / 2)"
  by (simp add: path_max_distance_def ex_lead_def Let_def fsub_def fclamp_def)

lemma ex_short_idx: "get_path_length_idx ex_env ex_line (Fin (13 / 2)) = Inr 5"
proof -
  have len: "TRAJECTORY_SIZE ex_env \<le> length (getX ex_line)"
    using ex_line_full by (simp add: full_line_def)
  have p: "6 \<le> TRAJECTORY_SIZE ex_env" by (simp add: ex_env_size)
  have below: "\<forall>j<6. flt (getX ex_line ! j) (Fin (13 / 2))" by (simp add: ex_line_nth)
  have stop: "6 = TRAJECTORY_SIZE ex_env \<or> \<not> flt (getX ex_line ! 6) (Fin (13 / 2))"
    by (simp add: ex_line_nth)
  from get_path_length_idx_stop [OF len p below stop] show ?thesis by simp
qed

lemma ex_lane_cnt:
  "0 \<le> m \<Longrightarrow> m \<le> 32 \<Longrightarrow>
   built_cnt (update_line_data ex_env ex_state ex_line (Fin 0) (Fin 0) ex_pvd m) = Inr (2 * (m + 1))"
  by (rule update_line_data_all_valid [OF _ _ ex_pvd_cap ex_line_full ex_line_all_pass])
    (simp_all add: ex_env_size)

lemma ex_builds_lane0:
  assumes "rd (getX (getPosition ex_model)) (int (TRAJECTORY_SIZE ex_env) - 1) = Inr x_last"
    and "rd (getLaneLines ex_model) 0 = Inr lane0"
    and "get_path_length_idx ex_env lane0
           (fclamp x_last (MIN_DRAW_DISTANCE ex_env) (MAX_DRAW_DISTANCE ex_env)) = Inr max_idx"
    and "\<forall>i<length (lane_line_vertices (scene ex_state)).
              \<exists>prob line. rd (getLaneLineProbs ex_model) (int i) = Inr prob \<and>
                rd (getLaneLines ex_model) (int i) = Inr line \<and>
                update_line_data ex_env ex_state line (fmul (Fin 0.025) prob) (Fin 0)
                  (lane_line_vertices (scene ex_state) ! i) max_idx =
                  Inr (lane_line_vertices (scene s') ! i)"
    and "get_path_length_idx ex_env (getPosition ex_model)
                (path_max_distance (getLeadOne (msg_radarState (sm ex_state)))
                   (fclamp x_last (MIN_DRAW_DISTANCE ex_env) (MAX_DRAW_DISTANCE ex_env))) = Inr max_idx2"
  shows "x_last = Fin 33" "lane0 = ex_line" "max_idx = 31" "max_idx2 = 5"
    "update_line_data ex_env ex_state ex_line (Fin 0) (Fin 0) ex_pvd 31 =
       Inr (lane_line_vertices (scene s') ! 0)"
proof -
  show x: "x_last = Fin 33" using assms(1) by (simp add: ex_model_fields)
  show l: "lane0 = ex_line" using assms(2) by (simp add: ex_model_fields)
  show m: "max_idx = 31" using assms(3) x l by (simp add: ex_model_fields fclamp_def ex_lane_idx)
  show "max_idx2 = 5"
    using assms(5) x by (simp add: ex_model_fields fclamp_def ex_short_distance ex_short_idx)
  from assms(4) ex_model_fields(10) obtain prob line where
    p: "rd (getLaneLineProbs ex_model) (int 0) = Inr prob"
    "rd (getLaneLines ex_model) (int 0) = Inr line"
    "update_line_data ex_env ex_state line (fmul (Fin 0.025) prob) (Fin 0)
       (lane_line_vertices (scene ex_state) ! 0) max_idx = Inr (lane_line_vertices (scene s') ! 0)"
    by blast
  from p(1,2) have "prob = Fin 0" "line = ex_line" by (simp_all add: ex_model_fields)
  with p(3) m show "update_line_data ex_env ex_state ex_line (Fin 0) (Fin 0) ex_pvd 31 =
       Inr (lane_line_vertices (scene s') ! 0)"
    by (simp add: ex_model_fields)
qed

subsection \<open>The range of the path-length index\<close>

lemma path_length_loop_bounds:
  assumes "path_length_loop tsz xs h i m = Inr r" and "0 \<le> m" and "m < int tsz \<or> m = 0"
  shows "0 \<le> r \<and> (r < int tsz \<or> r = 0)"
  using assms
proof (induction tsz xs h i m rule: path_length_loop.induct)
  case (1 tsz line_x path_height i max_idx)
  show ?case
  proof (cases "i < tsz")
    case False
    with "1.prems" show ?thesis by (simp add: path_length_loop.simps [of tsz line_x path_height i])
  next
    case lt: True
    show ?thesis
    proof (cases "rd line_x (int i)")
      case (Inl err)
      with "1.prems" lt show ?thesis
        by (simp add: path_length_loop.simps [of tsz line_x path_height i])
    next
      case (Inr xi)
      show ?thesis
      proof (cases "flt xi path_height")
        case False
        with "1.prems" lt Inr show ?thesis
          by (simp add: path_length_loop.simps [of tsz line_x path_height i])
      next
        case True
        with "1.prems"(1) lt Inr
        have "path_length_loop tsz line_x path_height (Suc i) (int i) = Inr r"
          by (simp add: path_length_loop.simps [of tsz line_x path_height i])
        with "1.IH" [OF lt Inr True] lt show ?thesis by simp
      qed
    qed
  qed
qed

lemma get_path_length_idx_bounds:
  assumes "get_path_length_idx e line h = Inr r"
  shows "0 \<le> r \<and> (r \<le> int (TRAJECTORY_SIZE e) - 1 \<or> r = 0)"
  using path_length_loop_bounds [OF assms [unfolded get_path_length_idx_def]] by auto

lemma update_line_data_negative:
  "max_idx < 0 \<Longrightarrow>
   update_line_data e s line y_off z_off pvd max_idx = Inr (pvd\<lparr>v_arr := v_arr pvd, cnt := 0\<rparr>)"
  by (simp add: update_line_data_def)

section \<open>The claims\<close>

text \<open>
  C1 (amended).  For a frame of non-negative width and height and every 3-D input point
  whose projected 2-D coordinate has no NaN component, \<^verbatim>\<open>calib_frame_to_full_frame\<close>
  returns valid=true and writes the projected coordinate to the output vertex exactly when
  the coordinate lies inside the closed clip rectangle
  \<open>[-500, fb_w + 500] \<times> [-500, fb_h + 500]\<close>, and returns valid=false, leaving the output
  vertex unwritten, for any coordinate outside it (infinite coordinates included).
\<close>

theorem projector_clip_correct:
  assumes "0 \<le> fb_w s" and "0 \<le> fb_h s" and "k < length vs"
    and "fst (project_point e s in_x in_y in_z) \<noteq> NaN"
    and "snd (project_point e s in_x in_y in_z) \<noteq> NaN"
  shows "calib_frame_to_full_frame e s in_x in_y in_z vs k =
           (if spec_inside_clip s (project_point e s in_x in_y in_z)
            then Inr (True, vs[k := project_point e s in_x in_y in_z])
            else Inr (False, vs))"
  using assms
  by (simp add: calib_frame_to_full_frame_def Let_def contains_clip_iff)

theorem projector_clip_correct_witness:
  "calib_frame_to_full_frame ex_env ex_state (Fin 10) (Fin 1) (Fin 1) [(Fin 0, Fin 0)] 0 =
     Inr (True, [(Fin 673, Fin 528)]) \<and>
   calib_frame_to_full_frame ex_env ex_state (Fin 1) (Fin 10) (Fin 1) [(Fin 0, Fin 0)] 0 =
     Inr (False, [(Fin 0, Fin 0)])"
proof -
  have p1: "project_point ex_env ex_state (Fin 10) (Fin 1) (Fin 1) = (Fin 673, Fin 528)"
    by (simp add: project_point_def ex_env_def ex_state_def ex_scene_def view_from_device_def
        matvecmul3_def dot3_def)
  have p2: "project_point ex_env ex_state (Fin 1) (Fin 10) (Fin 1) = (Fin 9682, Fin 1347)"
    by (simp add: project_point_def ex_env_def ex_state_def ex_scene_def view_from_device_def
        matvecmul3_def dot3_def)
  have fb: "0 \<le> fb_w ex_state" "0 \<le> fb_h ex_state" by (simp_all add: ex_state_def)
  have k: "0 < length [(Fin 0, Fin 0) :: vertex_data]" by simp
  have i1: "spec_inside_clip ex_state (Fin 673, Fin 528)"
    and i2: "\<not> spec_inside_clip ex_state (Fin 9682, Fin 1347)"
    by (simp_all add: spec_inside_clip_def ex_state_def)
  from projector_clip_correct [OF fb k, of ex_env "Fin 10" "Fin 1" "Fin 1"] p1 i1
       projector_clip_correct [OF fb k, of ex_env "Fin 1" "Fin 10" "Fin 1"] p2 i2
  show ?thesis by simp
qed

text \<open>
  C1 as stated fails at the origin \<open>(0, 0, 0)\<close>: the depth is zero, both quotients are
  \<^verbatim>\<open>0/0\<close>, i.e. NaN, no comparison of the clip test rejects NaN, and the call returns
  valid=true with the vertex \<open>(NaN, NaN)\<close>, which is not inside the clip rectangle.
\<close>

theorem projector_nan_counterexample:
  "calib_frame_to_full_frame ex_env ex_state (Fin 0) (Fin 0) (Fin 0) [(Fin 0, Fin 0)] 0 =
     Inr (True, [(NaN, NaN)]) \<and>
   \<not> spec_inside_clip ex_state (project_point ex_env ex_state (Fin 0) (Fin 0) (Fin 0))"
  by (simp add: calib_frame_to_full_frame_def project_point_def ex_env_def ex_state_def
      ex_scene_def view_from_device_def matvecmul3_def dot3_def QRectF_contains_def
      clip_region_def fgt_def spec_inside_clip_def)

text \<open>
  C5 (amended).  For a forward-coordinate sequence that is monotonically increasing and
  has at least \<^verbatim>\<open>TRAJECTORY_SIZE\<close> samples, \<^verbatim>\<open>get_path_length_idx\<close> returns the last
  index among the first \<^verbatim>\<open>TRAJECTORY_SIZE\<close> whose coordinate is strictly less than the
  limit, when there is one, and 0 when no sample is below the limit (the scan from index 0
  stops at the first sample that is not below the limit).  For the sequence
  \<open>[0, 1, ..., 9]\<close> and the limit 5.5 it returns 5.
\<close>

theorem path_length_idx_last_below:
  assumes mono: "\<forall>i j. i \<le> j \<and> j < length (getX line) \<longrightarrow> fle (getX line ! i) (getX line ! j)"
    and len: "TRAJECTORY_SIZE e \<le> length (getX line)"
  shows "(\<forall>m. m < TRAJECTORY_SIZE e \<and> flt (getX line ! m) h \<and>
              (\<forall>j. m < j \<and> j < TRAJECTORY_SIZE e \<longrightarrow> \<not> flt (getX line ! j) h)
            \<longrightarrow> get_path_length_idx e line h = Inr (int m)) \<and>
         ((\<forall>j<TRAJECTORY_SIZE e. \<not> flt (getX line ! j) h)
            \<longrightarrow> get_path_length_idx e line h = Inr 0) \<and>
         (7 \<le> TRAJECTORY_SIZE e
            \<longrightarrow> get_path_length_idx e (line\<lparr>getX := map Fin [0, 1, 2, 3, 4, 5, 6, 7, 8, 9]\<rparr>)
                  (Fin 5.5) = Inr 5)"
proof (intro conjI allI impI)
  fix m
  assume a: "m < TRAJECTORY_SIZE e \<and> flt (getX line ! m) h \<and>
             (\<forall>j. m < j \<and> j < TRAJECTORY_SIZE e \<longrightarrow> \<not> flt (getX line ! j) h)"
  have below: "\<forall>j<Suc m. flt (getX line ! j) h"
  proof (intro allI impI)
    fix j assume "j < Suc m"
    with a len mono have "fle (getX line ! j) (getX line ! m)" by auto
    with a show "flt (getX line ! j) h" by (auto intro: fle_flt_trans)
  qed
  have stop: "Suc m = TRAJECTORY_SIZE e \<or> \<not> flt (getX line ! Suc m) h"
    using a by (cases "Suc m = TRAJECTORY_SIZE e") auto
  have "Suc m \<le> TRAJECTORY_SIZE e" using a by simp
  from get_path_length_idx_stop [OF len this below stop]
  show "get_path_length_idx e line h = Inr (int m)" by simp
next
  assume a: "\<forall>j<TRAJECTORY_SIZE e. \<not> flt (getX line ! j) h"
  have "0 = TRAJECTORY_SIZE e \<or> \<not> flt (getX line ! 0) h" using a by auto
  from get_path_length_idx_stop [OF len _ _ this]
  show "get_path_length_idx e line h = Inr 0" by simp
next
  assume "7 \<le> TRAJECTORY_SIZE e"
  then show "get_path_length_idx e (line\<lparr>getX := map Fin [0, 1, 2, 3, 4, 5, 6, 7, 8, 9]\<rparr>)
               (Fin 5.5) = Inr 5"
    by (simp add: get_path_length_idx_def path_length_loop.simps rd_def)
qed

theorem path_length_idx_last_below_witness:
  "get_path_length_idx ex_env ex_line (Fin 5.5) = Inr 4 \<and>
   get_path_length_idx ex_env ex_line (Fin (1 / 2)) = Inr 0 \<and>
   get_path_length_idx ex_env (ex_line\<lparr>getX := map Fin [0, 1, 2, 3, 4, 5, 6, 7, 8, 9]\<rparr>)
     (Fin 5.5) = Inr 5"
proof -
  have len: "TRAJECTORY_SIZE ex_env \<le> length (getX ex_line)"
    by (simp add: ex_env_def ex_line_def)
  have last: "(4::nat) < TRAJECTORY_SIZE ex_env \<and> flt (getX ex_line ! 4) (Fin 5.5) \<and>
      (\<forall>j. 4 < j \<and> j < TRAJECTORY_SIZE ex_env \<longrightarrow> \<not> flt (getX ex_line ! j) (Fin 5.5))"
    by (auto simp: ex_env_size ex_line_nth)
  have none: "\<forall>j<TRAJECTORY_SIZE ex_env. \<not> flt (getX ex_line ! j) (Fin (1 / 2))"
    by (auto simp: ex_env_size ex_line_nth)
  have seven: "7 \<le> TRAJECTORY_SIZE ex_env" by (simp add: ex_env_def)
  from path_length_idx_last_below [OF ex_line_mono len, of "Fin 5.5"] last seven
  have "get_path_length_idx ex_env ex_line (Fin 5.5) = Inr (int 4)"
    and "get_path_length_idx ex_env (ex_line\<lparr>getX := map Fin [0, 1, 2, 3, 4, 5, 6, 7, 8, 9]\<rparr>)
           (Fin 5.5) = Inr 5"
    by blast+
  moreover from path_length_idx_last_below [OF ex_line_mono len, of "Fin (1 / 2)"] none
  have "get_path_length_idx ex_env ex_line (Fin (1 / 2)) = Inr 0" by blast
  ultimately show ?thesis by simp
qed

theorem path_length_idx_not_below_counterexample:
  "get_path_length_idx ex_env ex_line (Fin 0) = Inr 0 \<and> \<not> flt (getX ex_line ! 0) (Fin 0)"
  by (simp add: get_path_length_idx_def path_length_loop.simps rd_def ex_env_def ex_line_def
      upt_rec)

text \<open>
  C8.  For every invocation of \<^verbatim>\<open>update_line_data\<close> with \<open>max_idx \<le> TRAJECTORY_SIZE - 1\<close>
  on a line of at least \<^verbatim>\<open>TRAJECTORY_SIZE\<close> samples and a polyline of capacity
  \<open>2 * TRAJECTORY_SIZE\<close>, the build returns normally (no write past the end of the vertex
  array, the assertion holds) and the vertex count does not exceed the capacity.  For
  \<open>0 \<le> max_idx\<close>, which is the range of \<^verbatim>\<open>get_path_length_idx\<close> that every caller passes,
  the count is at most \<open>2 * (max_idx + 1)\<close>; for a negative \<open>max_idx\<close> neither loop runs and the
  count is 0.
\<close>

theorem update_line_data_count_bounded:
  assumes "max_idx \<le> int (TRAJECTORY_SIZE e) - 1"
    and "length (v_arr pvd) = 2 * TRAJECTORY_SIZE e"
    and "full_line e line"
  shows "\<exists>pvd'. update_line_data e s line y_off z_off pvd max_idx = Inr pvd' \<and>
           0 \<le> cnt pvd' \<and> cnt pvd' \<le> int (length (v_arr pvd')) \<and>
           length (v_arr pvd') = 2 * TRAJECTORY_SIZE e \<and>
           (0 \<le> max_idx \<longrightarrow> cnt pvd' \<le> 2 * (max_idx + 1)) \<and>
           (max_idx < 0 \<longrightarrow> cnt pvd' = 0)"
proof (cases "0 \<le> max_idx")
  case True
  obtain vs k where r: "update_line_data e s line y_off z_off pvd max_idx = Inr (pvd\<lparr>v_arr := vs, cnt := int k\<rparr>)"
    "length vs = length (v_arr pvd)" "int k \<le> 2 * (max_idx + 1)" "k \<le> length vs"
    using update_line_data_bound [OF True assms] by blast
  with assms(2) True show ?thesis by simp
next
  case False
  then have "update_line_data e s line y_off z_off pvd max_idx =
      Inr (pvd\<lparr>v_arr := v_arr pvd, cnt := 0\<rparr>)"
    by (simp add: update_line_data_negative)
  with assms(2) False show ?thesis by simp
qed

theorem update_line_data_count_bounded_witness:
  "\<exists>pvd'. update_line_data ex_env ex_state ex_line (Fin 0.5) (Fin 1.22) ex_pvd 32 = Inr pvd' \<and>
     0 \<le> cnt pvd' \<and> cnt pvd' \<le> 66 \<and> cnt pvd' \<le> int (length (v_arr pvd')) \<and>
     length (v_arr pvd') = 66"
proof -
  have "32 \<le> int (TRAJECTORY_SIZE ex_env) - 1"
    "length (v_arr ex_pvd) = 2 * TRAJECTORY_SIZE ex_env"
    by (simp_all add: ex_env_size ex_pvd_def)
  from update_line_data_count_bounded [OF this ex_line_full, of ex_state "Fin 0.5" "Fin 1.22"]
  show ?thesis by (auto simp add: ex_env_size)
qed

text \<open>
  C9.  For a fixed centerline all of whose offset points pass the Projector's clip test,
  a larger visibility distance passed to \<^verbatim>\<open>get_path_length_idx\<close> never gives a smaller
  vertex count of the polyline built from the resulting index.
\<close>

theorem vertex_count_monotone_in_distance:
  assumes "0 < TRAJECTORY_SIZE e" and "full_line e line"
    and "length (v_arr pvd) = 2 * TRAJECTORY_SIZE e"
    and "\<forall>i<TRAJECTORY_SIZE e.
           passes_clip e s (getX line ! i) (fsub (getY line ! i) y_off) (fadd (getZ line ! i) z_off) \<and>
           passes_clip e s (getX line ! i) (fadd (getY line ! i) y_off) (fadd (getZ line ! i) z_off)"
    and "fle d1 d2"
  shows "\<exists>i1 i2 c1 c2.
           get_path_length_idx e line d1 = Inr i1 \<and>
           get_path_length_idx e line d2 = Inr i2 \<and>
           built_cnt (update_line_data e s line y_off z_off pvd i1) = Inr c1 \<and>
           built_cnt (update_line_data e s line y_off z_off pvd i2) = Inr c2 \<and>
           c1 \<le> c2"
proof -
  have len: "TRAJECTORY_SIZE e \<le> length (getX line)"
    using assms(2) by (simp add: full_line_def)
  obtain i1 i2 where i: "get_path_length_idx e line d1 = Inr i1"
    "get_path_length_idx e line d2 = Inr i2" "i1 \<le> i2"
    using get_path_length_idx_mono [OF len assms(5)] by blast
  have r1: "0 \<le> i1 \<and> i1 \<le> int (TRAJECTORY_SIZE e) - 1"
    using get_path_length_idx_range [OF len assms(1), of d1] i(1) by simp
  have r2: "0 \<le> i2 \<and> i2 \<le> int (TRAJECTORY_SIZE e) - 1"
    using get_path_length_idx_range [OF len assms(1), of d2] i(2) by simp
  have c1: "built_cnt (update_line_data e s line y_off z_off pvd i1) = Inr (2 * (i1 + 1))"
    using r1 assms by (intro update_line_data_all_valid) auto
  have c2: "built_cnt (update_line_data e s line y_off z_off pvd i2) = Inr (2 * (i2 + 1))"
    using r2 assms by (intro update_line_data_all_valid) auto
  from i c1 c2 show ?thesis by auto
qed

theorem vertex_count_monotone_in_distance_witness:
  "\<exists>i1 i2 c1 c2.
     get_path_length_idx ex_env ex_line (Fin 10) = Inr i1 \<and>
     get_path_length_idx ex_env ex_line (Fin 20) = Inr i2 \<and>
     built_cnt (update_line_data ex_env ex_state ex_line (Fin 0) (Fin 0) ex_pvd i1) = Inr c1 \<and>
     built_cnt (update_line_data ex_env ex_state ex_line (Fin 0) (Fin 0) ex_pvd i2) = Inr c2 \<and>
     c1 \<le> c2"
proof -
  have "0 < TRAJECTORY_SIZE ex_env" "length (v_arr ex_pvd) = 2 * TRAJECTORY_SIZE ex_env"
    "fle (Fin 10) (Fin 20)"
    by (simp_all add: ex_env_size ex_pvd_def fle_def)
  from vertex_count_monotone_in_distance [OF this(1) ex_line_full this(2) ex_line_all_pass this(3)]
  show ?thesis .
qed

text \<open>
  C3 (amended).  A call of \<^verbatim>\<open>setAwake\<close> emits the display-power-change notification (after
  switching the display power) exactly when its \<^verbatim>\<open>on\<close> argument differs from the stored
  awake flag and, in addition, ignition is present or the auto-screen-off feature is
  disabled; the awake flag is set to \<^verbatim>\<open>on\<close> in every case.
\<close>

theorem setAwake_notification_guarded:
  "snd (setAwake e (dev, scn) on reset) =
     (if on \<noteq> dev_awake dev \<and> (ignition scn \<or> scr_autoScreenOff (scr scn) = 0)
      then [set_display_power on, displayPowerChanged on] else []) \<and>
   dev_awake (fst (fst (setAwake e (dev, scn) on reset))) = on"
  by (simp add: setAwake_def Let_def split: prod.splits)

theorem setAwake_notification_guarded_witness:
  "snd (setAwake ex_env (\<lparr>dev_awake = False, awake_timeout = 0\<rparr>, ex_scene\<lparr>ignition := True\<rparr>) True True) =
     [set_display_power True, displayPowerChanged True]"
  using setAwake_notification_guarded
    [of ex_env "\<lparr>dev_awake = False, awake_timeout = 0\<rparr>" "ex_scene\<lparr>ignition := True\<rparr>" True True]
  by simp

text \<open>
  C3 as stated fails with ignition off and auto-screen-off enabled: the awake flag goes
  from false to true and no notification is emitted.
\<close>

theorem setAwake_silent_edge_counterexample:
  "True \<noteq> dev_awake \<lparr>dev_awake = False, awake_timeout = 0\<rparr> \<and>
   displayPowerChanged True \<notin>
     set (snd (setAwake ex_env (\<lparr>dev_awake = False, awake_timeout = 0\<rparr>, ex_scene) True True)) \<and>
   dev_awake (fst (fst (setAwake ex_env (\<lparr>dev_awake = False, awake_timeout = 0\<rparr>, ex_scene) True True)))"
  by (simp add: setAwake_def ex_scene_def)

text \<open>
  C10.  Whenever the scene's started flag differs from its value at the previous tick, in
  either direction, \<^verbatim>\<open>update_status\<close> sets the world-objects-visible flag to false and
  remembers the new flag.  On the falling edge status, drive-start marker and the two
  configuration toggles are left as they were; only the rising edge resets status to
  Disengaged, snapshots the tick index and re-reads the configuration.
\<close>

theorem update_status_any_edge_hides_world_objects:
  assumes "started (scene s) \<noteq> sp"
  shows "\<not> world_objects_visible (scene (fst (update_status e (s, sp)))) \<and>
         snd (update_status e (s, sp)) = started (scene s) \<and>
         (\<not> started (scene s) \<longrightarrow>
            status (fst (update_status e (s, sp))) = status s \<and>
            started_frame (scene (fst (update_status e (s, sp)))) = started_frame (scene s) \<and>
            end_to_end (scene (fst (update_status e (s, sp)))) = end_to_end (scene s) \<and>
            wide_camera (fst (update_status e (s, sp))) = wide_camera s) \<and>
         (started (scene s) \<longrightarrow>
            status (fst (update_status e (s, sp))) = STATUS_DISENGAGED \<and>
            started_frame (scene (fst (update_status e (s, sp)))) = frame (sm s) \<and>
            end_to_end (scene (fst (update_status e (s, sp)))) = Params_getBool e ''EndToEndToggle'' \<and>
            wide_camera (fst (update_status e (s, sp))) =
              (Hardware_TICI e \<and> Params_getBool e ''EnableWideCamera''))"
  using assms by (auto simp: update_status_def Let_def)

theorem update_status_any_edge_hides_world_objects_witness:
  "\<not> world_objects_visible (scene (fst (update_status ex_env (ex_state, True)))) \<and>
   status (fst (update_status ex_env (ex_state, True))) = STATUS_ENGAGED \<and>
   \<not> world_objects_visible
      (scene (fst (update_status ex_env (ex_state\<lparr>scene := ex_scene\<lparr>started := True\<rparr>\<rparr>, False)))) \<and>
   status (fst (update_status ex_env (ex_state\<lparr>scene := ex_scene\<lparr>started := True\<rparr>\<rparr>, False))) =
     STATUS_DISENGAGED"
proof -
  have a: "started (scene ex_state) \<noteq> True" by (simp add: ex_state_def ex_scene_def)
  have b: "started (scene (ex_state\<lparr>scene := ex_scene\<lparr>started := True\<rparr>\<rparr>)) \<noteq> False" by simp
  from update_status_any_edge_hides_world_objects [OF a, of ex_env]
       update_status_any_edge_hides_world_objects [OF b, of ex_env]
  show ?thesis by (simp add: ex_state_def ex_scene_def)
qed

text \<open>
  C4.  On a tick on which the hardware-link topic is not fresh and the tick counter minus
  the tick of its last received sample (in \<^verbatim>\<open>uint64_t\<close>) exceeds \<open>5 * UI_FREQ\<close>, the
  hardware-link type becomes \<^verbatim>\<open>UNKNOWN\<close>, whatever it held; on a tick on which the topic is
  not fresh and that difference is within the window, the field keeps its value; on a
  fresh sample it takes the type of the first entry (or keeps its value when the sample
  has no entries).  When the last sample is not in the future and \<open>5 * UI_FREQ\<close> is a
  \<^verbatim>\<open>uint64_t\<close>, the comparison is the one of the plain numbers of ticks.
\<close>

theorem hardware_link_staleness:
  assumes "update_state e now s = Inr s'"
  shows "(\<not> updated (sm s) ''pandaStates'' \<and>
            frame (sm s) - rcv_frame (sm s) ''pandaStates'' > word_of_int (5 * UI_FREQ e)
            \<longrightarrow> pandaType (scene s') = UNKNOWN) \<and>
         (\<not> updated (sm s) ''pandaStates'' \<and>
            \<not> frame (sm s) - rcv_frame (sm s) ''pandaStates'' > word_of_int (5 * UI_FREQ e)
            \<longrightarrow> pandaType (scene s') = pandaType (scene s)) \<and>
         (updated (sm s) ''pandaStates''
            \<longrightarrow> pandaType (scene s') =
                  (if msg_pandaStates (sm s) = [] then pandaType (scene s)
                   else getPandaType (msg_pandaStates (sm s) ! 0))) \<and>
         (rcv_frame (sm s) ''pandaStates'' \<le> frame (sm s) \<and> 0 \<le> UI_FREQ e \<and>
            5 * UI_FREQ e < 2 ^ 64
            \<longrightarrow> (frame (sm s) - rcv_frame (sm s) ''pandaStates'' > word_of_int (5 * UI_FREQ e)) =
                  (int (unat (frame (sm s))) - int (unat (rcv_frame (sm s) ''pandaStates''))
                     > 5 * UI_FREQ e))"
proof -
  define stale where
    "stale \<longleftrightarrow> frame (sm s) - rcv_frame (sm s) ''pandaStates'' > word_of_int (5 * UI_FREQ e)"
  have p: "pandaType (scene s') =
     (if updated (sm s) ''pandaStates'' then
        (if 0 < length (msg_pandaStates (sm s))
         then getPandaType (msg_pandaStates (sm s) ! 0) else pandaType (scene s))
      else if stale then UNKNOWN else pandaType (scene s))"
    unfolding stale_def by (rule update_state_pandaType [OF assms])
  have a: "\<not> updated (sm s) ''pandaStates'' \<and> stale \<longrightarrow> pandaType (scene s') = UNKNOWN"
    and b: "\<not> updated (sm s) ''pandaStates'' \<and> \<not> stale
            \<longrightarrow> pandaType (scene s') = pandaType (scene s)"
    and c: "updated (sm s) ''pandaStates''
            \<longrightarrow> pandaType (scene s') =
                  (if msg_pandaStates (sm s) = [] then pandaType (scene s)
                   else getPandaType (msg_pandaStates (sm s) ! 0))"
    using p by auto
  have d: "rcv_frame (sm s) ''pandaStates'' \<le> frame (sm s) \<and> 0 \<le> UI_FREQ e \<and>
            5 * UI_FREQ e < 2 ^ 64
            \<longrightarrow> stale =
                  (int (unat (frame (sm s))) - int (unat (rcv_frame (sm s) ''pandaStates''))
                     > 5 * UI_FREQ e)"
    unfolding stale_def by (intro impI stale_ticks_iff) auto
  from a b c d show ?thesis unfolding stale_def by (intro conjI)
qed

theorem hardware_link_staleness_witness:
  "pandaType (scene ex_stale_state) = UNO \<and>
   pandaType_of (update_state ex_env 1000 ex_stale_state) = Inr UNKNOWN \<and>
   pandaType_of (update_state ex_env 1000 ex_state) = Inr UNO"
proof -
  have 1: "\<exists>s'. update_state ex_env 1000 ex_stale_state = Inr s'"
    by (simp add: Inr_ex_iff update_state_def state_defs ex_stale_fields ex_sm_fields
        ex_scene_fields ex_env_fields ex_device_fields Let_def)
  have 2: "\<exists>s'. update_state ex_env 1000 ex_state = Inr s'"
    by (simp add: Inr_ex_iff update_state_def state_defs ex_state_def ex_sm_fields
        ex_scene_fields ex_env_fields ex_device_fields Let_def)
  from 1 obtain s1 where s1: "update_state ex_env 1000 ex_stale_state = Inr s1" ..
  from 2 obtain s2 where s2: "update_state ex_env 1000 ex_state = Inr s2" ..
  have "pandaType (scene s1) = UNKNOWN"
    using hardware_link_staleness [OF s1]
    by (simp add: ex_stale_fields ex_sm_fields ex_env_fields)
  moreover have "pandaType (scene s2) = UNO"
    using hardware_link_staleness [OF s2]
    by (simp add: ex_state_def ex_sm_fields ex_env_fields ex_scene_fields)
  ultimately show ?thesis
    using s1 s2 by (simp add: pandaType_of_def ex_stale_fields ex_scene_fields)
qed

text \<open>
  C6.  On a tick on which the started flag is true while it was false at the previous
  tick, the status is Disengaged, the drive-start marker is the tick index, the end-to-end
  toggle and the wide-camera toggle (on TICI only, false elsewhere) are read anew and
  the world-objects-visible flag is false after the tick.  The flag stays false over any
  later ticks that bring no calibration sample, and the next tick that brings one (and
  on which started does not change) sets it true.
\<close>

theorem started_transition_reset:
  assumes "QUIState_update e now polled q = Inr (q', sigs)"
    and "\<not> update_status_started_prev q" and "started (scene (ui_state q'))"
    and "QUIState_run ticks q' = Inr q2"
    and "\<forall>t \<in> set ticks. \<not> updated (snd (snd t)) ''liveCalibration''"
  shows "status (ui_state q') = STATUS_DISENGAGED \<and>
         started_frame (scene (ui_state q')) = frame polled \<and>
         end_to_end (scene (ui_state q')) = Params_getBool e ''EndToEndToggle'' \<and>
         wide_camera (ui_state q') = (Hardware_TICI e \<and> Params_getBool e ''EnableWideCamera'') \<and>
         \<not> world_objects_visible (scene (ui_state q')) \<and>
         update_status_started_prev q' = started (scene (ui_state q')) \<and>
         \<not> world_objects_visible (scene (ui_state q2)) \<and>
         (\<forall>e3 now3 polled3 q3 sigs3.
            QUIState_update e3 now3 polled3 q2 = Inr (q3, sigs3) \<and>
            updated polled3 ''liveCalibration'' \<and>
            started (scene (ui_state q3)) = started (scene (ui_state q2))
            \<longrightarrow> world_objects_visible (scene (ui_state q3)))"
proof -
  have hidden: "\<not> world_objects_visible (scene (ui_state q'))"
    using QUIState_update_effect(3) [OF assms(1)] assms(2,3) by simp
  have hidden2: "\<not> world_objects_visible (scene (ui_state q2))"
    using assms(4,5) hidden by (rule QUIState_run_stays_hidden)
  have prev2: "update_status_started_prev q2 = started (scene (ui_state q2))"
  proof (cases ticks rule: rev_cases)
    case Nil
    with assms(4) have "q2 = q'" by simp
    then show ?thesis using QUIState_update_effect(1) [OF assms(1)] by simp
  next
    case (snoc ticks' t)
    obtain e4 now4 polled4 where t: "t = (e4, now4, polled4)" by (cases t)
    have "\<exists>q4 sigs4. QUIState_update e4 now4 polled4 q4 = Inr (q2, sigs4)"
      using assms(4) unfolding snoc t
    proof (induction ticks' arbitrary: q')
      case Nil
      then show ?case by (cases "QUIState_update e4 now4 polled4 q'") auto
    next
      case (Cons u us)
      obtain e5 now5 polled5 where u: "u = (e5, now5, polled5)" by (cases u)
      from Cons.prems u obtain q5 where "QUIState_run (us @ [(e4, now4, polled4)]) q5 = Inr q2"
        by (cases "QUIState_update e5 now5 polled5 q'") auto
      then show ?case by (rule Cons.IH)
    qed
    then show ?thesis using QUIState_update_effect(1) by blast
  qed
  have shown: "\<forall>e3 now3 polled3 q3 sigs3.
            QUIState_update e3 now3 polled3 q2 = Inr (q3, sigs3) \<and>
            updated polled3 ''liveCalibration'' \<and>
            started (scene (ui_state q3)) = started (scene (ui_state q2))
            \<longrightarrow> world_objects_visible (scene (ui_state q3))"
    using QUIState_update_effect(3) prev2 by blast
  from QUIState_update_rising [OF assms(1,2,3)] hidden hidden2 shown
    QUIState_update_effect(1) [OF assms(1)]
  show ?thesis by simp
qed

text \<open>
  C6.  On a tick on which the started flag is true while it was false at the previous
  tick, the status is Disengaged, the drive-start marker is the tick index, the end-to-end
  toggle and the wide-camera toggle (on TICI only, false elsewhere) are read anew and
  the world-objects-visible flag is false after the tick.  The flag stays false over any
  later ticks that bring no calibration sample, and the next tick that brings one (and
  on which started does not change) sets it true.
\<close>

theorem started_transition_reset_witness:
  "QUIState_update ex_env 1000 ex_start_poll ex_qui = Inr (ex_q1, [offroadTransition False, uiUpdate]) \<and>
   QUIState_run [(ex_env, 2000, ex_idle_poll)] ex_q1 = Inr ex_q2 \<and>
   QUIState_update ex_env 3000 ex_calibration_poll ex_q2 = Inr (ex_q3, [uiUpdate]) \<and>
   status (ui_state ex_qui) = STATUS_ENGAGED \<and>
   status (ui_state ex_q1) = STATUS_DISENGAGED \<and>
   started_frame (scene (ui_state ex_q1)) = 8 \<and>
   end_to_end (scene (ui_state ex_q1)) \<and>
   \<not> wide_camera (ui_state ex_q1) \<and>
   \<not> world_objects_visible (scene (ui_state ex_q1)) \<and>
   \<not> world_objects_visible (scene (ui_state ex_q2)) \<and>
   world_objects_visible (scene (ui_state ex_q3))"
proof -
  have prev: "\<not> update_status_started_prev ex_qui" by (simp add: ex_qui_def)
  have st1: "started (scene (ui_state ex_q1))" by (simp add: ex_q1_def ex_started_fields)
  have quiet: "\<forall>t \<in> set [(ex_env, 2000, ex_idle_poll)]. \<not> updated (snd (snd t)) ''liveCalibration''"
    by (simp add: ex_poll_fields)
  have same: "started (scene (ui_state ex_q3)) = started (scene (ui_state ex_q2))"
    by (simp add: ex_q1_def ex_q2_def ex_q3_def ex_started_fields)
  have cal: "updated ex_calibration_poll ''liveCalibration''" by (simp add: ex_poll_fields)
  have en: "status (ui_state ex_qui) = STATUS_ENGAGED" by (simp add: ex_qui_def ex_state_fields)
  from started_transition_reset [OF ex_tick1 prev st1 ex_tick2 quiet] ex_tick3 same cal
  have "status (ui_state ex_q1) = STATUS_DISENGAGED \<and>
         started_frame (scene (ui_state ex_q1)) = frame ex_start_poll \<and>
         end_to_end (scene (ui_state ex_q1)) = Params_getBool ex_env ''EndToEndToggle'' \<and>
         wide_camera (ui_state ex_q1) =
           (Hardware_TICI ex_env \<and> Params_getBool ex_env ''EnableWideCamera'') \<and>
         \<not> world_objects_visible (scene (ui_state ex_q1)) \<and>
         \<not> world_objects_visible (scene (ui_state ex_q2)) \<and>
         world_objects_visible (scene (ui_state ex_q3))"
    by blast
  with ex_tick1 ex_tick2 ex_tick3 en show ?thesis
    by (simp add: ex_poll_fields ex_env_fields)
qed

text \<open>
  C7 (amended).  On a tick on which the radar topic is fresh (and the drawing context
  exists), each of the two leads with asserted status is projected at its forward
  distance, its negated lateral offset and the vertical coordinate \<open>z + 1.22\<close>, where \<open>z\<close> is
  read from the z profile of the latest model position at the path index of the lead's
  forward distance whenever a model message has been received at all
  (\<^verbatim>\<open>rcv_frame("modelV2") > 0\<close>), fresh on this tick or not, and is 0 only while none has
  been received; the marker becomes the projected point when that passes the clip test
  and keeps its vertex otherwise.
\<close>

theorem lead_marker_vertical_lookup:
  assumes "update_state e now s = Inr s'" and "updated (sm s) ''radarState''" and "vg s"
    and "i = 0 \<and> lead = getLeadOne (msg_radarState (sm s)) \<or>
         i = 1 \<and> lead = getLeadTwo (msg_radarState (sm s))"
    and "getStatus lead"
  shows "\<exists>z. (if 0 < rcv_frame (sm s) ''modelV2''
               then \<exists>idx. get_path_length_idx e (getPosition (msg_modelV2 (sm s))) (getDRel lead) = Inr idx \<and>
                          rd (getZ (getPosition (msg_modelV2 (sm s)))) idx = Inr z
               else z = Fin 0) \<and>
             lead_vertices (scene s') ! i = lead_marker e s lead z (lead_vertices (scene s) ! i)"
  using assms by (rule update_state_lead_vertices)

theorem lead_marker_vertical_lookup_witness:
  "\<exists>z. (\<exists>idx. get_path_length_idx ex_env (getPosition (msg_modelV2 (sm ex_radar_state)))
                  (getDRel ex_lead) = Inr idx \<and>
               rd (getZ (getPosition (msg_modelV2 (sm ex_radar_state)))) idx = Inr z) \<and>
        lead_vertex_of (update_state ex_env 1000 ex_radar_state) 0 =
          Inr (lead_marker ex_env ex_radar_state ex_lead z (lead_vertices (scene ex_radar_state) ! 0))"
proof -
  have u: "updated (sm ex_radar_state) ''radarState''" and v: "vg ex_radar_state"
    and l: "0 = (0::nat) \<and> ex_lead = getLeadOne (msg_radarState (sm ex_radar_state)) \<or>
        0 = (1::nat) \<and> ex_lead = getLeadTwo (msg_radarState (sm ex_radar_state))"
    and st: "getStatus ex_lead"
    and rcv: "0 < rcv_frame (sm ex_radar_state) ''modelV2''"
    by (simp_all add: ex_radar_fields ex_sm_fields ex_sm_more ex_lead_fields)
  from lead_marker_vertical_lookup [OF ex_radar_tick u v l st] rcv
  show ?thesis by (simp add: lead_vertex_of_def ex_radar_tick)
qed

text \<open>
  C7 as stated fails on a tick with a fresh radar sample and no fresh model sample, the
  model having been received earlier: the marker is computed from the stale z profile
  (here \<open>z = 1\<close>), not from the default 0.
\<close>

theorem lead_marker_stale_model_counterexample:
  "updated (sm ex_radar_state) ''radarState'' \<and>
   \<not> updated (sm ex_radar_state) ''modelV2'' \<and>
   getStatus (getLeadOne (msg_radarState (sm ex_radar_state))) \<and>
   lead_vertex_of (update_state ex_env 1000 ex_radar_state) 0 =
     Inr (project_point ex_env ex_radar_state (Fin 5) (Fin 0) (fadd (Fin 1) (Fin 1.22))) \<and>
   lead_vertex_of (update_state ex_env 1000 ex_radar_state) 0 \<noteq>
     Inr (project_point ex_env ex_radar_state (Fin 5) (Fin 0) (fadd (Fin 0) (Fin 1.22)))"
  by (simp add: ex_radar_tick lead_vertex_of_def ex_radar_projections ex_radar_fields
      ex_sm_fields ex_sm_more ex_lead_fields)

text \<open>
  C2 (amended).  In every model update, with or without a confident lead, the lane-line
  and road-edge polylines are built with the one \<^verbatim>\<open>max_idx\<close> computed from the last forward
  coordinate of the position clamped to \<open>[MIN_DRAW_DISTANCE, MAX_DRAW_DISTANCE]\<close>; the lead
  does not shorten it.  Only the driving path is built with the index of the distance
  that \<^verbatim>\<open>path_max_distance\<close> shortens when the first lead is confident.
\<close>

theorem lane_max_idx_not_shortened_by_lead:
  assumes "update_model e s model = Inr s'"
  shows "\<exists>x_last lane0 max_idx.
           rd (getX (getPosition model)) (int (TRAJECTORY_SIZE e) - 1) = Inr x_last \<and>
           rd (getLaneLines model) 0 = Inr lane0 \<and>
           get_path_length_idx e lane0
             (fclamp x_last (MIN_DRAW_DISTANCE e) (MAX_DRAW_DISTANCE e)) = Inr max_idx \<and>
           (\<forall>i<length (lane_line_vertices (scene s)).
              \<exists>prob line. rd (getLaneLineProbs model) (int i) = Inr prob \<and>
                rd (getLaneLines model) (int i) = Inr line \<and>
                update_line_data e s line (fmul (Fin 0.025) prob) (Fin 0)
                  (lane_line_vertices (scene s) ! i) max_idx =
                  Inr (lane_line_vertices (scene s') ! i)) \<and>
           (\<forall>i<length (road_edge_vertices (scene s)).
              \<exists>line. rd (getRoadEdges model) (int i) = Inr line \<and>
                update_line_data e s line (Fin 0.025) (Fin 0)
                  (road_edge_vertices (scene s) ! i) max_idx =
                  Inr (road_edge_vertices (scene s') ! i)) \<and>
           (\<exists>max_idx2.
              get_path_length_idx e (getPosition model)
                (path_max_distance (getLeadOne (msg_radarState (sm s)))
                   (fclamp x_last (MIN_DRAW_DISTANCE e) (MAX_DRAW_DISTANCE e))) = Inr max_idx2 \<and>
              update_line_data e s (getPosition model) (Fin 0.5) (Fin 1.22)
                (track_vertices (scene s)) max_idx2 = Inr (track_vertices (scene s')))"
  using assms by (rule update_model_builds)

theorem lane_max_idx_not_shortened_by_lead_witness:
  "\<exists>s'. update_model ex_env ex_state ex_model = Inr s' \<and>
     getStatus (getLeadOne (msg_radarState (sm ex_state))) \<and>
     update_line_data ex_env ex_state ex_line (Fin 0) (Fin 0) ex_pvd 31 =
       Inr (lane_line_vertices (scene s') ! 0) \<and>
     update_line_data ex_env ex_state ex_line (Fin 0.5) (Fin 1.22)
       (track_vertices (scene ex_state)) 5 = Inr (track_vertices (scene s'))"
proof -
  obtain s' where s': "update_model ex_env ex_state ex_model = Inr s'"
    using update_model_total [OF ex_model_wf ex_scene_wf] by blast
  from lane_max_idx_not_shortened_by_lead [OF s'] obtain x_last lane0 max_idx max_idx2 where
    r: "rd (getX (getPosition ex_model)) (int (TRAJECTORY_SIZE ex_env) - 1) = Inr x_last"
    "rd (getLaneLines ex_model) 0 = Inr lane0"
    "get_path_length_idx ex_env lane0
       (fclamp x_last (MIN_DRAW_DISTANCE ex_env) (MAX_DRAW_DISTANCE ex_env)) = Inr max_idx"
    "\<forall>i<length (lane_line_vertices (scene ex_state)).
              \<exists>prob line. rd (getLaneLineProbs ex_model) (int i) = Inr prob \<and>
                rd (getLaneLines ex_model) (int i) = Inr line \<and>
                update_line_data ex_env ex_state line (fmul (Fin 0.025) prob) (Fin 0)
                  (lane_line_vertices (scene ex_state) ! i) max_idx =
                  Inr (lane_line_vertices (scene s') ! i)"
    "get_path_length_idx ex_env (getPosition ex_model)
                (path_max_distance (getLeadOne (msg_radarState (sm ex_state)))
                   (fclamp x_last (MIN_DRAW_DISTANCE ex_env) (MAX_DRAW_DISTANCE ex_env))) = Inr max_idx2"
    and tr: "update_line_data ex_env ex_state (getPosition ex_model) (Fin 0.5) (Fin 1.22)
                (track_vertices (scene ex_state)) max_idx2 = Inr (track_vertices (scene s'))"
    by blast
  from ex_builds_lane0(4,5) [OF r] tr s' show ?thesis
    by (simp add: ex_model_fields ex_lead_fields)
qed

text \<open>
  C2 as stated fails with a confident lead at 5 m: the shortened distance is 6.5 m, which
  gives the index 5 and at most 12 vertices, but the first lane line is built with the index
  31 of the clamped distance 33 m and has 64 vertices.
\<close>

theorem lane_max_idx_shortened_counterexample:
  "getStatus (getLeadOne (msg_radarState (sm ex_state))) \<and>
   lane_line_cnt_of (update_model ex_env ex_state ex_model) 0 = Inr 64 \<and>
   get_path_length_idx ex_env (getLaneLines ex_model ! 0)
     (path_max_distance (getLeadOne (msg_radarState (sm ex_state)))
        (fclamp (Fin 33) (MIN_DRAW_DISTANCE ex_env) (MAX_DRAW_DISTANCE ex_env))) = Inr 5 \<and>
   built_cnt (update_line_data ex_env ex_state (getLaneLines ex_model ! 0) (Fin 0) (Fin 0)
     (lane_line_vertices (scene ex_state) ! 0) 5) = Inr 12"
proof -
  obtain s' where s': "update_model ex_env ex_state ex_model = Inr s'"
    using update_model_total [OF ex_model_wf ex_scene_wf] by blast
  from update_model_builds [OF s'] obtain x_last lane0 max_idx max_idx2 where
    r: "rd (getX (getPosition ex_model)) (int (TRAJECTORY_SIZE ex_env) - 1) = Inr x_last"
    "rd (getLaneLines ex_model) 0 = Inr lane0"
    "get_path_length_idx ex_env lane0
       (fclamp x_last (MIN_DRAW_DISTANCE ex_env) (MAX_DRAW_DISTANCE ex_env)) = Inr max_idx"
    "\<forall>i<length (lane_line_vertices (scene ex_state)).
              \<exists>prob line. rd (getLaneLineProbs ex_model) (int i) = Inr prob \<and>
                rd (getLaneLines ex_model) (int i) = Inr line \<and>
                update_line_data ex_env ex_state line (fmul (Fin 0.025) prob) (Fin 0)
                  (lane_line_vertices (scene ex_state) ! i) max_idx =
                  Inr (lane_line_vertices (scene s') ! i)"
    "get_path_length_idx ex_env (getPosition ex_model)
                (path_max_distance (getLeadOne (msg_radarState (sm ex_state)))
                   (fclamp x_last (MIN_DRAW_DISTANCE ex_env) (MAX_DRAW_DISTANCE ex_env))) = Inr max_idx2"
    by blast
  from ex_builds_lane0(5) [OF r] ex_lane_cnt [of 31]
  have "cnt (lane_line_vertices (scene s') ! 0) = 64"
    by (simp add: built_cnt_def)
  with s' ex_lane_cnt [of 5] show ?thesis
    by (simp add: lane_line_cnt_of_def ex_model_fields fclamp_def ex_short_distance ex_short_idx
        ex_lead_fields)
qed

end
